theory Spec2Isabelle
  imports Main
begin

section \<open>Data model\<close>

text \<open>
  The user service keeps three collections of documents: users, teams and organizations.
  Timestamps are natural numbers; every operation that reads the clock takes the reading
  as the argument \<open>now\<close>, and every operation that draws a fresh identifier
  (\<^verbatim>\<open>uuid.New().String()\<close>) takes it as the argument \<open>newId\<close>.  Role types are string types in the source
  (\<^verbatim>\<open>type OrganizationMemberRole string\<close>, \<^verbatim>\<open>type TeamMemberRole string\<close>), so
  a role is a string here, and the role constants are the source's literals.
\<close>

type_synonym time = nat
type_synonym MemberRole = string

abbreviation OrgRoleOwner :: MemberRole where "OrgRoleOwner \<equiv> ''owner''"
abbreviation OrgRoleAdmin :: MemberRole where "OrgRoleAdmin \<equiv> ''admin''"
abbreviation OrgRoleMember :: MemberRole where "OrgRoleMember \<equiv> ''member''"

abbreviation TeamRoleOwner :: MemberRole where "TeamRoleOwner \<equiv> ''owner''"
abbreviation TeamRoleAdmin :: MemberRole where "TeamRoleAdmin \<equiv> ''admin''"
abbreviation TeamRoleMember :: MemberRole where "TeamRoleMember \<equiv> ''member''"
abbreviation TeamRoleViewer :: MemberRole where "TeamRoleViewer \<equiv> ''viewer''"

text \<open>
  \<^verbatim>\<open>OrganizationMember\<close> and \<^verbatim>\<open>TeamMember\<close> have the same four fields; one record
  serves both.
\<close>

record Member =
  UserID :: string
  Role :: MemberRole
  JoinedAt :: time
  InvitedBy :: string

record OrganizationFeatures =
  AllowPublicEvents :: bool
  AllowExternalUsers :: bool
  EnableTeams :: bool

record OrganizationBranding =
  PrimaryColor :: string
  SecondaryColor :: string
  brand_LogoURL :: string
  FaviconURL :: string

record OrganizationSettings =
  DefaultUserRole :: MemberRole
  Features :: OrganizationFeatures
  Branding :: OrganizationBranding

record Organization =
  org_ID :: string
  org_Name :: string
  org_Description :: string
  org_LogoURL :: string
  org_Website :: string
  org_Industry :: string
  org_Size :: string
  org_Location :: string
  org_CreatedBy :: string
  org_CreatedAt :: time
  org_UpdatedAt :: time
  org_Members :: "Member list"
  org_TeamIDs :: "string list"
  org_Settings :: OrganizationSettings

record Team =
  team_ID :: string
  team_Name :: string
  team_Description :: string
  team_LogoURL :: string
  team_OrganizationID :: string
  team_CreatedBy :: string
  team_CreatedAt :: time
  team_UpdatedAt :: time
  team_Members :: "Member list"

record NotificationSettings =
  notify_Email :: bool
  notify_Push :: bool
  notify_InApp :: bool

record PrivacySettings =
  ShowProfileToEveryone :: bool
  ShowEmailToEveryone :: bool

record UserPreferences =
  Language :: string
  Theme :: string
  Timezone :: string
  Notifications :: NotificationSettings
  Privacy :: PrivacySettings

text \<open>
  The optional profile strings of a user (picture, bio, job title, company, location,
  phone, website, social links, last login) are left at their zero value by every
  function modelled here and are not part of the record.
\<close>

record User =
  user_ID :: string
  user_UserID :: string
  user_Email :: string
  user_FirstName :: string
  user_LastName :: string
  user_Role :: string
  user_Status :: string
  user_Preferences :: UserPreferences
  user_CreatedAt :: time
  user_UpdatedAt :: time
  user_OrganizationIDs :: "string list"
  user_TeamIDs :: "string list"

abbreviation RoleUser :: string where "RoleUser \<equiv> ''user''"
abbreviation RolePresenter :: string where "RolePresenter \<equiv> ''presenter''"
abbreviation RoleAdmin :: string where "RoleAdmin \<equiv> ''admin''"
abbreviation StatusActive :: string where "StatusActive \<equiv> ''active''"

record store =
  organizations :: "Organization list"
  teams :: "Team list"
  users :: "User list"

subsection \<open>Errors and store faults\<close>

text \<open>
  \<open>ErrNew msg\<close> is \<^verbatim>\<open>errors.New(msg)\<close>; \<open>ErrNoDocuments\<close> is the driver's not-found
  signal; \<open>ErrInvalidHex\<close> is the error of \<^verbatim>\<open>primitive.ObjectIDFromHex\<close> for a
  string it refuses; \<open>StoreErr\<close> is any failure of a store call (unreachable store,
  timeout, a duplicate key); \<open>NilDeref\<close> is the panic of reading a field through a
  nil pointer.
\<close>

datatype error = ErrNew string | ErrNoDocuments | ErrInvalidHex | StoreErr | NilDeref

text \<open>
  The organization and team repositories address a document by the driver's
  \<^verbatim>\<open>ObjectID\<close>: every method that takes an identifier first converts the string with
  \<^verbatim>\<open>primitive.ObjectIDFromHex\<close> and returns its error before any store call.  The
  conversion accepts exactly the strings of 24 hexadecimal digits, in either case: it
  refuses a string whose length is not 24 and a string with a character that the
  hexadecimal decoding rejects.  Which of the driver's error values a refused string
  gets is not distinguished here.  An \<^verbatim>\<open>ObjectID\<close> is held here as its
  lower-case hexadecimal string, which is also what the field \<^verbatim>\<open>ID string\<close> of a
  document read from the store holds when the document's \<^verbatim>\<open>_id\<close> is an
  \<^verbatim>\<open>ObjectID\<close>.
\<close>

definition hex_digit :: "char \<Rightarrow> bool" where
  "hex_digit c = (c \<in> set ''0123456789abcdefABCDEF'')"

definition lower_hex :: "char \<Rightarrow> char" where
  "lower_hex c =
     (if c = CHR ''A'' then CHR ''a'' else if c = CHR ''B'' then CHR ''b''
      else if c = CHR ''C'' then CHR ''c'' else if c = CHR ''D'' then CHR ''d''
      else if c = CHR ''E'' then CHR ''e'' else if c = CHR ''F'' then CHR ''f'' else c)"

definition ObjectIDFromHex :: "string \<Rightarrow> error + string" where
  "ObjectIDFromHex s =
     (if length s = 24 \<and> list_all hex_digit s then Inr (map lower_hex s)
      else Inl ErrInvalidHex)"

text \<open>
  Each repository method may fail: a \<open>call\<close> names the method and the keys it was called
  with, and a fault assignment says which calls fail.  A failing call returns \<open>StoreErr\<close>
  and writes nothing.
\<close>

datatype call =
    OrgGetByID string
  | OrgCreate string
  | OrgUpdate string
  | OrgDelete string
  | OrgAddMember string string
  | OrgRemoveMember string string
  | OrgAddTeam string string
  | OrgRemoveTeam string string
  | TeamGetByID string
  | TeamCreate string
  | TeamUpdate string
  | TeamDelete string
  | TeamAddMember string string
  | TeamRemoveMember string string
  | UserGetByUserId string
  | UserCreate string
  | UserAddOrganization string string
  | UserRemoveOrganization string string
  | UserAddTeam string string
  | UserRemoveTeam string string

type_synonym faults = "call \<Rightarrow> bool"

section \<open>Pagination of the list queries\<close>







section \<open>Membership lists (models package)\<close>

text \<open>
  \<^verbatim>\<open>GetMember\<close>, \<^verbatim>\<open>IsMember\<close> and \<^verbatim>\<open>HasRole\<close> have the same body on
  \<^verbatim>\<open>Organization\<close> and on \<^verbatim>\<open>Team\<close>; they are defined once, on the member list.
  \<^verbatim>\<open>GetMember\<close> returns the first entry with the given user id, or nil.
\<close>

definition GetMember :: "Member list \<Rightarrow> string \<Rightarrow> Member option" where
  "GetMember ms userID = find (\<lambda>member. UserID member = userID) ms"

definition IsMember :: "Member list \<Rightarrow> string \<Rightarrow> bool" where
  "IsMember ms userID = (GetMember ms userID \<noteq> None)"

definition HasRole :: "Member list \<Rightarrow> string \<Rightarrow> MemberRole list \<Rightarrow> bool" where
  "HasRole ms userID roles =
     (case GetMember ms userID of
        None \<Rightarrow> False
      | Some member \<Rightarrow> Role member \<in> set roles)"

text \<open>The owner-counting loop of the update and remove methods of both services.\<close>

fun ownerCount :: "Member list \<Rightarrow> nat" where
  "ownerCount [] = 0"
| "ownerCount (m # ms) = (if Role m = ''owner'' then 1 else 0) + ownerCount ms"

text \<open>
  Collections and member lists are searched from the front: \<open>update_first\<close> changes the
  first element that matches and \<open>delete_first\<close> removes it; neither does anything when
  no element matches.
\<close>

fun update_first :: "('a \<Rightarrow> bool) \<Rightarrow> ('a \<Rightarrow> 'a) \<Rightarrow> 'a list \<Rightarrow> 'a list" where
  "update_first P f [] = []"
| "update_first P f (x # xs) = (if P x then f x # xs else x # update_first P f xs)"

fun delete_first :: "('a \<Rightarrow> bool) \<Rightarrow> 'a list \<Rightarrow> 'a list" where
  "delete_first P [] = []"
| "delete_first P (x # xs) = (if P x then xs else x # delete_first P xs)"

text \<open>
  The in-memory \<^verbatim>\<open>AddMember\<close>, \<^verbatim>\<open>UpdateMember\<close> and \<^verbatim>\<open>RemoveMember\<close> of
  \<^verbatim>\<open>Team\<close> and \<^verbatim>\<open>Organization\<close>: each returns whether it changed the aggregate,
  and the aggregate.
\<close>

definition Team_AddMember ::
  "time \<Rightarrow> string \<Rightarrow> MemberRole \<Rightarrow> string \<Rightarrow> Team \<Rightarrow> bool \<times> Team" where
  "Team_AddMember now userID role invitedBy t =
     (case GetMember (team_Members t) userID of
        Some member \<Rightarrow>
          if Role member \<noteq> role
          then (True, t\<lparr>team_Members :=
                          update_first (\<lambda>m. UserID m = userID) (\<lambda>m. m\<lparr>Role := role\<rparr>) (team_Members t),
                        team_UpdatedAt := now\<rparr>)
          else (False, t)
      | None \<Rightarrow>
          (True, t\<lparr>team_Members := team_Members t @
                      [\<lparr>UserID = userID, Role = role, JoinedAt = now, InvitedBy = invitedBy\<rparr>],
                    team_UpdatedAt := now\<rparr>))"

definition Team_UpdateMember :: "time \<Rightarrow> string \<Rightarrow> MemberRole \<Rightarrow> Team \<Rightarrow> bool \<times> Team" where
  "Team_UpdateMember now userID role t =
     (case GetMember (team_Members t) userID of
        Some member \<Rightarrow>
          if Role member \<noteq> role
          then (True, t\<lparr>team_Members :=
                          update_first (\<lambda>m. UserID m = userID) (\<lambda>m. m\<lparr>Role := role\<rparr>) (team_Members t),
                        team_UpdatedAt := now\<rparr>)
          else (False, t)
      | None \<Rightarrow> (False, t))"

definition Team_RemoveMember :: "time \<Rightarrow> string \<Rightarrow> Team \<Rightarrow> bool \<times> Team" where
  "Team_RemoveMember now userID t =
     (case GetMember (team_Members t) userID of
        Some member \<Rightarrow>
          (True, t\<lparr>team_Members := delete_first (\<lambda>m. UserID m = userID) (team_Members t),
                    team_UpdatedAt := now\<rparr>)
      | None \<Rightarrow> (False, t))"

definition Organization_AddMember ::
  "time \<Rightarrow> string \<Rightarrow> MemberRole \<Rightarrow> string \<Rightarrow> Organization \<Rightarrow> bool \<times> Organization" where
  "Organization_AddMember now userID role invitedBy org =
     (case GetMember (org_Members org) userID of
        Some member \<Rightarrow>
          if Role member \<noteq> role
          then (True, org\<lparr>org_Members :=
                            update_first (\<lambda>m. UserID m = userID) (\<lambda>m. m\<lparr>Role := role\<rparr>) (org_Members org),
                          org_UpdatedAt := now\<rparr>)
          else (False, org)
      | None \<Rightarrow>
          (True, org\<lparr>org_Members := org_Members org @
                        [\<lparr>UserID = userID, Role = role, JoinedAt = now, InvitedBy = invitedBy\<rparr>],
                      org_UpdatedAt := now\<rparr>))"

definition Organization_UpdateMember ::
  "time \<Rightarrow> string \<Rightarrow> MemberRole \<Rightarrow> Organization \<Rightarrow> bool \<times> Organization" where
  "Organization_UpdateMember now userID role org =
     (case GetMember (org_Members org) userID of
        Some member \<Rightarrow>
          if Role member \<noteq> role
          then (True, org\<lparr>org_Members :=
                            update_first (\<lambda>m. UserID m = userID) (\<lambda>m. m\<lparr>Role := role\<rparr>) (org_Members org),
                          org_UpdatedAt := now\<rparr>)
          else (False, org)
      | None \<Rightarrow> (False, org))"

definition Organization_RemoveMember :: "time \<Rightarrow> string \<Rightarrow> Organization \<Rightarrow> bool \<times> Organization" where
  "Organization_RemoveMember now userID org =
     (case GetMember (org_Members org) userID of
        Some member \<Rightarrow>
          (True, org\<lparr>org_Members := delete_first (\<lambda>m. UserID m = userID) (org_Members org),
                      org_UpdatedAt := now\<rparr>)
      | None \<Rightarrow> (False, org))"

subsection \<open>Constructors and update requests\<close>

record CreateOrganizationRequest =
  corg_Name :: string
  corg_Description :: string
  corg_LogoURL :: string
  corg_Website :: string
  corg_Industry :: string
  corg_Size :: string
  corg_Location :: string

definition NewOrganization ::
  "time \<Rightarrow> string \<Rightarrow> CreateOrganizationRequest \<Rightarrow> string \<Rightarrow> Organization" where
  "NewOrganization now newId req createdBy =
     \<lparr>org_ID = newId, org_Name = corg_Name req, org_Description = corg_Description req,
      org_LogoURL = corg_LogoURL req, org_Website = corg_Website req,
      org_Industry = corg_Industry req, org_Size = corg_Size req,
      org_Location = corg_Location req, org_CreatedBy = createdBy,
      org_CreatedAt = now, org_UpdatedAt = now,
      org_Members = [\<lparr>UserID = createdBy, Role = OrgRoleOwner, JoinedAt = now, InvitedBy = []\<rparr>],
      org_TeamIDs = [],
      org_Settings =
        \<lparr>DefaultUserRole = OrgRoleMember,
         Features = \<lparr>AllowPublicEvents = True, AllowExternalUsers = False, EnableTeams = True\<rparr>,
         Branding = \<lparr>PrimaryColor = ''#3f51b5'', SecondaryColor = ''#f50057'',
                     brand_LogoURL = [], FaviconURL = []\<rparr>\<rparr>\<rparr>"

record CreateTeamRequest =
  cteam_Name :: string
  cteam_Description :: string
  cteam_LogoURL :: string
  cteam_OrganizationID :: string

definition NewTeam :: "time \<Rightarrow> string \<Rightarrow> CreateTeamRequest \<Rightarrow> string \<Rightarrow> Team" where
  "NewTeam now newId req createdBy =
     \<lparr>team_ID = newId, team_Name = cteam_Name req, team_Description = cteam_Description req,
      team_LogoURL = cteam_LogoURL req, team_OrganizationID = cteam_OrganizationID req,
      team_CreatedBy = createdBy, team_CreatedAt = now, team_UpdatedAt = now,
      team_Members = [\<lparr>UserID = createdBy, Role = TeamRoleOwner, JoinedAt = now, InvitedBy = []\<rparr>]\<rparr>"

record CreateUserRequest =
  cuser_UserID :: string
  cuser_Email :: string
  cuser_FirstName :: string
  cuser_LastName :: string
  cuser_Role :: string

definition NewUser :: "time \<Rightarrow> string \<Rightarrow> CreateUserRequest \<Rightarrow> User" where
  "NewUser now newId req =
     \<lparr>user_ID = newId, user_UserID = cuser_UserID req, user_Email = cuser_Email req,
      user_FirstName = cuser_FirstName req, user_LastName = cuser_LastName req,
      user_Role = cuser_Role req, user_Status = StatusActive,
      user_Preferences =
        \<lparr>Language = ''en'', Theme = ''light'', Timezone = ''UTC'',
         Notifications = \<lparr>notify_Email = True, notify_Push = True, notify_InApp = True\<rparr>,
         Privacy = \<lparr>ShowProfileToEveryone = True, ShowEmailToEveryone = False\<rparr>\<rparr>,
      user_CreatedAt = now, user_UpdatedAt = now,
      user_OrganizationIDs = [], user_TeamIDs = []\<rparr>"

text \<open>
  A request field of pointer type is an option; \<^verbatim>\<open>if p != nil { x = *p }\<close> is
  \<open>assign p x\<close>.
\<close>

definition assign :: "'a option \<Rightarrow> 'a \<Rightarrow> 'a" where
  "assign p old = (case p of None \<Rightarrow> old | Some v \<Rightarrow> v)"

record UpdateFeatures =
  upd_AllowPublicEvents :: "bool option"
  upd_AllowExternalUsers :: "bool option"
  upd_EnableTeams :: "bool option"

record UpdateBranding =
  upd_PrimaryColor :: "string option"
  upd_SecondaryColor :: "string option"
  upd_LogoURL :: "string option"
  upd_FaviconURL :: "string option"

record UpdateOrganizationSettings =
  upd_DefaultUserRole :: "MemberRole option"
  upd_Features :: "UpdateFeatures option"
  upd_Branding :: "UpdateBranding option"

record UpdateOrganizationRequest =
  uorg_Name :: "string option"
  uorg_Description :: "string option"
  uorg_LogoURL :: "string option"
  uorg_Website :: "string option"
  uorg_Industry :: "string option"
  uorg_Size :: "string option"
  uorg_Location :: "string option"
  uorg_Settings :: "UpdateOrganizationSettings option"

definition apply_features :: "UpdateFeatures option \<Rightarrow> OrganizationFeatures \<Rightarrow> OrganizationFeatures" where
  "apply_features p f =
     (case p of
        None \<Rightarrow> f
      | Some u \<Rightarrow>
          \<lparr>AllowPublicEvents = assign (upd_AllowPublicEvents u) (AllowPublicEvents f),
           AllowExternalUsers = assign (upd_AllowExternalUsers u) (AllowExternalUsers f),
           EnableTeams = assign (upd_EnableTeams u) (EnableTeams f)\<rparr>)"

definition apply_branding :: "UpdateBranding option \<Rightarrow> OrganizationBranding \<Rightarrow> OrganizationBranding" where
  "apply_branding p b =
     (case p of
        None \<Rightarrow> b
      | Some u \<Rightarrow>
          \<lparr>PrimaryColor = assign (upd_PrimaryColor u) (PrimaryColor b),
           SecondaryColor = assign (upd_SecondaryColor u) (SecondaryColor b),
           brand_LogoURL = assign (upd_LogoURL u) (brand_LogoURL b),
           FaviconURL = assign (upd_FaviconURL u) (FaviconURL b)\<rparr>)"

definition apply_settings ::
  "UpdateOrganizationSettings option \<Rightarrow> OrganizationSettings \<Rightarrow> OrganizationSettings" where
  "apply_settings p st =
     (case p of
        None \<Rightarrow> st
      | Some u \<Rightarrow>
          \<lparr>DefaultUserRole = assign (upd_DefaultUserRole u) (DefaultUserRole st),
           Features = apply_features (upd_Features u) (Features st),
           Branding = apply_branding (upd_Branding u) (Branding st)\<rparr>)"

definition Organization_Apply :: "time \<Rightarrow> UpdateOrganizationRequest \<Rightarrow> Organization \<Rightarrow> Organization" where
  "Organization_Apply now req org =
     org\<lparr>org_UpdatedAt := now,
         org_Name := assign (uorg_Name req) (org_Name org),
         org_Description := assign (uorg_Description req) (org_Description org),
         org_LogoURL := assign (uorg_LogoURL req) (org_LogoURL org),
         org_Website := assign (uorg_Website req) (org_Website org),
         org_Industry := assign (uorg_Industry req) (org_Industry org),
         org_Size := assign (uorg_Size req) (org_Size org),
         org_Location := assign (uorg_Location req) (org_Location org),
         org_Settings := apply_settings (uorg_Settings req) (org_Settings org)\<rparr>"

record UpdateTeamRequest =
  uteam_Name :: "string option"
  uteam_Description :: "string option"
  uteam_LogoURL :: "string option"

definition Team_Apply :: "time \<Rightarrow> UpdateTeamRequest \<Rightarrow> Team \<Rightarrow> Team" where
  "Team_Apply now req t =
     t\<lparr>team_UpdatedAt := now,
       team_Name := assign (uteam_Name req) (team_Name t),
       team_Description := assign (uteam_Description req) (team_Description t),
       team_LogoURL := assign (uteam_LogoURL req) (team_LogoURL t)\<rparr>"


section \<open>Repositories\<close>

text \<open>
  A method that returns only an error returns \<open>error option\<close> (\<open>None\<close> is nil) together
  with the store; a method that returns a value and an error returns \<open>error + value\<close>.
  A method of the organization or team repository that takes a document identifier
  converts it first and returns the conversion's error with nothing read or written.
  The filter and the write after it are one store call: it fails as a whole
  (\<open>StoreErr\<close>, nothing written) when the fault assignment says so.  An update whose
  filter matches no document is not an error.
\<close>

definition addToSet :: "string \<Rightarrow> string list \<Rightarrow> string list" where
  "addToSet x xs = (if x \<in> set xs then xs else xs @ [x])"

definition pull :: "string \<Rightarrow> string list \<Rightarrow> string list" where
  "pull x xs = filter (\<lambda>y. y \<noteq> x) xs"

subsection \<open>OrganizationRepository\<close>

definition OrganizationRepository_GetByID :: "faults \<Rightarrow> store \<Rightarrow> string \<Rightarrow> error + Organization" where
  "OrganizationRepository_GetByID F s ident =
     (case ObjectIDFromHex ident of
        Inl err \<Rightarrow> Inl err
      | Inr objID \<Rightarrow>
          if F (OrgGetByID ident) then Inl StoreErr
          else (case find (\<lambda>d. org_ID d = objID) (organizations s) of
                  None \<Rightarrow> Inl ErrNoDocuments
                | Some org \<Rightarrow> Inr org))"

definition OrganizationRepository_Create :: "faults \<Rightarrow> Organization \<Rightarrow> store \<Rightarrow> error option \<times> store" where
  "OrganizationRepository_Create F org s =
     (if F (OrgCreate (org_ID org)) then (Some StoreErr, s)
      else if find (\<lambda>d. org_Name d = org_Name org) (organizations s) \<noteq> None
      then (Some (ErrNew ''organization with this name already exists''), s)
      else if find (\<lambda>d. org_ID d = org_ID org) (organizations s) \<noteq> None
      then (Some StoreErr, s)
      else (None, s\<lparr>organizations := organizations s @ [org]\<rparr>))"

definition OrganizationRepository_Update ::
  "faults \<Rightarrow> time \<Rightarrow> Organization \<Rightarrow> store \<Rightarrow> error option \<times> store" where
  "OrganizationRepository_Update F now org s =
     (case ObjectIDFromHex (org_ID org) of
        Inl err \<Rightarrow> (Some err, s)
      | Inr objID \<Rightarrow>
          (if F (OrgUpdate (org_ID org)) then (Some StoreErr, s)
           else if (case find (\<lambda>d. org_Name d = org_Name org) (organizations s) of
                      None \<Rightarrow> False
                    | Some existingOrg \<Rightarrow> org_ID existingOrg \<noteq> org_ID org)
           then (Some (ErrNew ''another organization with this name already exists''), s)
           else (None, s\<lparr>organizations :=
                   update_first (\<lambda>d. org_ID d = objID)
                     (\<lambda>d. d\<lparr>org_Name := org_Name org, org_Description := org_Description org,
                            org_LogoURL := org_LogoURL org, org_Website := org_Website org,
                            org_Industry := org_Industry org, org_Size := org_Size org,
                            org_Location := org_Location org, org_Members := org_Members org,
                            org_Settings := org_Settings org, org_UpdatedAt := now\<rparr>)
                     (organizations s)\<rparr>)))"

definition OrganizationRepository_Delete :: "faults \<Rightarrow> string \<Rightarrow> store \<Rightarrow> error option \<times> store" where
  "OrganizationRepository_Delete F ident s =
     (case ObjectIDFromHex ident of
        Inl err \<Rightarrow> (Some err, s)
      | Inr objID \<Rightarrow>
          (if F (OrgDelete ident) then (Some StoreErr, s)
           else (None, s\<lparr>organizations := delete_first (\<lambda>d. org_ID d = objID) (organizations s)\<rparr>)))"

text \<open>
  \<^verbatim>\<open>AddMember\<close> counts the documents with this id that have a member with this user
  id.  When there is one, the positional update \<^verbatim>\<open>members.$.role\<close> sets the role of
  the first such member and nothing else of it; otherwise a new member is pushed onto
  the document with this id.
\<close>

definition OrganizationRepository_AddMember ::
  "faults \<Rightarrow> time \<Rightarrow> string \<Rightarrow> string \<Rightarrow> MemberRole \<Rightarrow> string \<Rightarrow> store \<Rightarrow> error option \<times> store" where
  "OrganizationRepository_AddMember F now orgID userID role invitedBy s =
     (case ObjectIDFromHex orgID of
        Inl err \<Rightarrow> (Some err, s)
      | Inr objID \<Rightarrow>
          (if F (OrgAddMember orgID userID) then (Some StoreErr, s)
           else if find (\<lambda>d. org_ID d = objID \<and> IsMember (org_Members d) userID) (organizations s) \<noteq> None
           then (None, s\<lparr>organizations :=
                   update_first (\<lambda>d. org_ID d = objID \<and> IsMember (org_Members d) userID)
                     (\<lambda>d. d\<lparr>org_Members :=
                              update_first (\<lambda>m. UserID m = userID) (\<lambda>m. m\<lparr>Role := role\<rparr>) (org_Members d),
                            org_UpdatedAt := now\<rparr>)
                     (organizations s)\<rparr>)
           else (None, s\<lparr>organizations :=
                   update_first (\<lambda>d. org_ID d = objID)
                     (\<lambda>d. d\<lparr>org_Members := org_Members d @
                              [\<lparr>UserID = userID, Role = role, JoinedAt = now, InvitedBy = invitedBy\<rparr>],
                            org_UpdatedAt := now\<rparr>)
                     (organizations s)\<rparr>)))"

text \<open>
  \<^verbatim>\<open>RemoveMember\<close> pulls every member with this user id and sets \<^verbatim>\<open>updatedAt\<close>; the
  driver's \<^verbatim>\<open>ModifiedCount\<close> is 0 when no document matched or the matched document
  did not change, and then the method returns its not-found error.
\<close>

definition OrganizationRepository_RemoveMember ::
  "faults \<Rightarrow> time \<Rightarrow> string \<Rightarrow> string \<Rightarrow> store \<Rightarrow> error option \<times> store" where
  "OrganizationRepository_RemoveMember F now orgID userID s =
     (case ObjectIDFromHex orgID of
        Inl err \<Rightarrow> (Some err, s)
      | Inr objID \<Rightarrow>
          (if F (OrgRemoveMember orgID userID) then (Some StoreErr, s)
           else let orgs' = update_first (\<lambda>d. org_ID d = objID)
                              (\<lambda>d. d\<lparr>org_Members := filter (\<lambda>m. UserID m \<noteq> userID) (org_Members d),
                                     org_UpdatedAt := now\<rparr>)
                              (organizations s)
                in if orgs' = organizations s
                   then (Some (ErrNew ''member not found in organization''), s)
                   else (None, s\<lparr>organizations := orgs'\<rparr>)))"

definition OrganizationRepository_AddTeam ::
  "faults \<Rightarrow> time \<Rightarrow> string \<Rightarrow> string \<Rightarrow> store \<Rightarrow> error option \<times> store" where
  "OrganizationRepository_AddTeam F now orgID teamID s =
     (case ObjectIDFromHex orgID of
        Inl err \<Rightarrow> (Some err, s)
      | Inr objID \<Rightarrow>
          (if F (OrgAddTeam orgID teamID) then (Some StoreErr, s)
           else (None, s\<lparr>organizations :=
                   update_first (\<lambda>d. org_ID d = objID)
                     (\<lambda>d. d\<lparr>org_TeamIDs := addToSet teamID (org_TeamIDs d), org_UpdatedAt := now\<rparr>)
                     (organizations s)\<rparr>)))"

definition OrganizationRepository_RemoveTeam ::
  "faults \<Rightarrow> time \<Rightarrow> string \<Rightarrow> string \<Rightarrow> store \<Rightarrow> error option \<times> store" where
  "OrganizationRepository_RemoveTeam F now orgID teamID s =
     (case ObjectIDFromHex orgID of
        Inl err \<Rightarrow> (Some err, s)
      | Inr objID \<Rightarrow>
          (if F (OrgRemoveTeam orgID teamID) then (Some StoreErr, s)
           else let orgs' = update_first (\<lambda>d. org_ID d = objID)
                              (\<lambda>d. d\<lparr>org_TeamIDs := pull teamID (org_TeamIDs d), org_UpdatedAt := now\<rparr>)
                              (organizations s)
                in if orgs' = organizations s
                   then (Some (ErrNew ''team not found in organization''), s)
                   else (None, s\<lparr>organizations := orgs'\<rparr>)))"

subsection \<open>TeamRepository\<close>

definition TeamRepository_GetByID :: "faults \<Rightarrow> store \<Rightarrow> string \<Rightarrow> error + Team" where
  "TeamRepository_GetByID F s ident =
     (case ObjectIDFromHex ident of
        Inl err \<Rightarrow> Inl err
      | Inr objID \<Rightarrow>
          if F (TeamGetByID ident) then Inl StoreErr
          else (case find (\<lambda>d. team_ID d = objID) (teams s) of
                  None \<Rightarrow> Inl ErrNoDocuments
                | Some team \<Rightarrow> Inr team))"

definition TeamRepository_Create :: "faults \<Rightarrow> Team \<Rightarrow> store \<Rightarrow> error option \<times> store" where
  "TeamRepository_Create F team s =
     (if F (TeamCreate (team_ID team)) then (Some StoreErr, s)
      else if find (\<lambda>d. team_Name d = team_Name team \<and>
                         team_OrganizationID d = team_OrganizationID team) (teams s) \<noteq> None
      then (Some (ErrNew ''team with this name already exists in the organization''), s)
      else if find (\<lambda>d. team_ID d = team_ID team) (teams s) \<noteq> None
      then (Some StoreErr, s)
      else (None, s\<lparr>teams := teams s @ [team]\<rparr>))"

definition TeamRepository_Update :: "faults \<Rightarrow> time \<Rightarrow> Team \<Rightarrow> store \<Rightarrow> error option \<times> store" where
  "TeamRepository_Update F now team s =
     (case ObjectIDFromHex (team_ID team) of
        Inl err \<Rightarrow> (Some err, s)
      | Inr objID \<Rightarrow>
          (if F (TeamUpdate (team_ID team)) then (Some StoreErr, s)
           else if (case find (\<lambda>d. team_Name d = team_Name team \<and>
                                   team_OrganizationID d = team_OrganizationID team) (teams s) of
                      None \<Rightarrow> False
                    | Some existingTeam \<Rightarrow> team_ID existingTeam \<noteq> team_ID team)
           then (Some (ErrNew ''another team with this name already exists in the organization''), s)
           else (None, s\<lparr>teams :=
                   update_first (\<lambda>d. team_ID d = objID)
                     (\<lambda>d. d\<lparr>team_Name := team_Name team, team_Description := team_Description team,
                            team_LogoURL := team_LogoURL team, team_Members := team_Members team,
                            team_UpdatedAt := now\<rparr>)
                     (teams s)\<rparr>)))"

definition TeamRepository_Delete :: "faults \<Rightarrow> string \<Rightarrow> store \<Rightarrow> error option \<times> store" where
  "TeamRepository_Delete F ident s =
     (case ObjectIDFromHex ident of
        Inl err \<Rightarrow> (Some err, s)
      | Inr objID \<Rightarrow>
          (if F (TeamDelete ident) then (Some StoreErr, s)
           else (None, s\<lparr>teams := delete_first (\<lambda>d. team_ID d = objID) (teams s)\<rparr>)))"

definition TeamRepository_AddMember ::
  "faults \<Rightarrow> time \<Rightarrow> string \<Rightarrow> string \<Rightarrow> MemberRole \<Rightarrow> string \<Rightarrow> store \<Rightarrow> error option \<times> store" where
  "TeamRepository_AddMember F now teamID userID role invitedBy s =
     (case ObjectIDFromHex teamID of
        Inl err \<Rightarrow> (Some err, s)
      | Inr objID \<Rightarrow>
          (if F (TeamAddMember teamID userID) then (Some StoreErr, s)
           else if find (\<lambda>d. team_ID d = objID \<and> IsMember (team_Members d) userID) (teams s) \<noteq> None
           then (None, s\<lparr>teams :=
                   update_first (\<lambda>d. team_ID d = objID \<and> IsMember (team_Members d) userID)
                     (\<lambda>d. d\<lparr>team_Members :=
                              update_first (\<lambda>m. UserID m = userID) (\<lambda>m. m\<lparr>Role := role\<rparr>) (team_Members d),
                            team_UpdatedAt := now\<rparr>)
                     (teams s)\<rparr>)
           else (None, s\<lparr>teams :=
                   update_first (\<lambda>d. team_ID d = objID)
                     (\<lambda>d. d\<lparr>team_Members := team_Members d @
                              [\<lparr>UserID = userID, Role = role, JoinedAt = now, InvitedBy = invitedBy\<rparr>],
                            team_UpdatedAt := now\<rparr>)
                     (teams s)\<rparr>)))"

definition TeamRepository_RemoveMember ::
  "faults \<Rightarrow> time \<Rightarrow> string \<Rightarrow> string \<Rightarrow> store \<Rightarrow> error option \<times> store" where
  "TeamRepository_RemoveMember F now teamID userID s =
     (case ObjectIDFromHex teamID of
        Inl err \<Rightarrow> (Some err, s)
      | Inr objID \<Rightarrow>
          (if F (TeamRemoveMember teamID userID) then (Some StoreErr, s)
           else let teams' = update_first (\<lambda>d. team_ID d = objID)
                               (\<lambda>d. d\<lparr>team_Members := filter (\<lambda>m. UserID m \<noteq> userID) (team_Members d),
                                      team_UpdatedAt := now\<rparr>)
                               (teams s)
                in if teams' = teams s
                   then (Some (ErrNew ''member not found in team''), s)
                   else (None, s\<lparr>teams := teams'\<rparr>)))"

subsection \<open>UserRepository\<close>

definition UserRepository_GetByUserId :: "faults \<Rightarrow> store \<Rightarrow> string \<Rightarrow> error + User" where
  "UserRepository_GetByUserId F s userId =
     (if F (UserGetByUserId userId) then Inl StoreErr
      else case find (\<lambda>u. user_UserID u = userId) (users s) of
             None \<Rightarrow> Inl ErrNoDocuments
           | Some user \<Rightarrow> Inr user)"

definition UserRepository_Create :: "faults \<Rightarrow> User \<Rightarrow> store \<Rightarrow> error option \<times> store" where
  "UserRepository_Create F user s =
     (if F (UserCreate (user_UserID user)) then (Some StoreErr, s)
      else if find (\<lambda>u. user_UserID u = user_UserID user) (users s) \<noteq> None
      then (Some (ErrNew ''user with this userId already exists''), s)
      else if find (\<lambda>u. user_Email u = user_Email user) (users s) \<noteq> None
      then (Some (ErrNew ''user with this email already exists''), s)
      else if find (\<lambda>u. user_ID u = user_ID user) (users s) \<noteq> None
      then (Some StoreErr, s)
      else (None, s\<lparr>users := users s @ [user]\<rparr>))"

definition UserRepository_AddOrganizationToUser ::
  "faults \<Rightarrow> time \<Rightarrow> string \<Rightarrow> string \<Rightarrow> store \<Rightarrow> error option \<times> store" where
  "UserRepository_AddOrganizationToUser F now userId organizationId s =
     (if F (UserAddOrganization userId organizationId) then (Some StoreErr, s)
      else (None, s\<lparr>users :=
              update_first (\<lambda>u. user_UserID u = userId)
                (\<lambda>u. u\<lparr>user_OrganizationIDs := addToSet organizationId (user_OrganizationIDs u),
                       user_UpdatedAt := now\<rparr>)
                (users s)\<rparr>))"

definition UserRepository_RemoveOrganizationFromUser ::
  "faults \<Rightarrow> time \<Rightarrow> string \<Rightarrow> string \<Rightarrow> store \<Rightarrow> error option \<times> store" where
  "UserRepository_RemoveOrganizationFromUser F now userId organizationId s =
     (if F (UserRemoveOrganization userId organizationId) then (Some StoreErr, s)
      else (None, s\<lparr>users :=
              update_first (\<lambda>u. user_UserID u = userId)
                (\<lambda>u. u\<lparr>user_OrganizationIDs := pull organizationId (user_OrganizationIDs u),
                       user_UpdatedAt := now\<rparr>)
                (users s)\<rparr>))"

definition UserRepository_AddTeamToUser ::
  "faults \<Rightarrow> time \<Rightarrow> string \<Rightarrow> string \<Rightarrow> store \<Rightarrow> error option \<times> store" where
  "UserRepository_AddTeamToUser F now userId teamId s =
     (if F (UserAddTeam userId teamId) then (Some StoreErr, s)
      else (None, s\<lparr>users :=
              update_first (\<lambda>u. user_UserID u = userId)
                (\<lambda>u. u\<lparr>user_TeamIDs := addToSet teamId (user_TeamIDs u), user_UpdatedAt := now\<rparr>)
                (users s)\<rparr>))"

definition UserRepository_RemoveTeamFromUser ::
  "faults \<Rightarrow> time \<Rightarrow> string \<Rightarrow> string \<Rightarrow> store \<Rightarrow> error option \<times> store" where
  "UserRepository_RemoveTeamFromUser F now userId teamId s =
     (if F (UserRemoveTeam userId teamId) then (Some StoreErr, s)
      else (None, s\<lparr>users :=
              update_first (\<lambda>u. user_UserID u = userId)
                (\<lambda>u. u\<lparr>user_TeamIDs := pull teamId (user_TeamIDs u), user_UpdatedAt := now\<rparr>)
                (users s)\<rparr>))"


section \<open>Services\<close>

text \<open>
  The services publish their events from goroutines whose outcome is only logged, and
  re-read the aggregate after a membership write only to fill in the event; neither
  changes the store or the returned error, so neither appears below.  An error that a
  service only logs is dropped with \<open>snd\<close>.
\<close>

definition notFoundAs :: "string \<Rightarrow> error \<Rightarrow> error" where
  "notFoundAs msg e = (if e = ErrNoDocuments then ErrNew msg else e)"

subsection \<open>OrganizationService\<close>

definition OrganizationService_CreateOrganization ::
  "faults \<Rightarrow> time \<Rightarrow> string \<Rightarrow> CreateOrganizationRequest \<Rightarrow> string \<Rightarrow> store \<Rightarrow> error option \<times> store" where
  "OrganizationService_CreateOrganization F now newId req createdBy s =
     (let org = NewOrganization now newId req createdBy in
      (case OrganizationRepository_Create F org s of
        (Some err, s1) \<Rightarrow> (Some err, s1)
      | (None, s1) \<Rightarrow>
          (None, snd (UserRepository_AddOrganizationToUser F now createdBy (org_ID org) s1))))"

definition OrganizationService_UpdateOrganization ::
  "faults \<Rightarrow> time \<Rightarrow> string \<Rightarrow> UpdateOrganizationRequest \<Rightarrow> string \<Rightarrow> store \<Rightarrow> error option \<times> store" where
  "OrganizationService_UpdateOrganization F now ident req userID s =
     (case OrganizationRepository_GetByID F s ident of
        Inl err \<Rightarrow> (Some (notFoundAs ''organization not found'' err), s)
      | Inr org \<Rightarrow>
          if \<not> HasRole (org_Members org) userID [OrgRoleOwner, OrgRoleAdmin]
          then (Some (ErrNew ''insufficient permissions to update organization''), s)
          else OrganizationRepository_Update F now (Organization_Apply now req org) s)"

definition OrganizationService_DeleteOrganization ::
  "faults \<Rightarrow> time \<Rightarrow> string \<Rightarrow> string \<Rightarrow> store \<Rightarrow> error option \<times> store" where
  "OrganizationService_DeleteOrganization F now ident userID s =
     (case OrganizationRepository_GetByID F s ident of
        Inl err \<Rightarrow> (Some (notFoundAs ''organization not found'' err), s)
      | Inr org \<Rightarrow>
          if \<not> HasRole (org_Members org) userID [OrgRoleOwner]
          then (Some (ErrNew ''insufficient permissions to delete organization''), s)
          else
            let s1 = fold (\<lambda>teamID st. snd (TeamRepository_Delete F teamID st)) (org_TeamIDs org) s in
            (case OrganizationRepository_Delete F ident s1 of
              (Some err, s2) \<Rightarrow> (Some err, s2)
            | (None, s2) \<Rightarrow>
                (None, fold (\<lambda>member st.
                               snd (UserRepository_RemoveOrganizationFromUser F now (UserID member) ident st))
                         (org_Members org) s2)))"

definition OrganizationService_AddOrganizationMember ::
  "faults \<Rightarrow> time \<Rightarrow> string \<Rightarrow> string \<Rightarrow> MemberRole \<Rightarrow> string \<Rightarrow> store \<Rightarrow> error option \<times> store" where
  "OrganizationService_AddOrganizationMember F now orgID reqUserID reqRole invitedBy s =
     (case OrganizationRepository_GetByID F s orgID of
        Inl err \<Rightarrow> (Some (notFoundAs ''organization not found'' err), s)
      | Inr org \<Rightarrow>
          if \<not> HasRole (org_Members org) invitedBy [OrgRoleOwner, OrgRoleAdmin]
          then (Some (ErrNew ''insufficient permissions to add organization member''), s)
          else
            (case UserRepository_GetByUserId F s reqUserID of
              Inl err \<Rightarrow> (Some (notFoundAs ''user not found'' err), s)
            | Inr user \<Rightarrow>
                (case OrganizationRepository_AddMember F now orgID reqUserID reqRole invitedBy s of
                   (Some err, s1) \<Rightarrow> (Some err, s1)
                 | (None, s1) \<Rightarrow>
                     (None, snd (UserRepository_AddOrganizationToUser F now reqUserID orgID s1)))))"

text \<open>
  In \<^verbatim>\<open>UpdateOrganizationMember\<close> the self-demotion test reads
  \<^verbatim>\<open>currentMember.Role\<close> when \<^verbatim>\<open>memberID == updatedBy\<close>, whether or not
  \<^verbatim>\<open>currentMember\<close> is nil.
\<close>

definition OrganizationService_UpdateOrganizationMember ::
  "faults \<Rightarrow> time \<Rightarrow> string \<Rightarrow> string \<Rightarrow> MemberRole \<Rightarrow> string \<Rightarrow> store \<Rightarrow> error option \<times> store" where
  "OrganizationService_UpdateOrganizationMember F now orgID memberID reqRole updatedBy s =
     (case OrganizationRepository_GetByID F s orgID of
        Inl err \<Rightarrow> (Some (notFoundAs ''organization not found'' err), s)
      | Inr org \<Rightarrow>
          if \<not> HasRole (org_Members org) updatedBy [OrgRoleOwner, OrgRoleAdmin]
          then (Some (ErrNew ''insufficient permissions to update organization member''), s)
          else
            let currentMember = GetMember (org_Members org) memberID in
            if (case currentMember of None \<Rightarrow> False | Some cm \<Rightarrow> Role cm = OrgRoleOwner) \<and>
               \<not> HasRole (org_Members org) updatedBy [OrgRoleOwner]
            then (Some (ErrNew ''only an organization owner can change the role of another owner''), s)
            else
              (case (if memberID = updatedBy
                    then (case currentMember of
                            None \<Rightarrow> Inl NilDeref
                          | Some cm \<Rightarrow> Inr (Role cm = OrgRoleOwner \<and> reqRole \<noteq> OrgRoleOwner))
                    else Inr False) of
                Inl err \<Rightarrow> (Some err, s)
              | Inr selfDemotion \<Rightarrow>
                  if selfDemotion \<and> ownerCount (org_Members org) \<le> 1
                  then (Some (ErrNew ''cannot change role: organization must have at least one owner''), s)
                  else OrganizationRepository_AddMember F now orgID memberID reqRole updatedBy s))"

definition OrganizationService_RemoveOrganizationMember ::
  "faults \<Rightarrow> time \<Rightarrow> string \<Rightarrow> string \<Rightarrow> string \<Rightarrow> store \<Rightarrow> error option \<times> store" where
  "OrganizationService_RemoveOrganizationMember F now orgID memberID removedBy s =
     (case OrganizationRepository_GetByID F s orgID of
        Inl err \<Rightarrow> (Some (notFoundAs ''organization not found'' err), s)
      | Inr org \<Rightarrow>
          (case GetMember (org_Members org) memberID of
             None \<Rightarrow> (Some (ErrNew ''member not found in organization''), s)
           | Some memberToRemove \<Rightarrow>
               let isOwner = HasRole (org_Members org) removedBy [OrgRoleOwner];
                   isAdmin = HasRole (org_Members org) removedBy [OrgRoleAdmin];
                   isSelf = (removedBy = memberID)
               in
               if \<not> isOwner \<and> \<not> isSelf \<and>
                  (Role memberToRemove = OrgRoleOwner \<or>
                   (\<not> isAdmin \<and> Role memberToRemove = OrgRoleAdmin))
               then (Some (ErrNew ''insufficient permissions to remove this organization member''), s)
               else if Role memberToRemove = OrgRoleOwner \<and> ownerCount (org_Members org) \<le> 1
               then (Some (ErrNew ''cannot remove the only organization owner''), s)
               else
                 (case OrganizationRepository_RemoveMember F now orgID memberID s of
                   (Some err, s1) \<Rightarrow> (Some err, s1)
                 | (None, s1) \<Rightarrow>
                     (None, snd (UserRepository_RemoveOrganizationFromUser F now memberID orgID s1)))))"




subsection \<open>TeamService\<close>

definition TeamService_CreateTeam ::
  "faults \<Rightarrow> time \<Rightarrow> string \<Rightarrow> CreateTeamRequest \<Rightarrow> string \<Rightarrow> store \<Rightarrow> error option \<times> store" where
  "TeamService_CreateTeam F now newId req createdBy s =
     (case OrganizationRepository_GetByID F s (cteam_OrganizationID req) of
        Inl err \<Rightarrow> (Some (notFoundAs ''organization not found'' err), s)
      | Inr org \<Rightarrow>
          if \<not> IsMember (org_Members org) createdBy
          then (Some (ErrNew ''user is not a member of the organization''), s)
          else
            let team = NewTeam now newId req createdBy in
            (case TeamRepository_Create F team s of
              (Some err, s1) \<Rightarrow> (Some err, s1)
            | (None, s1) \<Rightarrow>
                (None, snd (UserRepository_AddTeamToUser F now createdBy (team_ID team)
                         (snd (OrganizationRepository_AddTeam F now (cteam_OrganizationID req)
                                 (team_ID team) s1))))))"

definition TeamService_UpdateTeam ::
  "faults \<Rightarrow> time \<Rightarrow> string \<Rightarrow> UpdateTeamRequest \<Rightarrow> string \<Rightarrow> store \<Rightarrow> error option \<times> store" where
  "TeamService_UpdateTeam F now ident req userID s =
     (case TeamRepository_GetByID F s ident of
        Inl err \<Rightarrow> (Some (notFoundAs ''team not found'' err), s)
      | Inr team \<Rightarrow>
          if \<not> HasRole (team_Members team) userID [TeamRoleOwner, TeamRoleAdmin]
          then (Some (ErrNew ''insufficient permissions to update team''), s)
          else TeamRepository_Update F now (Team_Apply now req team) s)"

definition TeamService_DeleteTeam ::
  "faults \<Rightarrow> time \<Rightarrow> string \<Rightarrow> string \<Rightarrow> store \<Rightarrow> error option \<times> store" where
  "TeamService_DeleteTeam F now ident userID s =
     (case TeamRepository_GetByID F s ident of
        Inl err \<Rightarrow> (Some (notFoundAs ''team not found'' err), s)
      | Inr team \<Rightarrow>
          if \<not> HasRole (team_Members team) userID [TeamRoleOwner]
          then (Some (ErrNew ''insufficient permissions to delete team''), s)
          else
            (case TeamRepository_Delete F ident s of
              (Some err, s1) \<Rightarrow> (Some err, s1)
            | (None, s1) \<Rightarrow>
                (None, fold (\<lambda>member st.
                               snd (UserRepository_RemoveTeamFromUser F now (UserID member) ident st))
                         (team_Members team)
                         (snd (OrganizationRepository_RemoveTeam F now (team_OrganizationID team) ident s1)))))"

definition TeamService_AddTeamMember ::
  "faults \<Rightarrow> time \<Rightarrow> string \<Rightarrow> string \<Rightarrow> MemberRole \<Rightarrow> string \<Rightarrow> store \<Rightarrow> error option \<times> store" where
  "TeamService_AddTeamMember F now teamID reqUserID reqRole invitedBy s =
     (case TeamRepository_GetByID F s teamID of
        Inl err \<Rightarrow> (Some (notFoundAs ''team not found'' err), s)
      | Inr team \<Rightarrow>
          if \<not> HasRole (team_Members team) invitedBy [TeamRoleOwner, TeamRoleAdmin]
          then (Some (ErrNew ''insufficient permissions to add team member''), s)
          else
            (case UserRepository_GetByUserId F s reqUserID of
              Inl err \<Rightarrow> (Some (notFoundAs ''user not found'' err), s)
            | Inr user \<Rightarrow>
                (case OrganizationRepository_GetByID F s (team_OrganizationID team) of
                   Inl err \<Rightarrow> (Some err, s)
                 | Inr org \<Rightarrow>
                     if \<not> IsMember (org_Members org) reqUserID
                     then (Some (ErrNew ''user is not a member of the organization''), s)
                     else
                       (case TeamRepository_AddMember F now teamID reqUserID reqRole invitedBy s of
                         (Some err, s1) \<Rightarrow> (Some err, s1)
                       | (None, s1) \<Rightarrow>
                           (None, snd (UserRepository_AddTeamToUser F now reqUserID teamID s1))))))"

definition TeamService_UpdateTeamMember ::
  "faults \<Rightarrow> time \<Rightarrow> string \<Rightarrow> string \<Rightarrow> MemberRole \<Rightarrow> string \<Rightarrow> store \<Rightarrow> error option \<times> store" where
  "TeamService_UpdateTeamMember F now teamID memberID reqRole updatedBy s =
     (case TeamRepository_GetByID F s teamID of
        Inl err \<Rightarrow> (Some (notFoundAs ''team not found'' err), s)
      | Inr team \<Rightarrow>
          if \<not> HasRole (team_Members team) updatedBy [TeamRoleOwner, TeamRoleAdmin]
          then (Some (ErrNew ''insufficient permissions to update team member''), s)
          else
            let currentMember = GetMember (team_Members team) memberID in
            if (case currentMember of None \<Rightarrow> False | Some cm \<Rightarrow> Role cm = TeamRoleOwner) \<and>
               \<not> HasRole (team_Members team) updatedBy [TeamRoleOwner]
            then (Some (ErrNew ''only a team owner can change the role of another owner''), s)
            else
              (case (if memberID = updatedBy
                    then (case currentMember of
                            None \<Rightarrow> Inl NilDeref
                          | Some cm \<Rightarrow> Inr (Role cm = TeamRoleOwner \<and> reqRole \<noteq> TeamRoleOwner))
                    else Inr False) of
                Inl err \<Rightarrow> (Some err, s)
              | Inr selfDemotion \<Rightarrow>
                  if selfDemotion \<and> ownerCount (team_Members team) \<le> 1
                  then (Some (ErrNew ''cannot change role: team must have at least one owner''), s)
                  else TeamRepository_AddMember F now teamID memberID reqRole updatedBy s))"

definition TeamService_RemoveTeamMember ::
  "faults \<Rightarrow> time \<Rightarrow> string \<Rightarrow> string \<Rightarrow> string \<Rightarrow> store \<Rightarrow> error option \<times> store" where
  "TeamService_RemoveTeamMember F now teamID memberID removedBy s =
     (case TeamRepository_GetByID F s teamID of
        Inl err \<Rightarrow> (Some (notFoundAs ''team not found'' err), s)
      | Inr team \<Rightarrow>
          (case GetMember (team_Members team) memberID of
             None \<Rightarrow> (Some (ErrNew ''member not found in team''), s)
           | Some memberToRemove \<Rightarrow>
               let isOwner = HasRole (team_Members team) removedBy [TeamRoleOwner];
                   isAdmin = HasRole (team_Members team) removedBy [TeamRoleAdmin];
                   isSelf = (removedBy = memberID)
               in
               if \<not> isOwner \<and> \<not> isSelf \<and>
                  (Role memberToRemove = TeamRoleOwner \<or>
                   (\<not> isAdmin \<and> Role memberToRemove = TeamRoleAdmin))
               then (Some (ErrNew ''insufficient permissions to remove this team member''), s)
               else if Role memberToRemove = TeamRoleOwner \<and> ownerCount (team_Members team) \<le> 1
               then (Some (ErrNew ''cannot remove the only team owner''), s)
               else
                 (case TeamRepository_RemoveMember F now teamID memberID s of
                   (Some err, s1) \<Rightarrow> (Some err, s1)
                 | (None, s1) \<Rightarrow>
                     (None, snd (UserRepository_RemoveTeamFromUser F now memberID teamID s1)))))"

subsection \<open>UserService\<close>

definition UserService_CreateUser ::
  "faults \<Rightarrow> time \<Rightarrow> string \<Rightarrow> CreateUserRequest \<Rightarrow> store \<Rightarrow> error option \<times> store" where
  "UserService_CreateUser F now newId req s = UserRepository_Create F (NewUser now newId req) s"

text \<open>
  The data of an event is an untyped value: a map from field names to values, or
  something else; a field is a string or something else.  \<^verbatim>\<open>data["id"].(string)\<close>
  with its result flag discarded is the empty string for a missing or non-string field.
\<close>

datatype json = JString string | JOther

datatype event_data = DataMap "(string \<times> json) list" | DataOther

definition str_field :: "(string \<times> json) list \<Rightarrow> string \<Rightarrow> string" where
  "str_field data k = (case map_of data k of Some (JString v) \<Rightarrow> v | _ \<Rightarrow> [])"

definition UserService_ProcessAuthUserCreated ::
  "faults \<Rightarrow> time \<Rightarrow> string \<Rightarrow> event_data \<Rightarrow> store \<Rightarrow> error option \<times> store" where
  "UserService_ProcessAuthUserCreated F now newId eventData s =
     (case eventData of
        DataOther \<Rightarrow> (Some (ErrNew ''invalid data format''), s)
      | DataMap data \<Rightarrow>
          let userId = str_field data ''id'';
              email = str_field data ''email'';
              firstName = str_field data ''firstName'';
              lastName = str_field data ''lastName'';
              roleStr = str_field data ''role''
          in
          if userId = [] \<or> email = [] \<or> firstName = [] \<or> lastName = []
          then (Some (ErrNew ''missing required fields''), s)
          else
            (case UserRepository_GetByUserId F s userId of
              Inr existingUser \<Rightarrow> (None, s)
            | Inl err \<Rightarrow>
                if err \<noteq> ErrNoDocuments then (Some err, s)
                else
                  let role = (if roleStr = ''admin'' then RoleAdmin
                              else if roleStr = ''presenter'' then RolePresenter
                              else RoleUser)
                  in UserService_CreateUser F now newId
                       \<lparr>cuser_UserID = userId, cuser_Email = email, cuser_FirstName = firstName,
                        cuser_LastName = lastName, cuser_Role = role\<rparr> s))"


section \<open>Sequences of operations\<close>

text \<open>
  The operations of the three services as data, so that a history of calls is a list.
  Each step of a history has its own fault assignment and clock reading.
\<close>

datatype facade_op =
    CreateOrganization string CreateOrganizationRequest string
  | UpdateOrganization string UpdateOrganizationRequest string
  | DeleteOrganization string string
  | AddOrganizationMember string string MemberRole string
  | UpdateOrganizationMember string string MemberRole string
  | RemoveOrganizationMember string string string
  | CreateTeam string CreateTeamRequest string
  | UpdateTeam string UpdateTeamRequest string
  | DeleteTeam string string
  | AddTeamMember string string MemberRole string
  | UpdateTeamMember string string MemberRole string
  | RemoveTeamMember string string string
  | ProcessAuthUserCreated string event_data

fun exec :: "faults \<Rightarrow> time \<Rightarrow> facade_op \<Rightarrow> store \<Rightarrow> error option \<times> store" where
  "exec F now (CreateOrganization newId req createdBy) s =
     OrganizationService_CreateOrganization F now newId req createdBy s"
| "exec F now (UpdateOrganization ident req userID) s =
     OrganizationService_UpdateOrganization F now ident req userID s"
| "exec F now (DeleteOrganization ident userID) s =
     OrganizationService_DeleteOrganization F now ident userID s"
| "exec F now (AddOrganizationMember orgID userID role invitedBy) s =
     OrganizationService_AddOrganizationMember F now orgID userID role invitedBy s"
| "exec F now (UpdateOrganizationMember orgID memberID role updatedBy) s =
     OrganizationService_UpdateOrganizationMember F now orgID memberID role updatedBy s"
| "exec F now (RemoveOrganizationMember orgID memberID removedBy) s =
     OrganizationService_RemoveOrganizationMember F now orgID memberID removedBy s"
| "exec F now (CreateTeam newId req createdBy) s =
     TeamService_CreateTeam F now newId req createdBy s"
| "exec F now (UpdateTeam ident req userID) s =
     TeamService_UpdateTeam F now ident req userID s"
| "exec F now (DeleteTeam ident userID) s =
     TeamService_DeleteTeam F now ident userID s"
| "exec F now (AddTeamMember teamID userID role invitedBy) s =
     TeamService_AddTeamMember F now teamID userID role invitedBy s"
| "exec F now (UpdateTeamMember teamID memberID role updatedBy) s =
     TeamService_UpdateTeamMember F now teamID memberID role updatedBy s"
| "exec F now (RemoveTeamMember teamID memberID removedBy) s =
     TeamService_RemoveTeamMember F now teamID memberID removedBy s"
| "exec F now (ProcessAuthUserCreated newId eventData) s =
     UserService_ProcessAuthUserCreated F now newId eventData s"

fun run :: "(faults \<times> time \<times> facade_op) list \<Rightarrow> store \<Rightarrow> store" where
  "run [] s = s"
| "run ((F, now, op) # rest) s = run rest (snd (exec F now op s))"

definition empty_store :: store where
  "empty_store = \<lparr>organizations = [], teams = [], users = []\<rparr>"

definition no_faults :: faults where
  "no_faults = (\<lambda>c. False)"

text \<open>The in-memory membership methods as data, for histories on one aggregate.\<close>

datatype member_op =
    OpAdd string MemberRole string
  | OpUpdate string MemberRole
  | OpRemove string

fun Team_do :: "time \<Rightarrow> member_op \<Rightarrow> Team \<Rightarrow> Team" where
  "Team_do now (OpAdd userID role invitedBy) t = snd (Team_AddMember now userID role invitedBy t)"
| "Team_do now (OpUpdate userID role) t = snd (Team_UpdateMember now userID role t)"
| "Team_do now (OpRemove userID) t = snd (Team_RemoveMember now userID t)"

fun Organization_do :: "time \<Rightarrow> member_op \<Rightarrow> Organization \<Rightarrow> Organization" where
  "Organization_do now (OpAdd userID role invitedBy) org =
     snd (Organization_AddMember now userID role invitedBy org)"
| "Organization_do now (OpUpdate userID role) org = snd (Organization_UpdateMember now userID role org)"
| "Organization_do now (OpRemove userID) org = snd (Organization_RemoveMember now userID org)"

subsection \<open>State predicates\<close>

definition unique_members :: "Member list \<Rightarrow> bool" where
  "unique_members ms = distinct (map UserID ms)"

definition store_unique_members :: "store \<Rightarrow> bool" where
  "store_unique_members s =
     (list_all (\<lambda>d. unique_members (org_Members d)) (organizations s) \<and>
      list_all (\<lambda>d. unique_members (team_Members d)) (teams s))"

definition has_owner :: "Member list \<Rightarrow> bool" where
  "has_owner ms = (find (\<lambda>m. Role m = ''owner'') ms \<noteq> None)"

definition store_has_owner :: "store \<Rightarrow> bool" where
  "store_has_owner s =
     (list_all (\<lambda>d. has_owner (org_Members d)) (organizations s) \<and>
      list_all (\<lambda>d. has_owner (team_Members d)) (teams s))"

fun is_add_member :: "facade_op \<Rightarrow> bool" where
  "is_add_member (AddOrganizationMember orgID userID role invitedBy) = True"
| "is_add_member (AddTeamMember teamID userID role invitedBy) = True"
| "is_add_member op = False"

subsection \<open>A small store for concrete runs\<close>

text \<open>
  A store whose organization and team documents are keyed by \<^verbatim>\<open>ObjectID\<close>s: one
  organization \<open>org1\<close> with owner alice, admin bob and member carol, its team
  \<open>team1\<close> with the same three members, and four users (dave belongs to nothing).
  Both identifiers are strings of 24 hexadecimal digits.  The two documents are written
  with the constructors only to fill in their remaining fields.
\<close>

definition org1 :: string where
  "org1 = ''64b0c1d2e3f4a5b6c7d8e9f0''"

definition team1 :: string where
  "team1 = ''64b0c1d2e3f4a5b6c7d8e9f1''"

definition mk_member :: "string \<Rightarrow> MemberRole \<Rightarrow> Member" where
  "mk_member userID role = \<lparr>UserID = userID, Role = role, JoinedAt = 1, InvitedBy = []\<rparr>"

definition mk_user :: "string \<Rightarrow> string \<Rightarrow> string list \<Rightarrow> string list \<Rightarrow> User" where
  "mk_user userID email orgIDs teamIDs =
     (NewUser 1 (''id-'' @ userID)
        \<lparr>cuser_UserID = userID, cuser_Email = email, cuser_FirstName = ''F'',
         cuser_LastName = ''L'', cuser_Role = RoleUser\<rparr>)
     \<lparr>user_OrganizationIDs := orgIDs, user_TeamIDs := teamIDs\<rparr>"

definition demo_org :: Organization where
  "demo_org =
     (NewOrganization 1 org1
        \<lparr>corg_Name = ''Acme'', corg_Description = [], corg_LogoURL = [], corg_Website = [],
         corg_Industry = [], corg_Size = [], corg_Location = []\<rparr> ''alice'')
     \<lparr>org_Members := [mk_member ''alice'' ''owner'', mk_member ''bob'' ''admin'',
                      mk_member ''carol'' ''member''],
      org_TeamIDs := [team1]\<rparr>"

definition demo_team :: Team where
  "demo_team =
     (NewTeam 1 team1
        \<lparr>cteam_Name = ''Core'', cteam_Description = [], cteam_LogoURL = [],
         cteam_OrganizationID = org1\<rparr> ''alice'')
     \<lparr>team_Members := [mk_member ''alice'' ''owner'', mk_member ''bob'' ''admin'',
                       mk_member ''carol'' ''member'']\<rparr>"

definition demo_store :: store where
  "demo_store =
     \<lparr>organizations = [demo_org],
      teams = [demo_team],
      users = [mk_user ''alice'' ''alice@x'' [org1] [team1],
               mk_user ''bob'' ''bob@x'' [org1] [team1],
               mk_user ''carol'' ''carol@x'' [org1] [team1],
               mk_user ''dave'' ''dave@x'' [] []]\<rparr>"

text \<open>
  A history of accepted calls from the empty store: the identity-created events of alice
  and bob, and alice creating an organization.  \<^verbatim>\<open>NewOrganization\<close> draws the
  identifier with \<^verbatim>\<open>uuid.New().String()\<close>, a string of 36 characters.
\<close>

definition demo_event :: "string \<Rightarrow> event_data" where
  "demo_event userID =
     DataMap [(''id'', JString userID), (''email'', JString (userID @ ''@x'')),
              (''firstName'', JString ''F''), (''lastName'', JString ''L'')]"

definition demo_uuid :: string where
  "demo_uuid = ''3f2b8c1e-5d4a-4b6f-9a7e-0c1d2e3f4a5b''"

definition demo_history :: "(faults \<times> time \<times> facade_op) list" where
  "demo_history =
     [(no_faults, 1, ProcessAuthUserCreated ''id-alice'' (demo_event ''alice'')),
      (no_faults, 1, ProcessAuthUserCreated ''id-bob'' (demo_event ''bob'')),
      (no_faults, 2, CreateOrganization demo_uuid
         \<lparr>corg_Name = ''Acme'', corg_Description = [], corg_LogoURL = [], corg_Website = [],
          corg_Industry = [], corg_Size = [], corg_Location = []\<rparr> ''alice'')]"





definition roles_of :: "store \<Rightarrow> (string \<times> (string \<times> MemberRole) list) list" where
  "roles_of s = map (\<lambda>d. (org_ID d, map (\<lambda>m. (UserID m, Role m)) (org_Members d))) (organizations s)"


subsection \<open>Store invariants and classifications\<close>

text \<open>
  The store keeps document identifiers unique within a collection (\<^verbatim>\<open>_id\<close>), and
  the users collection has unique indexes on \<^verbatim>\<open>userId\<close> and \<^verbatim>\<open>email\<close>.
\<close>

definition unique_ids :: "store \<Rightarrow> bool" where
  "unique_ids s =
     (distinct (map org_ID (organizations s)) \<and> distinct (map team_ID (teams s)))"

definition count_users :: "string \<Rightarrow> store \<Rightarrow> nat" where
  "count_users userId s = length (filter (\<lambda>u. user_UserID u = userId) (users s))"

text \<open>
  The writes to a user's \<^verbatim>\<open>organizationIds\<close> and \<^verbatim>\<open>teamIds\<close> are the
  reverse-reference writes; the services log their errors and carry on.
\<close>

fun reverse_reference_call :: "call \<Rightarrow> bool" where
  "reverse_reference_call (UserAddOrganization u x) = True"
| "reverse_reference_call (UserRemoveOrganization u x) = True"
| "reverse_reference_call (UserAddTeam u x) = True"
| "reverse_reference_call (UserRemoveTeam u x) = True"
| "reverse_reference_call c = False"

text \<open>An event payload has its required fields when all four are non-empty strings.\<close>

definition required_fields :: "(string \<times> json) list \<Rightarrow> bool" where
  "required_fields data =
     (str_field data ''id'' \<noteq> [] \<and> str_field data ''email'' \<noteq> [] \<and>
      str_field data ''firstName'' \<noteq> [] \<and> str_field data ''lastName'' \<noteq> [])"

definition event_user :: "time \<Rightarrow> string \<Rightarrow> (string \<times> json) list \<Rightarrow> User" where
  "event_user now newId data =
     NewUser now newId
       \<lparr>cuser_UserID = str_field data ''id'', cuser_Email = str_field data ''email'',
        cuser_FirstName = str_field data ''firstName'', cuser_LastName = str_field data ''lastName'',
        cuser_Role = (if str_field data ''role'' = ''admin'' then RoleAdmin
                      else if str_field data ''role'' = ''presenter'' then RolePresenter
                      else RoleUser)\<rparr>"

definition deliveries :: "event_data \<Rightarrow> (faults \<times> time \<times> string) list \<Rightarrow> (faults \<times> time \<times> facade_op) list" where
  "deliveries eventData ds = map (\<lambda>(F, now, newId). (F, now, ProcessAuthUserCreated newId eventData)) ds"

text \<open>
  What an insert-or-update of one membership entry may do to a member list: a user who
  is already in the list keeps the entry, with only the role replaced, and every other
  entry is untouched; a user who is not in the list gets a new last entry, joined now.
\<close>

definition membership_write ::
  "time \<Rightarrow> string \<Rightarrow> MemberRole \<Rightarrow> string \<Rightarrow> Member list \<Rightarrow> Member list \<Rightarrow> bool" where
  "membership_write now userID role invitedBy ms ms' =
     (case GetMember ms userID of
        Some m \<Rightarrow>
          GetMember ms' userID = Some (m\<lparr>Role := role\<rparr>) \<and>
          map UserID ms' = map UserID ms \<and>
          map JoinedAt ms' = map JoinedAt ms \<and>
          map InvitedBy ms' = map InvitedBy ms \<and>
          (\<forall>k. k \<noteq> userID \<longrightarrow> GetMember ms' k = GetMember ms k)
      | None \<Rightarrow>
          ms' = ms @ [\<lparr>UserID = userID, Role = role, JoinedAt = now, InvitedBy = invitedBy\<rparr>])"

section \<open>Lists, lookups and updates\<close>

lemma GetMember_Some_UserID: "GetMember ms k = Some m \<Longrightarrow> UserID m = k \<and> m \<in> set ms"
  unfolding GetMember_def by (induction ms) (auto split: if_splits)

lemma GetMember_None_iff: "GetMember ms k = None \<longleftrightarrow> k \<notin> UserID ` set ms"
  unfolding GetMember_def by (induction ms) auto

lemma find_update_first_key:
  assumes "\<And>x. key (f x) = key x"
  shows "find (\<lambda>x. key x = k) (update_first (\<lambda>x. key x = k) f xs) =
         map_option f (find (\<lambda>x. key x = k) xs)"
  using assms by (induction xs) auto

lemma update_first_conj:
  "find P xs = Some d \<Longrightarrow> R d \<Longrightarrow> update_first (\<lambda>x. P x \<and> R x) f xs = update_first P f xs"
  by (induction xs) (auto split: if_splits)

lemma find_conj_Some:
  "find P xs = Some d \<Longrightarrow> R d \<Longrightarrow> find (\<lambda>x. P x \<and> R x) xs = Some d"
  by (induction xs) (auto split: if_splits)

lemma find_key_unique:
  "distinct (map key xs) \<Longrightarrow> find (\<lambda>x. key x = k) xs = Some d \<Longrightarrow> x \<in> set xs \<Longrightarrow>
   key x = k \<Longrightarrow> x = d"
  by (induction xs) (auto split: if_splits simp: image_iff)

lemma find_conj_None:
  assumes "distinct (map key xs)" "find (\<lambda>x. key x = k) xs = Some d" "\<not> R d"
  shows "find (\<lambda>x. key x = k \<and> R x) xs = None"
proof -
  have "\<not> (\<exists>x\<in>set xs. key x = k \<and> R x)"
    using find_key_unique [OF assms(1,2)] assms(3) by blast
  then show ?thesis by (simp add: find_None_iff)
qed

lemma update_first_changes:
  "find P xs = Some d \<Longrightarrow> f d \<noteq> d \<Longrightarrow> update_first P f xs \<noteq> xs"
  by (induction xs) (auto split: if_splits)

lemma update_first_role_map_UserID:
  "map UserID (update_first P (\<lambda>m. m\<lparr>Role := r\<rparr>) ms) = map UserID ms"
  by (induction ms) auto

lemma update_first_role_map_JoinedAt:
  "map JoinedAt (update_first P (\<lambda>m. m\<lparr>Role := r\<rparr>) ms) = map JoinedAt ms"
  by (induction ms) auto

lemma update_first_role_map_InvitedBy:
  "map InvitedBy (update_first P (\<lambda>m. m\<lparr>Role := r\<rparr>) ms) = map InvitedBy ms"
  by (induction ms) auto

lemma GetMember_update_first_role:
  "GetMember (update_first (\<lambda>m. UserID m = k) (\<lambda>m. m\<lparr>Role := r\<rparr>) ms) k' =
     (if k' = k then map_option (\<lambda>m. m\<lparr>Role := r\<rparr>) (GetMember ms k) else GetMember ms k')"
  unfolding GetMember_def by (induction ms) auto

lemma ownerCount_filter: "ownerCount ms = length (filter (\<lambda>m. Role m = ''owner'') ms)"
  by (induction ms) auto

lemma filter_single_unique:
  assumes "length (filter P xs) = 1" "a \<in> set xs" "P a" "b \<in> set xs" "P b"
  shows "a = b"
proof -
  obtain x where x: "filter P xs = [x]"
    using assms(1) by (cases "filter P xs") auto
  have "a \<in> set (filter P xs)" "b \<in> set (filter P xs)" using assms by auto
  then show ?thesis unfolding x by simp
qed

section \<open>The repositories' insert-or-update\<close>

lemma role_change_members:
  fixes role :: MemberRole
  assumes "GetMember ms userID = Some m"
    and "ms' = update_first (\<lambda>m. UserID m = userID) (\<lambda>m. m\<lparr>Role := role\<rparr>) ms"
  shows "GetMember ms' userID = Some (m\<lparr>Role := role\<rparr>) \<and>
         map UserID ms' = map UserID ms \<and>
         map JoinedAt ms' = map JoinedAt ms \<and>
         map InvitedBy ms' = map InvitedBy ms \<and>
         (\<forall>k. k \<noteq> userID \<longrightarrow> GetMember ms' k = GetMember ms k)"
  using assms
  by (simp add: GetMember_update_first_role update_first_role_map_UserID
      update_first_role_map_JoinedAt update_first_role_map_InvitedBy)

lemma OrganizationRepository_AddMember_existing:
  assumes "find (\<lambda>d. org_ID d = objID) (organizations s) = Some org"
      and "\<not> F (OrgAddMember orgID userID)"
      and "GetMember (org_Members org) userID = Some m"
      and hex: "ObjectIDFromHex orgID = Inr objID"
  shows "OrganizationRepository_AddMember F now orgID userID role invitedBy s =
           (None, s\<lparr>organizations := update_first (\<lambda>d. org_ID d = objID)
                (\<lambda>d. d\<lparr>org_Members :=
                         update_first (\<lambda>m. UserID m = userID) (\<lambda>m. m\<lparr>Role := role\<rparr>) (org_Members d),
                       org_UpdatedAt := now\<rparr>) (organizations s)\<rparr>)"
proof -
  have R: "IsMember (org_Members org) userID" using assms(3) by (simp add: IsMember_def)
  show ?thesis
    unfolding OrganizationRepository_AddMember_def
    using hex assms(2) find_conj_Some [OF assms(1), of "\<lambda>d. IsMember (org_Members d) userID", OF R]
      update_first_conj [OF assms(1), of "\<lambda>d. IsMember (org_Members d) userID", OF R]
    by simp
qed

lemma OrganizationRepository_AddMember_fresh:
  assumes "distinct (map org_ID (organizations s))"
      and "find (\<lambda>d. org_ID d = objID) (organizations s) = Some org"
      and "\<not> F (OrgAddMember orgID userID)"
      and "GetMember (org_Members org) userID = None"
      and hex: "ObjectIDFromHex orgID = Inr objID"
  shows "OrganizationRepository_AddMember F now orgID userID role invitedBy s =
           (None, s\<lparr>organizations := update_first (\<lambda>d. org_ID d = objID)
                (\<lambda>d. d\<lparr>org_Members := org_Members d @
                         [\<lparr>UserID = userID, Role = role, JoinedAt = now, InvitedBy = invitedBy\<rparr>],
                       org_UpdatedAt := now\<rparr>) (organizations s)\<rparr>)"
proof -
  have R: "\<not> IsMember (org_Members org) userID" using assms(4) by (simp add: IsMember_def)
  show ?thesis
    unfolding OrganizationRepository_AddMember_def
    using hex assms(3) find_conj_None [OF assms(1,2), of "\<lambda>d. IsMember (org_Members d) userID", OF R]
    by simp
qed

lemma find_org_after_update:
  assumes "find (\<lambda>d. org_ID d = orgID) orgs = Some org" "\<And>d. org_ID (f d) = org_ID d"
  shows "find (\<lambda>d. org_ID d = orgID) (update_first (\<lambda>d. org_ID d = orgID) f orgs) = Some (f org)"
  using find_update_first_key [of org_ID f orgID orgs] assms by simp

lemma TeamRepository_AddMember_existing:
  assumes "find (\<lambda>d. team_ID d = objID) (teams s) = Some team"
      and "\<not> F (TeamAddMember teamID userID)"
      and "GetMember (team_Members team) userID = Some m"
      and hex: "ObjectIDFromHex teamID = Inr objID"
  shows "TeamRepository_AddMember F now teamID userID role invitedBy s =
           (None, s\<lparr>teams := update_first (\<lambda>d. team_ID d = objID)
                (\<lambda>d. d\<lparr>team_Members :=
                         update_first (\<lambda>m. UserID m = userID) (\<lambda>m. m\<lparr>Role := role\<rparr>) (team_Members d),
                       team_UpdatedAt := now\<rparr>) (teams s)\<rparr>)"
proof -
  have R: "IsMember (team_Members team) userID" using assms(3) by (simp add: IsMember_def)
  show ?thesis
    unfolding TeamRepository_AddMember_def
    using hex assms(2) find_conj_Some [OF assms(1), of "\<lambda>d. IsMember (team_Members d) userID", OF R]
      update_first_conj [OF assms(1), of "\<lambda>d. IsMember (team_Members d) userID", OF R]
    by simp
qed

lemma TeamRepository_AddMember_fresh:
  assumes "distinct (map team_ID (teams s))"
      and "find (\<lambda>d. team_ID d = objID) (teams s) = Some team"
      and "\<not> F (TeamAddMember teamID userID)"
      and "GetMember (team_Members team) userID = None"
      and hex: "ObjectIDFromHex teamID = Inr objID"
  shows "TeamRepository_AddMember F now teamID userID role invitedBy s =
           (None, s\<lparr>teams := update_first (\<lambda>d. team_ID d = objID)
                (\<lambda>d. d\<lparr>team_Members := team_Members d @
                         [\<lparr>UserID = userID, Role = role, JoinedAt = now, InvitedBy = invitedBy\<rparr>],
                       team_UpdatedAt := now\<rparr>) (teams s)\<rparr>)"
proof -
  have R: "\<not> IsMember (team_Members team) userID" using assms(4) by (simp add: IsMember_def)
  show ?thesis
    unfolding TeamRepository_AddMember_def
    using hex assms(3) find_conj_None [OF assms(1,2), of "\<lambda>d. IsMember (team_Members d) userID", OF R]
    by simp
qed

lemma find_team_after_update:
  assumes "find (\<lambda>d. team_ID d = teamID) ts = Some team" "\<And>d. team_ID (f d) = team_ID d"
  shows "find (\<lambda>d. team_ID d = teamID) (update_first (\<lambda>d. team_ID d = teamID) f ts) = Some (f team)"
  using find_update_first_key [of team_ID f teamID ts] assms by simp

section \<open>The store of the concrete runs\<close>

lemma demo_ids:
  "ObjectIDFromHex org1 = Inr org1"
  "ObjectIDFromHex team1 = Inr team1"
  by (simp_all add: ObjectIDFromHex_def org1_def team1_def hex_digit_def lower_hex_def)

lemma demo_store_facts:
  "unique_ids demo_store"
  "find (\<lambda>d. org_ID d = org1) (organizations demo_store) = Some demo_org"
  "find (\<lambda>d. team_ID d = team1) (teams demo_store) = Some demo_team"
  by (simp_all add: unique_ids_def demo_store_def demo_org_def demo_team_def NewOrganization_def NewTeam_def)

lemma demo_members:
  "org_Members demo_org = [mk_member ''alice'' ''owner'', mk_member ''bob'' ''admin'', mk_member ''carol'' ''member'']"
  "team_Members demo_team = [mk_member ''alice'' ''owner'', mk_member ''bob'' ''admin'', mk_member ''carol'' ''member'']"
  by (simp_all add: demo_org_def demo_team_def NewOrganization_def NewTeam_def)


section \<open>Pagination\<close>






section \<open>Insert-or-update of a membership entry\<close>

lemma OrganizationRepository_AddMember_effect:
  fixes F :: faults and now :: time and role :: MemberRole and invitedBy :: string
  assumes ids: "unique_ids s"
      and org: "find (\<lambda>d. org_ID d = objID) (organizations s) = Some org"
      and hex: "ObjectIDFromHex orgID = Inr objID"
      and nf: "\<not> F (OrgAddMember orgID userID)"
  defines "r \<equiv> OrganizationRepository_AddMember F now orgID userID role invitedBy s"
  shows "fst r = None \<and> teams (snd r) = teams s \<and> users (snd r) = users s \<and>
         (\<exists>ms'. find (\<lambda>d. org_ID d = objID) (organizations (snd r)) =
                   Some (org\<lparr>org_Members := ms', org_UpdatedAt := now\<rparr>) \<and>
            membership_write now userID role invitedBy (org_Members org) ms')"
proof (cases "GetMember (org_Members org) userID")
  case None
  have d: "distinct (map org_ID (organizations s))" using ids by (simp add: unique_ids_def)
  have "r = (None, s\<lparr>organizations := update_first (\<lambda>d. org_ID d = objID)
                (\<lambda>d. d\<lparr>org_Members := org_Members d @
                         [\<lparr>UserID = userID, Role = role, JoinedAt = now, InvitedBy = invitedBy\<rparr>],
                       org_UpdatedAt := now\<rparr>) (organizations s)\<rparr>)"
    unfolding r_def by (rule OrganizationRepository_AddMember_fresh; fact)
  then show ?thesis
    using None find_org_after_update [OF org] by (simp add: membership_write_def)
next
  case (Some m)
  have "r = (None, s\<lparr>organizations := update_first (\<lambda>d. org_ID d = objID)
                (\<lambda>d. d\<lparr>org_Members :=
                         update_first (\<lambda>m. UserID m = userID) (\<lambda>m. m\<lparr>Role := role\<rparr>) (org_Members d),
                       org_UpdatedAt := now\<rparr>) (organizations s)\<rparr>)"
    unfolding r_def by (rule OrganizationRepository_AddMember_existing; fact)
  then show ?thesis
    using Some find_org_after_update [OF org] role_change_members [OF Some refl, of role]
    by (simp only: fst_conv snd_conv option.case membership_write_def)
       (auto intro!: exI [of _ "update_first (\<lambda>m. UserID m = userID) (\<lambda>m. m\<lparr>Role := role\<rparr>) (org_Members org)"])
qed

lemma TeamRepository_AddMember_effect:
  fixes F :: faults and now :: time and role :: MemberRole and invitedBy :: string
  assumes ids: "unique_ids s"
      and team: "find (\<lambda>d. team_ID d = objID) (teams s) = Some team"
      and hex: "ObjectIDFromHex teamID = Inr objID"
      and nf: "\<not> F (TeamAddMember teamID userID)"
  defines "r \<equiv> TeamRepository_AddMember F now teamID userID role invitedBy s"
  shows "fst r = None \<and> organizations (snd r) = organizations s \<and> users (snd r) = users s \<and>
         (\<exists>ms'. find (\<lambda>d. team_ID d = objID) (teams (snd r)) =
                   Some (team\<lparr>team_Members := ms', team_UpdatedAt := now\<rparr>) \<and>
            membership_write now userID role invitedBy (team_Members team) ms')"
proof (cases "GetMember (team_Members team) userID")
  case None
  have d: "distinct (map team_ID (teams s))" using ids by (simp add: unique_ids_def)
  have "r = (None, s\<lparr>teams := update_first (\<lambda>d. team_ID d = objID)
                (\<lambda>d. d\<lparr>team_Members := team_Members d @
                         [\<lparr>UserID = userID, Role = role, JoinedAt = now, InvitedBy = invitedBy\<rparr>],
                       team_UpdatedAt := now\<rparr>) (teams s)\<rparr>)"
    unfolding r_def by (rule TeamRepository_AddMember_fresh; fact)
  then show ?thesis
    using None find_team_after_update [OF team] by (simp add: membership_write_def)
next
  case (Some m)
  have "r = (None, s\<lparr>teams := update_first (\<lambda>d. team_ID d = objID)
                (\<lambda>d. d\<lparr>team_Members :=
                         update_first (\<lambda>m. UserID m = userID) (\<lambda>m. m\<lparr>Role := role\<rparr>) (team_Members d),
                       team_UpdatedAt := now\<rparr>) (teams s)\<rparr>)"
    unfolding r_def by (rule TeamRepository_AddMember_existing; fact)
  then show ?thesis
    using Some find_team_after_update [OF team] role_change_members [OF Some refl, of role]
    by (simp only: fst_conv snd_conv option.case membership_write_def)
       (auto intro!: exI [of _ "update_first (\<lambda>m. UserID m = userID) (\<lambda>m. m\<lparr>Role := role\<rparr>) (team_Members team)"])
qed

lemma Team_AddMember_membership_write:
  "membership_write now userID role invitedBy (team_Members t)
     (team_Members (snd (Team_AddMember now userID role invitedBy t)))"
proof (cases "GetMember (team_Members t) userID")
  case None
  then show ?thesis by (simp add: Team_AddMember_def membership_write_def)
next
  case (Some m)
  show ?thesis
  proof (cases "Role m = role")
    case True
    then show ?thesis using Some
      by (simp add: Team_AddMember_def membership_write_def)
  next
    case False
    then show ?thesis using Some role_change_members [OF Some refl, of role]
      by (simp add: Team_AddMember_def membership_write_def)
  qed
qed

lemma Organization_AddMember_membership_write:
  "membership_write now userID role invitedBy (org_Members org)
     (org_Members (snd (Organization_AddMember now userID role invitedBy org)))"
proof (cases "GetMember (org_Members org) userID")
  case None
  then show ?thesis by (simp add: Organization_AddMember_def membership_write_def)
next
  case (Some m)
  show ?thesis
  proof (cases "Role m = role")
    case True
    then show ?thesis using Some
      by (simp add: Organization_AddMember_def membership_write_def)
  next
    case False
    then show ?thesis using Some role_change_members [OF Some refl, of role]
      by (simp add: Organization_AddMember_def membership_write_def)
  qed
qed

text \<open>
  Claim C8: the repository-level \<^verbatim>\<open>AddMember\<close> (insert-or-update by user id), on a
  store with unique document identifiers, called with an identifier that converts to
  the group's \<^verbatim>\<open>ObjectID\<close> and absent a store failure, returns no error and changes
  of the group only its member list and \<^verbatim>\<open>updatedAt\<close>.  When the user is
  already a member, the entry keeps its \<^verbatim>\<open>joinedAt\<close> (and \<^verbatim>\<open>invitedBy\<close>) and only its
  role is replaced, all other entries staying as they were; when the user is not yet a
  member, a new last entry is added whose \<^verbatim>\<open>joinedAt\<close> is the current time.  This is
  \<open>membership_write\<close>; it holds for \<^verbatim>\<open>OrganizationRepository.AddMember\<close>, for
  \<^verbatim>\<open>TeamRepository.AddMember\<close> and for the in-memory \<^verbatim>\<open>Team.AddMember\<close> and
  \<^verbatim>\<open>Organization.AddMember\<close>.
\<close>

theorem AddMember_preserves_joinedAt:
  fixes F :: faults and now :: time and role :: MemberRole and invitedBy :: string
  assumes "unique_ids s"
  shows "(ObjectIDFromHex orgID = Inr objID \<and>
          find (\<lambda>d. org_ID d = objID) (organizations s) = Some org \<and>
          \<not> F (OrgAddMember orgID userID) \<longrightarrow>
            fst (OrganizationRepository_AddMember F now orgID userID role invitedBy s) = None \<and>
            (\<exists>ms'. find (\<lambda>d. org_ID d = objID)
                      (organizations (snd (OrganizationRepository_AddMember F now orgID userID role invitedBy s))) =
                    Some (org\<lparr>org_Members := ms', org_UpdatedAt := now\<rparr>) \<and>
                  membership_write now userID role invitedBy (org_Members org) ms')) \<and>
         (ObjectIDFromHex teamID = Inr objID' \<and>
          find (\<lambda>d. team_ID d = objID') (teams s) = Some team \<and>
          \<not> F (TeamAddMember teamID userID) \<longrightarrow>
            fst (TeamRepository_AddMember F now teamID userID role invitedBy s) = None \<and>
            (\<exists>ms'. find (\<lambda>d. team_ID d = objID')
                      (teams (snd (TeamRepository_AddMember F now teamID userID role invitedBy s))) =
                    Some (team\<lparr>team_Members := ms', team_UpdatedAt := now\<rparr>) \<and>
                  membership_write now userID role invitedBy (team_Members team) ms')) \<and>
         membership_write now userID role invitedBy (team_Members t)
           (team_Members (snd (Team_AddMember now userID role invitedBy t))) \<and>
         membership_write now userID role invitedBy (org_Members o')
           (org_Members (snd (Organization_AddMember now userID role invitedBy o')))"
  using OrganizationRepository_AddMember_effect [OF assms, of objID org orgID F userID now role invitedBy]
    TeamRepository_AddMember_effect [OF assms, of objID' team teamID F userID now role invitedBy]
    Team_AddMember_membership_write Organization_AddMember_membership_write
  by blast


lemma no_faults_simp [simp]: "\<not> no_faults c"
  by (simp add: no_faults_def)

theorem AddMember_preserves_joinedAt_witness:
  "unique_ids demo_store \<and>
   ObjectIDFromHex org1 = Inr org1 \<and> ObjectIDFromHex team1 = Inr team1 \<and>
   find (\<lambda>d. org_ID d = org1) (organizations demo_store) = Some demo_org \<and>
   find (\<lambda>d. team_ID d = team1) (teams demo_store) = Some demo_team \<and>
   GetMember (org_Members demo_org) ''bob'' = Some (mk_member ''bob'' ''admin'') \<and>
   fst (OrganizationRepository_AddMember no_faults 7 org1 ''bob'' ''member'' ''alice'' demo_store) = None \<and>
   (\<exists>ms'. find (\<lambda>d. org_ID d = org1)
             (organizations (snd (OrganizationRepository_AddMember no_faults 7 org1 ''bob'' ''member'' ''alice'' demo_store))) =
           Some (demo_org\<lparr>org_Members := ms', org_UpdatedAt := 7\<rparr>) \<and>
         membership_write 7 ''bob'' ''member'' ''alice'' (org_Members demo_org) ms') \<and>
   fst (TeamRepository_AddMember no_faults 7 team1 ''bob'' ''member'' ''alice'' demo_store) = None \<and>
   (\<exists>ms'. find (\<lambda>d. team_ID d = team1)
             (teams (snd (TeamRepository_AddMember no_faults 7 team1 ''bob'' ''member'' ''alice'' demo_store))) =
           Some (demo_team\<lparr>team_Members := ms', team_UpdatedAt := 7\<rparr>) \<and>
         membership_write 7 ''bob'' ''member'' ''alice'' (team_Members demo_team) ms')"
proof -
  have g: "GetMember (org_Members demo_org) ''bob'' = Some (mk_member ''bob'' ''admin'')"
    by (simp add: demo_members GetMember_def mk_member_def)
  show ?thesis
    using AddMember_preserves_joinedAt [OF demo_store_facts(1), where orgID = org1 and objID = org1 and objID' = team1 and org = demo_org
        and teamID = team1 and team = demo_team and F = no_faults and userID = "''bob''"
        and now = 7 and role = "''member''" and invitedBy = "''alice''"]
      demo_store_facts demo_ids g
    by simp
qed

lemma OrganizationRepository_GetByID_found:
  "ObjectIDFromHex orgID = Inr objID \<Longrightarrow>
   find (\<lambda>d. org_ID d = objID) (organizations s) = Some org \<Longrightarrow> \<not> F (OrgGetByID orgID) \<Longrightarrow>
   OrganizationRepository_GetByID F s orgID = Inr org"
  by (simp add: OrganizationRepository_GetByID_def)

lemma TeamRepository_GetByID_found:
  "ObjectIDFromHex teamID = Inr objID \<Longrightarrow>
   find (\<lambda>d. team_ID d = objID) (teams s) = Some team \<Longrightarrow> \<not> F (TeamGetByID teamID) \<Longrightarrow>
   TeamRepository_GetByID F s teamID = Inr team"
  by (simp add: TeamRepository_GetByID_def)

lemma UpdateOrganizationMember_absent:
  fixes F :: faults and now :: time and reqRole :: MemberRole
  assumes ids: "unique_ids s"
      and org: "find (\<lambda>d. org_ID d = objID) (organizations s) = Some org"
      and role: "HasRole (org_Members org) updatedBy [OrgRoleOwner, OrgRoleAdmin]"
      and other: "updatedBy \<noteq> memberID"
      and absent: "GetMember (org_Members org) memberID = None"
      and hex: "ObjectIDFromHex orgID = Inr objID"
      and nf: "\<not> F (OrgGetByID orgID)" "\<not> F (OrgAddMember orgID memberID)"
  shows "fst (OrganizationService_UpdateOrganizationMember F now orgID memberID reqRole updatedBy s) = None \<and>
         find (\<lambda>d. org_ID d = objID)
           (organizations (snd (OrganizationService_UpdateOrganizationMember F now orgID memberID reqRole updatedBy s))) =
         Some (org\<lparr>org_Members := org_Members org @
                 [\<lparr>UserID = memberID, Role = reqRole, JoinedAt = now, InvitedBy = updatedBy\<rparr>],
               org_UpdatedAt := now\<rparr>)"
proof -
  have eq: "OrganizationService_UpdateOrganizationMember F now orgID memberID reqRole updatedBy s =
            OrganizationRepository_AddMember F now orgID memberID reqRole updatedBy s"
    using role other absent
    by (simp add: OrganizationService_UpdateOrganizationMember_def
        OrganizationRepository_GetByID_found [where F = F, OF hex org nf(1)])
  show ?thesis
    unfolding eq
    using OrganizationRepository_AddMember_effect [where F = F, OF ids org hex nf(2), of now reqRole updatedBy] absent
    by (auto simp: membership_write_def)
qed

lemma UpdateTeamMember_absent:
  fixes F :: faults and now :: time and reqRole :: MemberRole
  assumes ids: "unique_ids s"
      and team: "find (\<lambda>d. team_ID d = objID) (teams s) = Some team"
      and role: "HasRole (team_Members team) updatedBy [TeamRoleOwner, TeamRoleAdmin]"
      and other: "updatedBy \<noteq> memberID"
      and absent: "GetMember (team_Members team) memberID = None"
      and hex: "ObjectIDFromHex teamID = Inr objID"
      and nf: "\<not> F (TeamGetByID teamID)" "\<not> F (TeamAddMember teamID memberID)"
  shows "fst (TeamService_UpdateTeamMember F now teamID memberID reqRole updatedBy s) = None \<and>
         find (\<lambda>d. team_ID d = objID)
           (teams (snd (TeamService_UpdateTeamMember F now teamID memberID reqRole updatedBy s))) =
         Some (team\<lparr>team_Members := team_Members team @
                 [\<lparr>UserID = memberID, Role = reqRole, JoinedAt = now, InvitedBy = updatedBy\<rparr>],
               team_UpdatedAt := now\<rparr>)"
proof -
  have eq: "TeamService_UpdateTeamMember F now teamID memberID reqRole updatedBy s =
            TeamRepository_AddMember F now teamID memberID reqRole updatedBy s"
    using role other absent
    by (simp add: TeamService_UpdateTeamMember_def
        TeamRepository_GetByID_found [where F = F, OF hex team nf(1)])
  show ?thesis
    unfolding eq
    using TeamRepository_AddMember_effect [where F = F, OF ids team hex nf(2), of now reqRole updatedBy] absent
    by (auto simp: membership_write_def)
qed

text \<open>
  Claim C10: when the target user id is not in the group's members, a role update
  (\<^verbatim>\<open>UpdateOrganizationMember\<close>, \<^verbatim>\<open>UpdateTeamMember\<close>) by an actor who holds Owner or
  Admin and is not the target does not fail with a member-not-found error: called with
  an identifier that converts to the group's \<^verbatim>\<open>ObjectID\<close> and absent a store
  failure it returns no error, and afterwards the group has the target as a new last
  member with the requested role, joined now and invited by the actor.
\<close>

theorem UpdateMember_inserts_absent_member:
  fixes F :: faults and now :: time and reqRole :: MemberRole
  assumes "unique_ids s"
  shows "(ObjectIDFromHex orgID = Inr objID \<and>
          find (\<lambda>d. org_ID d = objID) (organizations s) = Some org \<and>
          HasRole (org_Members org) updatedBy [OrgRoleOwner, OrgRoleAdmin] \<and>
          updatedBy \<noteq> memberID \<and> GetMember (org_Members org) memberID = None \<and>
          \<not> F (OrgGetByID orgID) \<and> \<not> F (OrgAddMember orgID memberID) \<longrightarrow>
            fst (OrganizationService_UpdateOrganizationMember F now orgID memberID reqRole updatedBy s) = None \<and>
            find (\<lambda>d. org_ID d = objID)
              (organizations (snd (OrganizationService_UpdateOrganizationMember F now orgID memberID reqRole updatedBy s))) =
            Some (org\<lparr>org_Members := org_Members org @
                    [\<lparr>UserID = memberID, Role = reqRole, JoinedAt = now, InvitedBy = updatedBy\<rparr>],
                  org_UpdatedAt := now\<rparr>)) \<and>
         (ObjectIDFromHex teamID = Inr objID' \<and>
          find (\<lambda>d. team_ID d = objID') (teams s) = Some team \<and>
          HasRole (team_Members team) updatedBy [TeamRoleOwner, TeamRoleAdmin] \<and>
          updatedBy \<noteq> memberID \<and> GetMember (team_Members team) memberID = None \<and>
          \<not> F (TeamGetByID teamID) \<and> \<not> F (TeamAddMember teamID memberID) \<longrightarrow>
            fst (TeamService_UpdateTeamMember F now teamID memberID reqRole updatedBy s) = None \<and>
            find (\<lambda>d. team_ID d = objID')
              (teams (snd (TeamService_UpdateTeamMember F now teamID memberID reqRole updatedBy s))) =
            Some (team\<lparr>team_Members := team_Members team @
                    [\<lparr>UserID = memberID, Role = reqRole, JoinedAt = now, InvitedBy = updatedBy\<rparr>],
                  team_UpdatedAt := now\<rparr>))"
  using UpdateOrganizationMember_absent [OF assms, of objID org updatedBy memberID orgID F now reqRole]
    UpdateTeamMember_absent [OF assms, of objID' team updatedBy memberID teamID F now reqRole]
  by blast

theorem UpdateMember_inserts_absent_member_witness:
  "unique_ids demo_store \<and>
   ObjectIDFromHex org1 = Inr org1 \<and> ObjectIDFromHex team1 = Inr team1 \<and>
   find (\<lambda>d. org_ID d = org1) (organizations demo_store) = Some demo_org \<and>
   HasRole (org_Members demo_org) ''bob'' [OrgRoleOwner, OrgRoleAdmin] \<and>
   GetMember (org_Members demo_org) ''dave'' = None \<and>
   fst (OrganizationService_UpdateOrganizationMember no_faults 7 org1 ''dave'' ''owner'' ''bob'' demo_store) = None \<and>
   find (\<lambda>d. org_ID d = org1)
     (organizations (snd (OrganizationService_UpdateOrganizationMember no_faults 7 org1 ''dave'' ''owner'' ''bob'' demo_store))) =
   Some (demo_org\<lparr>org_Members := org_Members demo_org @
           [\<lparr>UserID = ''dave'', Role = ''owner'', JoinedAt = 7, InvitedBy = ''bob''\<rparr>],
         org_UpdatedAt := 7\<rparr>) \<and>
   find (\<lambda>d. team_ID d = team1) (teams demo_store) = Some demo_team \<and>
   HasRole (team_Members demo_team) ''bob'' [TeamRoleOwner, TeamRoleAdmin] \<and>
   GetMember (team_Members demo_team) ''dave'' = None \<and>
   fst (TeamService_UpdateTeamMember no_faults 7 team1 ''dave'' ''owner'' ''bob'' demo_store) = None \<and>
   find (\<lambda>d. team_ID d = team1)
     (teams (snd (TeamService_UpdateTeamMember no_faults 7 team1 ''dave'' ''owner'' ''bob'' demo_store))) =
   Some (demo_team\<lparr>team_Members := team_Members demo_team @
           [\<lparr>UserID = ''dave'', Role = ''owner'', JoinedAt = 7, InvitedBy = ''bob''\<rparr>],
         team_UpdatedAt := 7\<rparr>)"
proof -
  have g: "HasRole (org_Members demo_org) ''bob'' [OrgRoleOwner, OrgRoleAdmin]"
      "GetMember (org_Members demo_org) ''dave'' = None"
      "HasRole (team_Members demo_team) ''bob'' [TeamRoleOwner, TeamRoleAdmin]"
      "GetMember (team_Members demo_team) ''dave'' = None"
    by (simp_all add: demo_members HasRole_def GetMember_def mk_member_def)
  show ?thesis
    using UpdateMember_inserts_absent_member [OF demo_store_facts(1), where orgID = org1 and objID = org1 and objID' = team1 and org = demo_org
        and teamID = team1 and team = demo_team and F = no_faults and memberID = "''dave''"
        and updatedBy = "''bob''" and now = 7 and reqRole = "''owner''"]
      demo_store_facts demo_ids g
    by simp
qed

section \<open>Concrete runs of the services\<close>

lemmas demo_defs = demo_store_def demo_org_def demo_team_def NewOrganization_def NewTeam_def
  NewUser_def mk_member_def mk_user_def

lemmas repo_defs = OrganizationRepository_GetByID_def OrganizationRepository_AddMember_def
  OrganizationRepository_RemoveMember_def OrganizationRepository_Delete_def
  OrganizationRepository_RemoveTeam_def
  TeamRepository_GetByID_def TeamRepository_AddMember_def TeamRepository_RemoveMember_def
  TeamRepository_Delete_def
  UserRepository_GetByUserId_def UserRepository_AddOrganizationToUser_def
  UserRepository_RemoveOrganizationFromUser_def UserRepository_AddTeamToUser_def
  UserRepository_RemoveTeamFromUser_def
  GetMember_def IsMember_def HasRole_def addToSet_def pull_def notFoundAs_def has_owner_def

lemma short_id_refused:
  "length ident \<noteq> 24 \<Longrightarrow> ObjectIDFromHex ident = Inl ErrInvalidHex"
  by (simp add: ObjectIDFromHex_def)

lemma refused_identifier:
  assumes "ObjectIDFromHex ident = Inl e"
  shows "exec F now (UpdateOrganization ident ureq u) s = (Some e, s)"
    and "exec F now (DeleteOrganization ident u) s = (Some e, s)"
    and "exec F now (AddOrganizationMember ident m r u) s = (Some e, s)"
    and "exec F now (UpdateOrganizationMember ident m r u) s = (Some e, s)"
    and "exec F now (RemoveOrganizationMember ident m u) s = (Some e, s)"
    and "exec F now (UpdateTeam ident utreq u) s = (Some e, s)"
    and "exec F now (DeleteTeam ident u) s = (Some e, s)"
    and "exec F now (AddTeamMember ident m r u) s = (Some e, s)"
    and "exec F now (UpdateTeamMember ident m r u) s = (Some e, s)"
    and "exec F now (RemoveTeamMember ident m u) s = (Some e, s)"
proof -
  have e: "e = ErrInvalidHex"
    using assms by (auto simp: ObjectIDFromHex_def split: if_splits)
  show "exec F now (UpdateOrganization ident ureq u) s = (Some e, s)"
    and "exec F now (DeleteOrganization ident u) s = (Some e, s)"
    and "exec F now (AddOrganizationMember ident m r u) s = (Some e, s)"
    and "exec F now (UpdateOrganizationMember ident m r u) s = (Some e, s)"
    and "exec F now (RemoveOrganizationMember ident m u) s = (Some e, s)"
    and "exec F now (UpdateTeam ident utreq u) s = (Some e, s)"
    and "exec F now (DeleteTeam ident u) s = (Some e, s)"
    and "exec F now (AddTeamMember ident m r u) s = (Some e, s)"
    and "exec F now (UpdateTeamMember ident m r u) s = (Some e, s)"
    and "exec F now (RemoveTeamMember ident m u) s = (Some e, s)"
    using assms e
    by (simp_all add: OrganizationService_UpdateOrganization_def
        OrganizationService_DeleteOrganization_def OrganizationService_AddOrganizationMember_def
        OrganizationService_UpdateOrganizationMember_def
        OrganizationService_RemoveOrganizationMember_def TeamService_UpdateTeam_def
        TeamService_DeleteTeam_def TeamService_AddTeamMember_def TeamService_UpdateTeamMember_def
        TeamService_RemoveTeamMember_def OrganizationRepository_GetByID_def
        TeamRepository_GetByID_def notFoundAs_def)
qed

lemma created_organization_refused:
  "roles_of (run demo_history empty_store) = [(demo_uuid, [(''alice'', ''owner'')])] \<and>
   exec no_faults 3 (AddOrganizationMember demo_uuid ''bob'' ''admin'' ''alice'')
     (run demo_history empty_store) = (Some ErrInvalidHex, run demo_history empty_store)"
  by (simp add: OrganizationService_AddOrganizationMember_def
      repo_defs demo_defs roles_of_def demo_history_def demo_event_def empty_store_def
      UserService_ProcessAuthUserCreated_def UserService_CreateUser_def UserRepository_Create_def
      str_field_def OrganizationService_CreateOrganization_def OrganizationRepository_Create_def
      ObjectIDFromHex_def demo_uuid_def Let_def)

text \<open>
  Claim C1: after any sequence of operations that the services accept, every team and
  organization has a member with role Owner; in particular no accepted
  \<^verbatim>\<open>AddOrganizationMember\<close> or \<^verbatim>\<open>AddTeamMember\<close> call leaves a group without one.
  The add methods only require the caller to be Owner or Admin and then call the
  repository's insert-or-update, so adding a user who is already the sole Owner with a
  lower role replaces that role.  The store \<open>demo_store\<close> holds an organization and
  a team whose identifiers \<open>org1\<close> and \<open>team1\<close> are valid \<^verbatim>\<open>ObjectID\<close>s; alice is
  the only Owner of both and bob is an Admin.  Bob's call of
  \<^verbatim>\<open>AddOrganizationMember\<close> with alice and role Member, and of \<^verbatim>\<open>AddTeamMember\<close>
  with alice and role Viewer, return no error and leave the group without an Owner.
  The update methods refuse the same change of role by the same actor, with the store
  unchanged.  (A group that the services themselves created carries a 36-character
  identifier, which every later call refuses, see \<open>refused_identifier\<close> and
  \<open>created_organization_refused\<close>; the groups here are documents that the store
  already holds under \<^verbatim>\<open>ObjectID\<close>s.)
\<close>

theorem AddMember_demotes_sole_owner:
  "ObjectIDFromHex org1 = Inr org1 \<and> ObjectIDFromHex team1 = Inr team1 \<and>
   map_option org_Members (find (\<lambda>d. org_ID d = org1) (organizations demo_store)) =
     Some [mk_member ''alice'' ''owner'', mk_member ''bob'' ''admin'', mk_member ''carol'' ''member''] \<and>
   has_owner [mk_member ''alice'' ''owner'', mk_member ''bob'' ''admin'', mk_member ''carol'' ''member''] \<and>
   fst (OrganizationService_AddOrganizationMember no_faults 7 org1 ''alice'' ''member'' ''bob'' demo_store) = None \<and>
   map_option org_Members (find (\<lambda>d. org_ID d = org1)
     (organizations (snd (OrganizationService_AddOrganizationMember no_faults 7 org1 ''alice'' ''member'' ''bob'' demo_store)))) =
     Some [mk_member ''alice'' ''member'', mk_member ''bob'' ''admin'', mk_member ''carol'' ''member''] \<and>
   \<not> has_owner [mk_member ''alice'' ''member'', mk_member ''bob'' ''admin'', mk_member ''carol'' ''member''] \<and>
   OrganizationService_UpdateOrganizationMember no_faults 7 org1 ''alice'' ''member'' ''bob'' demo_store =
     (Some (ErrNew ''only an organization owner can change the role of another owner''), demo_store) \<and>
   map_option team_Members (find (\<lambda>d. team_ID d = team1) (teams demo_store)) =
     Some [mk_member ''alice'' ''owner'', mk_member ''bob'' ''admin'', mk_member ''carol'' ''member''] \<and>
   fst (TeamService_AddTeamMember no_faults 7 team1 ''alice'' ''viewer'' ''bob'' demo_store) = None \<and>
   map_option team_Members (find (\<lambda>d. team_ID d = team1)
     (teams (snd (TeamService_AddTeamMember no_faults 7 team1 ''alice'' ''viewer'' ''bob'' demo_store)))) =
     Some [mk_member ''alice'' ''viewer'', mk_member ''bob'' ''admin'', mk_member ''carol'' ''member''] \<and>
   \<not> has_owner [mk_member ''alice'' ''viewer'', mk_member ''bob'' ''admin'', mk_member ''carol'' ''member''] \<and>
   TeamService_UpdateTeamMember no_faults 7 team1 ''alice'' ''viewer'' ''bob'' demo_store =
     (Some (ErrNew ''only a team owner can change the role of another owner''), demo_store)"
  by (simp add: OrganizationService_AddOrganizationMember_def TeamService_AddTeamMember_def
      OrganizationService_UpdateOrganizationMember_def TeamService_UpdateTeamMember_def
      repo_defs demo_defs demo_ids Let_def)

section \<open>The sole Owner\<close>

lemma sole_owner_same:
  assumes one: "length (filter (\<lambda>m. Role m = ''owner'') ms) = 1"
      and t: "GetMember ms memberID = Some m" "Role m = ''owner''"
      and a: "HasRole ms actor [''owner'']"
  shows "actor = memberID"
proof -
  obtain x where x: "GetMember ms actor = Some x" "Role x = ''owner''"
    using a by (auto simp: HasRole_def split: option.splits)
  have "x = m"
    using filter_single_unique [OF one, of x m] GetMember_Some_UserID [OF x(1)]
      GetMember_Some_UserID [OF t(1)] x(2) t(2) by simp
  then show ?thesis
    using GetMember_Some_UserID [OF x(1)] GetMember_Some_UserID [OF t(1)] by simp
qed

lemma RemoveOrganizationMember_sole_owner:
  assumes hex: "ObjectIDFromHex orgID = Inr objID"
      and org: "find (\<lambda>d. org_ID d = objID) (organizations s) = Some org"
      and t: "GetMember (org_Members org) memberID = Some m" "Role m = OrgRoleOwner"
      and one: "length (filter (\<lambda>m. Role m = OrgRoleOwner) (org_Members org)) = 1"
  shows "\<exists>e. OrganizationService_RemoveOrganizationMember F now orgID memberID removedBy s = (Some e, s)"
  using hex org t one
  by (simp add: OrganizationService_RemoveOrganizationMember_def OrganizationRepository_GetByID_def
      ownerCount_filter Let_def)

lemma UpdateOrganizationMember_sole_owner:
  assumes hex: "ObjectIDFromHex orgID = Inr objID"
      and org: "find (\<lambda>d. org_ID d = objID) (organizations s) = Some org"
      and t: "GetMember (org_Members org) memberID = Some m" "Role m = OrgRoleOwner"
      and one: "length (filter (\<lambda>m. Role m = OrgRoleOwner) (org_Members org)) = 1"
      and r: "reqRole \<noteq> OrgRoleOwner"
  shows "\<exists>e. OrganizationService_UpdateOrganizationMember F now orgID memberID reqRole updatedBy s = (Some e, s)"
proof (cases "HasRole (org_Members org) updatedBy [OrgRoleOwner]")
  case True
  then have "updatedBy = memberID" using sole_owner_same [OF one t] by simp
  then show ?thesis
    using hex org t one r
    by (simp add: OrganizationService_UpdateOrganizationMember_def OrganizationRepository_GetByID_def
        ownerCount_filter Let_def)
next
  case False
  then show ?thesis
    using hex org t
    by (simp add: OrganizationService_UpdateOrganizationMember_def OrganizationRepository_GetByID_def
        Let_def)
qed

lemma RemoveTeamMember_sole_owner:
  assumes hex: "ObjectIDFromHex teamID = Inr objID"
      and team: "find (\<lambda>d. team_ID d = objID) (teams s) = Some team"
      and t: "GetMember (team_Members team) memberID = Some m" "Role m = TeamRoleOwner"
      and one: "length (filter (\<lambda>m. Role m = TeamRoleOwner) (team_Members team)) = 1"
  shows "\<exists>e. TeamService_RemoveTeamMember F now teamID memberID removedBy s = (Some e, s)"
  using hex team t one
  by (simp add: TeamService_RemoveTeamMember_def TeamRepository_GetByID_def
      ownerCount_filter Let_def)

lemma UpdateTeamMember_sole_owner:
  assumes hex: "ObjectIDFromHex teamID = Inr objID"
      and team: "find (\<lambda>d. team_ID d = objID) (teams s) = Some team"
      and t: "GetMember (team_Members team) memberID = Some m" "Role m = TeamRoleOwner"
      and one: "length (filter (\<lambda>m. Role m = TeamRoleOwner) (team_Members team)) = 1"
      and r: "reqRole \<noteq> TeamRoleOwner"
  shows "\<exists>e. TeamService_UpdateTeamMember F now teamID memberID reqRole updatedBy s = (Some e, s)"
proof (cases "HasRole (team_Members team) updatedBy [TeamRoleOwner]")
  case True
  then have "updatedBy = memberID" using sole_owner_same [OF one t] by simp
  then show ?thesis
    using hex team t one r
    by (simp add: TeamService_UpdateTeamMember_def TeamRepository_GetByID_def
        ownerCount_filter Let_def)
next
  case False
  then show ?thesis
    using hex team t
    by (simp add: TeamService_UpdateTeamMember_def TeamRepository_GetByID_def
        Let_def)
qed


text \<open>
  Claim C2: in a group with exactly one entry of role Owner, every
  \<^verbatim>\<open>RemoveOrganizationMember\<close> / \<^verbatim>\<open>RemoveTeamMember\<close> call whose target is that Owner,
  and every \<^verbatim>\<open>UpdateOrganizationMember\<close> / \<^verbatim>\<open>UpdateTeamMember\<close> call that would give
  that Owner another role, returns an error and leaves the store as it was, whoever the
  actor is (the sole Owner included) and whatever store calls fail.  The group of a call
  is the document that the call's identifier converts to, and the target is the entry
  that the lookup by user id finds.
\<close>

theorem sole_owner_protected:
  "(ObjectIDFromHex orgID = Inr objID \<and>
    find (\<lambda>d. org_ID d = objID) (organizations s) = Some org \<and>
    GetMember (org_Members org) memberID = Some m \<and> Role m = OrgRoleOwner \<and>
    length (filter (\<lambda>m. Role m = OrgRoleOwner) (org_Members org)) = 1 \<longrightarrow>
      (\<exists>e. OrganizationService_RemoveOrganizationMember F now orgID memberID actor s = (Some e, s)) \<and>
      (reqRole \<noteq> OrgRoleOwner \<longrightarrow>
        (\<exists>e. OrganizationService_UpdateOrganizationMember F now orgID memberID reqRole actor s = (Some e, s)))) \<and>
   (ObjectIDFromHex teamID = Inr objID' \<and>
    find (\<lambda>d. team_ID d = objID') (teams s) = Some team \<and>
    GetMember (team_Members team) memberID' = Some m' \<and> Role m' = TeamRoleOwner \<and>
    length (filter (\<lambda>m. Role m = TeamRoleOwner) (team_Members team)) = 1 \<longrightarrow>
      (\<exists>e. TeamService_RemoveTeamMember F now teamID memberID' actor s = (Some e, s)) \<and>
      (reqRole \<noteq> TeamRoleOwner \<longrightarrow>
        (\<exists>e. TeamService_UpdateTeamMember F now teamID memberID' reqRole actor s = (Some e, s))))"
  using RemoveOrganizationMember_sole_owner [of orgID objID s org memberID m F now actor]
    UpdateOrganizationMember_sole_owner [of orgID objID s org memberID m reqRole F now actor]
    RemoveTeamMember_sole_owner [of teamID objID' s team memberID' m' F now actor]
    UpdateTeamMember_sole_owner [of teamID objID' s team memberID' m' reqRole F now actor]
  by blast

theorem sole_owner_protected_witness:
  "ObjectIDFromHex org1 = Inr org1 \<and> ObjectIDFromHex team1 = Inr team1 \<and>
   find (\<lambda>d. org_ID d = org1) (organizations demo_store) = Some demo_org \<and>
   GetMember (org_Members demo_org) ''alice'' = Some (mk_member ''alice'' ''owner'') \<and>
   length (filter (\<lambda>m. Role m = OrgRoleOwner) (org_Members demo_org)) = 1 \<and>
   (\<exists>e. OrganizationService_RemoveOrganizationMember no_faults 7 org1 ''alice'' ''alice'' demo_store =
          (Some e, demo_store)) \<and>
   (\<exists>e. OrganizationService_UpdateOrganizationMember no_faults 7 org1 ''alice'' ''member'' ''alice'' demo_store =
          (Some e, demo_store)) \<and>
   find (\<lambda>d. team_ID d = team1) (teams demo_store) = Some demo_team \<and>
   GetMember (team_Members demo_team) ''alice'' = Some (mk_member ''alice'' ''owner'') \<and>
   length (filter (\<lambda>m. Role m = TeamRoleOwner) (team_Members demo_team)) = 1 \<and>
   (\<exists>e. TeamService_RemoveTeamMember no_faults 7 team1 ''alice'' ''alice'' demo_store =
          (Some e, demo_store)) \<and>
   (\<exists>e. TeamService_UpdateTeamMember no_faults 7 team1 ''alice'' ''member'' ''alice'' demo_store =
          (Some e, demo_store))"
proof -
  have g: "GetMember (org_Members demo_org) ''alice'' = Some (mk_member ''alice'' ''owner'')"
      "length (filter (\<lambda>m. Role m = OrgRoleOwner) (org_Members demo_org)) = 1"
      "GetMember (team_Members demo_team) ''alice'' = Some (mk_member ''alice'' ''owner'')"
      "length (filter (\<lambda>m. Role m = TeamRoleOwner) (team_Members demo_team)) = 1"
      "Role (mk_member ''alice'' ''owner'') = ''owner''"
    by (simp_all add: demo_members GetMember_def mk_member_def)
  show ?thesis
    using sole_owner_protected [where orgID = org1 and objID = org1 and objID' = team1 and s = demo_store and org = demo_org
        and memberID = "''alice''" and m = "mk_member ''alice'' ''owner''" and F = no_faults
        and now = 7 and actor = "''alice''" and reqRole = "''member''" and teamID = team1
        and team = demo_team and memberID' = "''alice''" and m' = "mk_member ''alice'' ''owner''"]
      demo_store_facts demo_ids g
    by simp
qed

section \<open>Who may remove a member\<close>

lemma filter_members_changes:
  "GetMember ms k = Some m \<Longrightarrow> filter (\<lambda>m. UserID m \<noteq> k) ms \<noteq> ms"
proof
  assume a: "GetMember ms k = Some m" and e: "filter (\<lambda>m. UserID m \<noteq> k) ms = ms"
  have "m \<in> set ms" "UserID m = k" using GetMember_Some_UserID [OF a] by simp_all
  then have "m \<in> set (filter (\<lambda>m. UserID m \<noteq> k) ms)" using e by simp
  then show False using \<open>UserID m = k\<close> by simp
qed

lemma OrganizationRepository_RemoveMember_ok:
  assumes hex: "ObjectIDFromHex orgID = Inr objID"
      and org: "find (\<lambda>d. org_ID d = objID) (organizations s) = Some org"
      and m: "GetMember (org_Members org) memberID = Some m"
      and nf: "\<not> F (OrgRemoveMember orgID memberID)"
  shows "OrganizationRepository_RemoveMember F now orgID memberID s =
           (None, s\<lparr>organizations := update_first (\<lambda>d. org_ID d = objID)
              (\<lambda>d. d\<lparr>org_Members := filter (\<lambda>m. UserID m \<noteq> memberID) (org_Members d), org_UpdatedAt := now\<rparr>)
              (organizations s)\<rparr>)"
proof -
  have "org\<lparr>org_Members := filter (\<lambda>m. UserID m \<noteq> memberID) (org_Members org), org_UpdatedAt := now\<rparr> \<noteq> org"
  proof
    assume "org\<lparr>org_Members := filter (\<lambda>m. UserID m \<noteq> memberID) (org_Members org), org_UpdatedAt := now\<rparr> = org"
    then have "org_Members (org\<lparr>org_Members := filter (\<lambda>m. UserID m \<noteq> memberID) (org_Members org), org_UpdatedAt := now\<rparr>) = org_Members org"
      by simp
    then show False using filter_members_changes [OF m] by simp
  qed
  then have "update_first (\<lambda>d. org_ID d = objID)
        (\<lambda>d. d\<lparr>org_Members := filter (\<lambda>m. UserID m \<noteq> memberID) (org_Members d), org_UpdatedAt := now\<rparr>)
        (organizations s) \<noteq> organizations s"
    using update_first_changes [OF org,
        of "\<lambda>d. d\<lparr>org_Members := filter (\<lambda>m. UserID m \<noteq> memberID) (org_Members d), org_UpdatedAt := now\<rparr>"]
    by simp
  then show ?thesis
    using hex nf by (simp add: OrganizationRepository_RemoveMember_def Let_def)
qed

lemma TeamRepository_RemoveMember_ok:
  assumes hex: "ObjectIDFromHex teamID = Inr objID"
      and team: "find (\<lambda>d. team_ID d = objID) (teams s) = Some team"
      and m: "GetMember (team_Members team) memberID = Some m"
      and nf: "\<not> F (TeamRemoveMember teamID memberID)"
  shows "TeamRepository_RemoveMember F now teamID memberID s =
           (None, s\<lparr>teams := update_first (\<lambda>d. team_ID d = objID)
              (\<lambda>d. d\<lparr>team_Members := filter (\<lambda>m. UserID m \<noteq> memberID) (team_Members d), team_UpdatedAt := now\<rparr>)
              (teams s)\<rparr>)"
proof -
  have "team\<lparr>team_Members := filter (\<lambda>m. UserID m \<noteq> memberID) (team_Members team), team_UpdatedAt := now\<rparr> \<noteq> team"
  proof
    assume "team\<lparr>team_Members := filter (\<lambda>m. UserID m \<noteq> memberID) (team_Members team), team_UpdatedAt := now\<rparr> = team"
    then have "team_Members (team\<lparr>team_Members := filter (\<lambda>m. UserID m \<noteq> memberID) (team_Members team), team_UpdatedAt := now\<rparr>) = team_Members team"
      by simp
    then show False using filter_members_changes [OF m] by simp
  qed
  then have "update_first (\<lambda>d. team_ID d = objID)
        (\<lambda>d. d\<lparr>team_Members := filter (\<lambda>m. UserID m \<noteq> memberID) (team_Members d), team_UpdatedAt := now\<rparr>)
        (teams s) \<noteq> teams s"
    using update_first_changes [OF team,
        of "\<lambda>d. d\<lparr>team_Members := filter (\<lambda>m. UserID m \<noteq> memberID) (team_Members d), team_UpdatedAt := now\<rparr>"]
    by simp
  then show ?thesis
    using hex nf by (simp add: TeamRepository_RemoveMember_def Let_def)
qed

lemma RemoveOrganizationMember_rule:
  assumes hex: "ObjectIDFromHex orgID = Inr objID"
      and org: "find (\<lambda>d. org_ID d = objID) (organizations s) = Some org"
      and m: "GetMember (org_Members org) memberID = Some m"
      and nf: "\<not> F (OrgGetByID orgID)" "\<not> F (OrgRemoveMember orgID memberID)"
  shows "(HasRole (org_Members org) actor [OrgRoleOwner] \<or> actor = memberID \<or>
          (HasRole (org_Members org) actor [OrgRoleAdmin] \<and> Role m \<noteq> OrgRoleOwner) \<longrightarrow>
            fst (OrganizationService_RemoveOrganizationMember F now orgID memberID actor s) =
              (if Role m = OrgRoleOwner \<and> ownerCount (org_Members org) \<le> 1
               then Some (ErrNew ''cannot remove the only organization owner'') else None)) \<and>
         (\<not> HasRole (org_Members org) actor [OrgRoleOwner] \<and> actor \<noteq> memberID \<and>
          (Role m = OrgRoleOwner \<or>
           (Role m = OrgRoleAdmin \<and> \<not> HasRole (org_Members org) actor [OrgRoleAdmin])) \<longrightarrow>
            OrganizationService_RemoveOrganizationMember F now orgID memberID actor s =
              (Some (ErrNew ''insufficient permissions to remove this organization member''), s))"
  using hex org m nf(1) OrganizationRepository_RemoveMember_ok [where F = F, OF hex org m nf(2), of now]
  by (auto simp: OrganizationService_RemoveOrganizationMember_def OrganizationRepository_GetByID_def
      Let_def split: prod.splits option.splits)

lemma RemoveTeamMember_rule:
  assumes hex: "ObjectIDFromHex teamID = Inr objID"
      and team: "find (\<lambda>d. team_ID d = objID) (teams s) = Some team"
      and m: "GetMember (team_Members team) memberID = Some m"
      and nf: "\<not> F (TeamGetByID teamID)" "\<not> F (TeamRemoveMember teamID memberID)"
  shows "(HasRole (team_Members team) actor [TeamRoleOwner] \<or> actor = memberID \<or>
          (HasRole (team_Members team) actor [TeamRoleAdmin] \<and> Role m \<noteq> TeamRoleOwner) \<longrightarrow>
            fst (TeamService_RemoveTeamMember F now teamID memberID actor s) =
              (if Role m = TeamRoleOwner \<and> ownerCount (team_Members team) \<le> 1
               then Some (ErrNew ''cannot remove the only team owner'') else None)) \<and>
         (\<not> HasRole (team_Members team) actor [TeamRoleOwner] \<and> actor \<noteq> memberID \<and>
          (Role m = TeamRoleOwner \<or>
           (Role m = TeamRoleAdmin \<and> \<not> HasRole (team_Members team) actor [TeamRoleAdmin])) \<longrightarrow>
            TeamService_RemoveTeamMember F now teamID memberID actor s =
              (Some (ErrNew ''insufficient permissions to remove this team member''), s))"
  using hex team m nf(1) TeamRepository_RemoveMember_ok [where F = F, OF hex team m nf(2), of now]
  by (auto simp: TeamService_RemoveTeamMember_def TeamRepository_GetByID_def
      Let_def split: prod.splits option.splits)


lemma RemoveOrganizationMember_any_actor:
  assumes hex: "ObjectIDFromHex orgID = Inr objID"
      and org: "find (\<lambda>d. org_ID d = objID) (organizations s) = Some org"
      and m: "GetMember (org_Members org) memberID = Some m"
      and r: "Role m \<noteq> OrgRoleOwner" "Role m \<noteq> OrgRoleAdmin"
      and nf: "\<not> F (OrgGetByID orgID)" "\<not> F (OrgRemoveMember orgID memberID)"
  shows "fst (OrganizationService_RemoveOrganizationMember F now orgID memberID actor s) = None \<and>
         map_option org_Members (find (\<lambda>d. org_ID d = objID)
           (organizations (snd (OrganizationService_RemoveOrganizationMember F now orgID memberID actor s)))) =
         Some (filter (\<lambda>x. UserID x \<noteq> memberID) (org_Members org))"
proof -
  have u: "organizations (snd (UserRepository_RemoveOrganizationFromUser F now memberID orgID st)) =
           organizations st" for st
    by (simp add: UserRepository_RemoveOrganizationFromUser_def)
  show ?thesis
    using hex org m r nf(1) find_org_after_update [OF org]
    by (simp add: OrganizationService_RemoveOrganizationMember_def OrganizationRepository_GetByID_def
        OrganizationRepository_RemoveMember_ok [where F = F, OF hex org m nf(2)] u Let_def)
qed

lemma RemoveTeamMember_any_actor:
  assumes hex: "ObjectIDFromHex teamID = Inr objID"
      and team: "find (\<lambda>d. team_ID d = objID) (teams s) = Some team"
      and m: "GetMember (team_Members team) memberID = Some m"
      and r: "Role m \<noteq> TeamRoleOwner" "Role m \<noteq> TeamRoleAdmin"
      and nf: "\<not> F (TeamGetByID teamID)" "\<not> F (TeamRemoveMember teamID memberID)"
  shows "fst (TeamService_RemoveTeamMember F now teamID memberID actor s) = None \<and>
         map_option team_Members (find (\<lambda>d. team_ID d = objID)
           (teams (snd (TeamService_RemoveTeamMember F now teamID memberID actor s)))) =
         Some (filter (\<lambda>x. UserID x \<noteq> memberID) (team_Members team))"
proof -
  have u: "teams (snd (UserRepository_RemoveTeamFromUser F now memberID teamID st)) = teams st" for st
    by (simp add: UserRepository_RemoveTeamFromUser_def)
  show ?thesis
    using hex team m r nf(1) find_team_after_update [OF team]
    by (simp add: TeamService_RemoveTeamMember_def TeamRepository_GetByID_def
        TeamRepository_RemoveMember_ok [where F = F, OF hex team m nf(2)] u Let_def)
qed

text \<open>
  Claim C3: \<^verbatim>\<open>RemoveOrganizationMember\<close> / \<^verbatim>\<open>RemoveTeamMember\<close> succeeds exactly when
  the actor holds Owner, or is the target, or holds Admin while the target is not an
  Owner, and in every other case, in particular for an actor who is a plain Member, a
  Viewer or not a member of the group at all, the call is denied with a permission
  error.  The permission test of the two methods denies only when the target's role is
  Owner, or is Admin while the actor is not an Admin; it never looks at the actor when
  the target's role is anything else.  So, absent a store failure, a target whose role is
  neither Owner nor Admin is removed at the request of every actor whatsoever: the call
  returns no error and the group's member list afterwards is the old one without the
  target.  (\<open>RemoveOrganizationMember_rule\<close> and \<open>RemoveTeamMember_rule\<close> above give the
  cases in which the methods do what the claim says.)
\<close>

theorem RemoveMember_by_any_actor:
  "(ObjectIDFromHex orgID = Inr objID \<and>
    find (\<lambda>d. org_ID d = objID) (organizations s) = Some org \<and>
    GetMember (org_Members org) memberID = Some m \<and>
    Role m \<noteq> OrgRoleOwner \<and> Role m \<noteq> OrgRoleAdmin \<and>
    \<not> F (OrgGetByID orgID) \<and> \<not> F (OrgRemoveMember orgID memberID) \<longrightarrow>
      fst (OrganizationService_RemoveOrganizationMember F now orgID memberID actor s) = None \<and>
      map_option org_Members (find (\<lambda>d. org_ID d = objID)
        (organizations (snd (OrganizationService_RemoveOrganizationMember F now orgID memberID actor s)))) =
      Some (filter (\<lambda>x. UserID x \<noteq> memberID) (org_Members org))) \<and>
   (ObjectIDFromHex teamID = Inr objID' \<and>
    find (\<lambda>d. team_ID d = objID') (teams s) = Some team \<and>
    GetMember (team_Members team) memberID' = Some m' \<and>
    Role m' \<noteq> TeamRoleOwner \<and> Role m' \<noteq> TeamRoleAdmin \<and>
    \<not> F (TeamGetByID teamID) \<and> \<not> F (TeamRemoveMember teamID memberID') \<longrightarrow>
      fst (TeamService_RemoveTeamMember F now teamID memberID' actor s) = None \<and>
      map_option team_Members (find (\<lambda>d. team_ID d = objID')
        (teams (snd (TeamService_RemoveTeamMember F now teamID memberID' actor s)))) =
      Some (filter (\<lambda>x. UserID x \<noteq> memberID') (team_Members team)))"
  using RemoveOrganizationMember_any_actor [where F = F and orgID = orgID and objID = objID and s = s
      and org = org and memberID = memberID and m = m and now = now and actor = actor]
    RemoveTeamMember_any_actor [where F = F and teamID = teamID and objID = objID' and s = s
      and team = team and memberID = memberID' and m = m' and now = now and actor = actor]
  by blast

text \<open>
  In \<open>demo_store\<close> dave is a member of neither group and carol is a plain Member of
  both: dave's calls to remove carol return no error and leave alice and bob as the
  only members.
\<close>

theorem RemoveMember_by_any_actor_witness:
  "ObjectIDFromHex org1 = Inr org1 \<and> ObjectIDFromHex team1 = Inr team1 \<and>
   find (\<lambda>d. org_ID d = org1) (organizations demo_store) = Some demo_org \<and>
   find (\<lambda>d. team_ID d = team1) (teams demo_store) = Some demo_team \<and>
   org_Members demo_org =
     [mk_member ''alice'' ''owner'', mk_member ''bob'' ''admin'', mk_member ''carol'' ''member''] \<and>
   team_Members demo_team =
     [mk_member ''alice'' ''owner'', mk_member ''bob'' ''admin'', mk_member ''carol'' ''member''] \<and>
   \<not> IsMember (org_Members demo_org) ''dave'' \<and> \<not> IsMember (team_Members demo_team) ''dave'' \<and>
   fst (OrganizationService_RemoveOrganizationMember no_faults 7 org1 ''carol'' ''dave'' demo_store) = None \<and>
   map_option org_Members (find (\<lambda>d. org_ID d = org1)
     (organizations (snd (OrganizationService_RemoveOrganizationMember no_faults 7 org1 ''carol'' ''dave'' demo_store)))) =
   Some [mk_member ''alice'' ''owner'', mk_member ''bob'' ''admin''] \<and>
   fst (TeamService_RemoveTeamMember no_faults 7 team1 ''carol'' ''dave'' demo_store) = None \<and>
   map_option team_Members (find (\<lambda>d. team_ID d = team1)
     (teams (snd (TeamService_RemoveTeamMember no_faults 7 team1 ''carol'' ''dave'' demo_store)))) =
   Some [mk_member ''alice'' ''owner'', mk_member ''bob'' ''admin'']"
proof -
  have g: "GetMember (org_Members demo_org) ''carol'' = Some (mk_member ''carol'' ''member'')"
      "GetMember (team_Members demo_team) ''carol'' = Some (mk_member ''carol'' ''member'')"
      "Role (mk_member ''carol'' ''member'') = ''member''"
      "\<not> IsMember (org_Members demo_org) ''dave''" "\<not> IsMember (team_Members demo_team) ''dave''"
      "filter (\<lambda>x. UserID x \<noteq> ''carol'') (org_Members demo_org) =
         [mk_member ''alice'' ''owner'', mk_member ''bob'' ''admin'']"
      "filter (\<lambda>x. UserID x \<noteq> ''carol'') (team_Members demo_team) =
         [mk_member ''alice'' ''owner'', mk_member ''bob'' ''admin'']"
    by (simp_all add: demo_members GetMember_def IsMember_def mk_member_def)
  show ?thesis
    using RemoveMember_by_any_actor [where orgID = org1 and objID = org1 and s = demo_store
        and org = demo_org and memberID = "''carol''" and m = "mk_member ''carol'' ''member''"
        and F = no_faults and now = 7 and actor = "''dave''" and teamID = team1 and objID' = team1
        and team = demo_team and memberID' = "''carol''" and m' = "mk_member ''carol'' ''member''"]
      demo_store_facts demo_ids demo_members g
    by simp
qed

section \<open>Errors and best-effort writes\<close>

lemma repo_error_unchanged:
  "fst (OrganizationRepository_Create F org s) = Some e \<Longrightarrow> snd (OrganizationRepository_Create F org s) = s"
  "fst (OrganizationRepository_Update F now org s) = Some e \<Longrightarrow> snd (OrganizationRepository_Update F now org s) = s"
  "fst (OrganizationRepository_AddMember F now a b r i s) = Some e \<Longrightarrow>
     snd (OrganizationRepository_AddMember F now a b r i s) = s"
  "fst (OrganizationRepository_RemoveMember F now a b s) = Some e \<Longrightarrow>
     snd (OrganizationRepository_RemoveMember F now a b s) = s"
  "fst (TeamRepository_Create F team s) = Some e \<Longrightarrow> snd (TeamRepository_Create F team s) = s"
  "fst (TeamRepository_Update F now team s) = Some e \<Longrightarrow> snd (TeamRepository_Update F now team s) = s"
  "fst (TeamRepository_Delete F a s) = Some e \<Longrightarrow> snd (TeamRepository_Delete F a s) = s"
  "fst (TeamRepository_AddMember F now a b r i s) = Some e \<Longrightarrow>
     snd (TeamRepository_AddMember F now a b r i s) = s"
  "fst (TeamRepository_RemoveMember F now a b s) = Some e \<Longrightarrow>
     snd (TeamRepository_RemoveMember F now a b s) = s"
  "fst (UserRepository_Create F user s) = Some e \<Longrightarrow> snd (UserRepository_Create F user s) = s"
  by (auto simp: OrganizationRepository_Create_def OrganizationRepository_Update_def
      OrganizationRepository_AddMember_def
      OrganizationRepository_RemoveMember_def TeamRepository_Create_def TeamRepository_Update_def
      TeamRepository_Delete_def TeamRepository_AddMember_def TeamRepository_RemoveMember_def
      UserRepository_Create_def Let_def split: if_splits sum.splits)

lemma OrganizationRepository_Delete_error:
  "OrganizationRepository_GetByID F s a = Inr org \<Longrightarrow>
   fst (OrganizationRepository_Delete F a s1) = Some e \<Longrightarrow> e = StoreErr"
  by (auto simp: OrganizationRepository_GetByID_def OrganizationRepository_Delete_def
      split: if_splits sum.splits)

lemma case_prod_error_fst:
  "fst (case p of (Some err, s1) \<Rightarrow> (Some err, s1) | (None, s1) \<Rightarrow> (None, g s1)) = Some e
     \<longleftrightarrow> fst p = Some e"
  by (cases p) (auto split: option.splits)

lemma case_prod_error_snd:
  "fst p = Some e \<Longrightarrow>
   snd (case p of (Some err, s1) \<Rightarrow> (Some err, s1) | (None, s1) \<Rightarrow> (None, g s1)) = snd p"
  by (cases p) (auto split: option.splits)

lemma CreateOrganization_error_unchanged:
  "fst (OrganizationService_CreateOrganization F now newId creq createdBy s) = Some e \<Longrightarrow>
     snd (OrganizationService_CreateOrganization F now newId creq createdBy s) = s"
  by (simp add: OrganizationService_CreateOrganization_def Let_def case_prod_error_fst
      case_prod_error_snd repo_error_unchanged)

lemma UpdateOrganization_error_unchanged:
  "fst (OrganizationService_UpdateOrganization F now a ureq userID s) = Some e \<Longrightarrow>
     snd (OrganizationService_UpdateOrganization F now a ureq userID s) = s"
  by (auto simp: OrganizationService_UpdateOrganization_def repo_error_unchanged
      split: sum.splits if_splits)

lemma DeleteOrganization_error_unchanged:
  "fst (OrganizationService_DeleteOrganization F now a userID s) = Some e \<Longrightarrow> e \<noteq> StoreErr \<Longrightarrow>
     snd (OrganizationService_DeleteOrganization F now a userID s) = s"
  by (auto simp: OrganizationService_DeleteOrganization_def Let_def case_prod_error_fst
      split: sum.splits if_splits dest: OrganizationRepository_Delete_error)

lemma AddOrganizationMember_error_unchanged:
  "fst (OrganizationService_AddOrganizationMember F now a b r c s) = Some e \<Longrightarrow>
     snd (OrganizationService_AddOrganizationMember F now a b r c s) = s"
  by (auto simp: OrganizationService_AddOrganizationMember_def case_prod_error_fst
      case_prod_error_snd repo_error_unchanged split: sum.splits if_splits)

lemma UpdateOrganizationMember_error_unchanged:
  "fst (OrganizationService_UpdateOrganizationMember F now a b r c s) = Some e \<Longrightarrow>
     snd (OrganizationService_UpdateOrganizationMember F now a b r c s) = s"
  by (auto simp: OrganizationService_UpdateOrganizationMember_def Let_def repo_error_unchanged
      split: sum.splits if_splits option.splits)

lemma RemoveOrganizationMember_error_unchanged:
  "fst (OrganizationService_RemoveOrganizationMember F now a b c s) = Some e \<Longrightarrow>
     snd (OrganizationService_RemoveOrganizationMember F now a b c s) = s"
  by (auto simp: OrganizationService_RemoveOrganizationMember_def Let_def case_prod_error_fst
      case_prod_error_snd repo_error_unchanged split: sum.splits if_splits option.splits)


lemma CreateTeam_error_unchanged:
  "fst (TeamService_CreateTeam F now newId creq createdBy s) = Some e \<Longrightarrow>
     snd (TeamService_CreateTeam F now newId creq createdBy s) = s"
  by (auto simp: TeamService_CreateTeam_def Let_def case_prod_error_fst
      case_prod_error_snd repo_error_unchanged split: sum.splits if_splits)

lemma UpdateTeam_error_unchanged:
  "fst (TeamService_UpdateTeam F now a ureq userID s) = Some e \<Longrightarrow>
     snd (TeamService_UpdateTeam F now a ureq userID s) = s"
  by (auto simp: TeamService_UpdateTeam_def repo_error_unchanged split: sum.splits if_splits)

lemma DeleteTeam_error_unchanged:
  "fst (TeamService_DeleteTeam F now a userID s) = Some e \<Longrightarrow>
     snd (TeamService_DeleteTeam F now a userID s) = s"
  by (auto simp: TeamService_DeleteTeam_def Let_def case_prod_error_fst
      case_prod_error_snd repo_error_unchanged split: sum.splits if_splits)

lemma AddTeamMember_error_unchanged:
  "fst (TeamService_AddTeamMember F now a b r c s) = Some e \<Longrightarrow>
     snd (TeamService_AddTeamMember F now a b r c s) = s"
  by (auto simp: TeamService_AddTeamMember_def case_prod_error_fst
      case_prod_error_snd repo_error_unchanged split: sum.splits if_splits)

lemma UpdateTeamMember_error_unchanged:
  "fst (TeamService_UpdateTeamMember F now a b r c s) = Some e \<Longrightarrow>
     snd (TeamService_UpdateTeamMember F now a b r c s) = s"
  by (auto simp: TeamService_UpdateTeamMember_def Let_def repo_error_unchanged
      split: sum.splits if_splits option.splits)

lemma RemoveTeamMember_error_unchanged:
  "fst (TeamService_RemoveTeamMember F now a b c s) = Some e \<Longrightarrow>
     snd (TeamService_RemoveTeamMember F now a b c s) = s"
  by (auto simp: TeamService_RemoveTeamMember_def Let_def case_prod_error_fst
      case_prod_error_snd repo_error_unchanged split: sum.splits if_splits option.splits)

lemma ProcessAuthUserCreated_error_unchanged:
  "fst (UserService_ProcessAuthUserCreated F now newId ev s) = Some e \<Longrightarrow>
     snd (UserService_ProcessAuthUserCreated F now newId ev s) = s"
  by (auto simp: UserService_ProcessAuthUserCreated_def UserService_CreateUser_def Let_def
      repo_error_unchanged split: sum.splits if_splits event_data.splits)

lemma exec_error_unchanged:
  "fst (exec F now op s) = Some e \<Longrightarrow> e \<noteq> StoreErr \<Longrightarrow> snd (exec F now op s) = s"
  by (cases op)
     (simp_all add: CreateOrganization_error_unchanged UpdateOrganization_error_unchanged
        DeleteOrganization_error_unchanged AddOrganizationMember_error_unchanged
        UpdateOrganizationMember_error_unchanged RemoveOrganizationMember_error_unchanged
        CreateTeam_error_unchanged UpdateTeam_error_unchanged DeleteTeam_error_unchanged
        AddTeamMember_error_unchanged UpdateTeamMember_error_unchanged
        RemoveTeamMember_error_unchanged ProcessAuthUserCreated_error_unchanged)

lemma agree_calls:
  assumes "\<forall>c. \<not> reverse_reference_call c \<longrightarrow> F c = F' c"
  shows "F (OrgGetByID a) = F' (OrgGetByID a)" "F (OrgCreate a) = F' (OrgCreate a)"
    "F (OrgUpdate a) = F' (OrgUpdate a)" "F (OrgDelete a) = F' (OrgDelete a)"
    "F (OrgAddMember a b) = F' (OrgAddMember a b)" "F (OrgRemoveMember a b) = F' (OrgRemoveMember a b)"
    "F (OrgAddTeam a b) = F' (OrgAddTeam a b)" "F (OrgRemoveTeam a b) = F' (OrgRemoveTeam a b)"
    "F (TeamGetByID a) = F' (TeamGetByID a)" "F (TeamCreate a) = F' (TeamCreate a)"
    "F (TeamUpdate a) = F' (TeamUpdate a)" "F (TeamDelete a) = F' (TeamDelete a)"
    "F (TeamAddMember a b) = F' (TeamAddMember a b)" "F (TeamRemoveMember a b) = F' (TeamRemoveMember a b)"
    "F (UserGetByUserId a) = F' (UserGetByUserId a)" "F (UserCreate a) = F' (UserCreate a)"
  using assms by simp_all

lemma agree_repos:
  assumes "\<forall>c. \<not> reverse_reference_call c \<longrightarrow> F c = F' c"
  shows "OrganizationRepository_GetByID F s a = OrganizationRepository_GetByID F' s a"
    "OrganizationRepository_Create F org s = OrganizationRepository_Create F' org s"
    "OrganizationRepository_Update F now org s = OrganizationRepository_Update F' now org s"
    "OrganizationRepository_Delete F a s = OrganizationRepository_Delete F' a s"
    "OrganizationRepository_AddMember F now a b r i s = OrganizationRepository_AddMember F' now a b r i s"
    "OrganizationRepository_RemoveMember F now a b s = OrganizationRepository_RemoveMember F' now a b s"
    "TeamRepository_GetByID F s a = TeamRepository_GetByID F' s a"
    "TeamRepository_Create F team s = TeamRepository_Create F' team s"
    "TeamRepository_Update F now team s = TeamRepository_Update F' now team s"
    "TeamRepository_Delete F a s = TeamRepository_Delete F' a s"
    "TeamRepository_AddMember F now a b r i s = TeamRepository_AddMember F' now a b r i s"
    "TeamRepository_RemoveMember F now a b s = TeamRepository_RemoveMember F' now a b s"
    "UserRepository_GetByUserId F s a = UserRepository_GetByUserId F' s a"
    "UserRepository_Create F user s = UserRepository_Create F' user s"
  using agree_calls [OF assms]
  by (simp_all add: OrganizationRepository_GetByID_def OrganizationRepository_Create_def
      OrganizationRepository_Update_def OrganizationRepository_Delete_def
      OrganizationRepository_AddMember_def OrganizationRepository_RemoveMember_def
      TeamRepository_GetByID_def TeamRepository_Create_def TeamRepository_Update_def
      TeamRepository_Delete_def TeamRepository_AddMember_def TeamRepository_RemoveMember_def
      UserRepository_GetByUserId_def UserRepository_Create_def split: sum.splits)

lemma case_prod_fst_only:
  "fst (case p of (Some err, s1) \<Rightarrow> (Some err, s1) | (None, s1) \<Rightarrow> (None, g s1)) = fst p"
  by (cases p) (auto split: option.splits)

lemma fold_TeamDelete_agree:
  assumes "\<forall>c. \<not> reverse_reference_call c \<longrightarrow> F c = F' c"
  shows "fold (\<lambda>teamID st. snd (TeamRepository_Delete F teamID st)) ids s =
         fold (\<lambda>teamID st. snd (TeamRepository_Delete F' teamID st)) ids s"
  using agree_repos(10) [OF assms] by simp

lemma exec_result_ignores_reverse_references:
  assumes "\<forall>c. \<not> reverse_reference_call c \<longrightarrow> F c = F' c"
  shows "fst (exec F now op s) = fst (exec F' now op s)"
proof -
  note ar = agree_repos [OF assms] fold_TeamDelete_agree [OF assms]
  show ?thesis
  proof (cases op)
    case (CreateOrganization a b c)
    then show ?thesis
      by (simp add: ar OrganizationService_CreateOrganization_def Let_def case_prod_fst_only)
  next
    case (UpdateOrganization a b c)
    then show ?thesis
      by (simp add: ar OrganizationService_UpdateOrganization_def split: sum.splits)
  next
    case (DeleteOrganization a u)
    then show ?thesis
      by (simp add: ar OrganizationService_DeleteOrganization_def Let_def case_prod_fst_only
          split: sum.splits)
  next
    case (AddOrganizationMember a b c d)
    then show ?thesis
      by (simp add: ar OrganizationService_AddOrganizationMember_def case_prod_fst_only
          split: sum.splits)
  next
    case (UpdateOrganizationMember a b c d)
    then show ?thesis
      by (simp add: ar OrganizationService_UpdateOrganizationMember_def Let_def split: sum.splits option.splits)
  next
    case (RemoveOrganizationMember a b c)
    then show ?thesis
      by (simp add: ar OrganizationService_RemoveOrganizationMember_def Let_def case_prod_fst_only
          split: sum.splits option.splits)
  next
    case (CreateTeam a b c)
    then show ?thesis
      by (simp add: ar TeamService_CreateTeam_def Let_def case_prod_fst_only split: sum.splits)
  next
    case (UpdateTeam a b c)
    then show ?thesis
      by (simp add: ar TeamService_UpdateTeam_def split: sum.splits)
  next
    case (DeleteTeam a u)
    then show ?thesis
      by (simp add: ar TeamService_DeleteTeam_def case_prod_fst_only split: sum.splits)
  next
    case (AddTeamMember a b c d)
    then show ?thesis
      by (simp add: ar TeamService_AddTeamMember_def case_prod_fst_only split: sum.splits)
  next
    case (UpdateTeamMember a b c d)
    then show ?thesis
      by (simp add: ar TeamService_UpdateTeamMember_def Let_def split: sum.splits option.splits)
  next
    case (RemoveTeamMember a b c)
    then show ?thesis
      by (simp add: ar TeamService_RemoveTeamMember_def Let_def case_prod_fst_only
          split: sum.splits option.splits)
  next
    case (ProcessAuthUserCreated a b)
    then show ?thesis
      by (simp add: ar UserService_ProcessAuthUserCreated_def UserService_CreateUser_def Let_def split: event_data.splits sum.splits)
  qed
qed


text \<open>
  Claim C7: for every operation of the services, the mutations of members and groups
  included, if the operation returns a permission, invariant or validation error (any
  error other than a failure of the store itself) then the store is as it was before
  the call; and the error an operation returns does not depend on whether the writes to
  the users' \<^verbatim>\<open>organizationIds\<close> and \<^verbatim>\<open>teamIds\<close> fail: two fault assignments that
  differ only on those reverse-reference writes give the same result, so a failing
  reverse-reference write after a successful group write leaves the result a success.
\<close>

theorem errors_write_nothing:
  "(fst (exec F now op s) = Some e \<and> e \<noteq> StoreErr \<longrightarrow> snd (exec F now op s) = s) \<and>
   ((\<forall>c. \<not> reverse_reference_call c \<longrightarrow> F c = F' c) \<longrightarrow>
      fst (exec F now op s) = fst (exec F' now op s))"
  using exec_error_unchanged [of F now op s e]
    exec_result_ignores_reverse_references [of F F' now op s]
  by blast

theorem errors_write_nothing_witness:
  "fst (exec no_faults 7 (AddOrganizationMember org1 ''dave'' ''member'' ''carol'') demo_store) =
     Some (ErrNew ''insufficient permissions to add organization member'') \<and>
   snd (exec no_faults 7 (AddOrganizationMember org1 ''dave'' ''member'' ''carol'') demo_store) = demo_store \<and>
   reverse_reference_call (UserAddOrganization ''dave'' org1) \<and>
   fst (exec no_faults 7 (AddOrganizationMember org1 ''dave'' ''member'' ''bob'') demo_store) = None \<and>
   fst (exec reverse_reference_call 7 (AddOrganizationMember org1 ''dave'' ''member'' ''bob'') demo_store) = None \<and>
   map user_OrganizationIDs
     (users (snd (exec reverse_reference_call 7 (AddOrganizationMember org1 ''dave'' ''member'' ''bob'') demo_store))) =
     [[org1], [org1], [org1], []]"
proof -
  have e1: "fst (exec no_faults 7 (AddOrganizationMember org1 ''dave'' ''member'' ''carol'') demo_store) =
     Some (ErrNew ''insufficient permissions to add organization member'')"
    by (simp add: OrganizationService_AddOrganizationMember_def OrganizationRepository_GetByID_def demo_ids
        HasRole_def GetMember_def demo_store_def demo_org_def NewOrganization_def mk_member_def)
  have e2: "fst (exec no_faults 7 (AddOrganizationMember org1 ''dave'' ''member'' ''bob'') demo_store) = None"
    by (simp add: OrganizationService_AddOrganizationMember_def OrganizationRepository_GetByID_def demo_ids
        OrganizationRepository_AddMember_def UserRepository_GetByUserId_def
        HasRole_def GetMember_def IsMember_def demo_store_def demo_org_def NewOrganization_def
        mk_member_def mk_user_def NewUser_def split: prod.splits)
  have e3: "map user_OrganizationIDs
     (users (snd (exec reverse_reference_call 7 (AddOrganizationMember org1 ''dave'' ''member'' ''bob'') demo_store))) =
     [[org1], [org1], [org1], []]"
    by (simp add: OrganizationService_AddOrganizationMember_def OrganizationRepository_GetByID_def demo_ids
        OrganizationRepository_AddMember_def UserRepository_GetByUserId_def
        UserRepository_AddOrganizationToUser_def
        HasRole_def GetMember_def IsMember_def demo_store_def demo_org_def NewOrganization_def
        mk_member_def mk_user_def NewUser_def)
  have a: "\<forall>c. \<not> reverse_reference_call c \<longrightarrow> no_faults c = reverse_reference_call c"
    by simp
  show ?thesis
    using errors_write_nothing [where F = no_faults and now = 7
        and op = "AddOrganizationMember org1 ''dave'' ''member'' ''carol''" and s = demo_store
        and e = "ErrNew ''insufficient permissions to add organization member''" and F' = no_faults]
      errors_write_nothing [where F = no_faults and now = 7
        and op = "AddOrganizationMember org1 ''dave'' ''member'' ''bob''" and s = demo_store
        and e = StoreErr and F' = reverse_reference_call]
      e1 e2 e3 a
    by simp
qed

section \<open>Member lists never hold a user twice\<close>

lemma set_delete_first: "set (delete_first P xs) \<subseteq> set xs"
  by (induction xs) auto

lemma distinct_map_delete_first: "distinct (map f xs) \<Longrightarrow> distinct (map f (delete_first P xs))"
proof (induction xs)
  case Nil
  then show ?case by simp
next
  case (Cons x xs)
  have "f x \<notin> f ` set (delete_first P xs)"
    using Cons.prems set_delete_first [of P xs] by auto
  then show ?case using Cons by simp
qed

lemma unique_members_role: "unique_members (update_first P (\<lambda>m. m\<lparr>Role := r\<rparr>) ms) = unique_members ms"
  by (simp add: unique_members_def update_first_role_map_UserID)

lemma unique_members_delete: "unique_members ms \<Longrightarrow> unique_members (delete_first P ms)"
  by (simp add: unique_members_def distinct_map_delete_first)

lemma unique_members_filter: "unique_members ms \<Longrightarrow> unique_members (filter P ms)"
  by (simp add: unique_members_def distinct_map_filter)

lemma unique_members_append:
  "unique_members ms \<Longrightarrow> \<not> IsMember ms k \<Longrightarrow>
   unique_members (ms @ [\<lparr>UserID = k, Role = r, JoinedAt = n, InvitedBy = i\<rparr>])"
  by (auto simp: unique_members_def IsMember_def GetMember_None_iff)

lemma Team_do_unique: "unique_members (team_Members t) \<Longrightarrow> unique_members (team_Members (Team_do now op t))"
  by (cases op)
     (auto simp: Team_AddMember_def Team_UpdateMember_def Team_RemoveMember_def unique_members_role
        unique_members_delete unique_members_append IsMember_def split: option.splits)

lemma Organization_do_unique:
  "unique_members (org_Members org) \<Longrightarrow> unique_members (org_Members (Organization_do now op org))"
  by (cases op)
     (auto simp: Organization_AddMember_def Organization_UpdateMember_def Organization_RemoveMember_def
        unique_members_role unique_members_delete unique_members_append IsMember_def
        split: option.splits)

lemma fold_Team_do_unique:
  "unique_members (team_Members t) \<Longrightarrow>
   unique_members (team_Members (fold (\<lambda>(now, op). Team_do now op) ops t))"
  by (induction ops arbitrary: t) (auto simp: Team_do_unique)

lemma fold_Organization_do_unique:
  "unique_members (org_Members org) \<Longrightarrow>
   unique_members (org_Members (fold (\<lambda>(now, op). Organization_do now op) ops org))"
  by (induction ops arbitrary: org) (auto simp: Organization_do_unique)

lemma list_all_update_first:
  "list_all Q xs \<Longrightarrow> (\<And>x. x \<in> set xs \<Longrightarrow> P x \<Longrightarrow> Q x \<Longrightarrow> Q (f x)) \<Longrightarrow>
   list_all Q (update_first P f xs)"
  by (induction xs) auto

lemma list_all_delete_first: "list_all Q xs \<Longrightarrow> list_all Q (delete_first P xs)"
  by (induction xs) auto

lemma find_Some_set: "find P xs = Some x \<Longrightarrow> x \<in> set xs \<and> P x"
  by (induction xs) (auto split: if_splits)

lemma OrganizationRepository_AddMember_unique:
  assumes "store_unique_members s"
  shows "store_unique_members (snd (OrganizationRepository_AddMember F now orgID userID role invitedBy s))"
proof (cases "ObjectIDFromHex orgID")
  case (Inl e)
  then show ?thesis using assms by (simp add: OrganizationRepository_AddMember_def)
next
  case (Inr objID)
  show ?thesis
  proof (cases "find (\<lambda>d. org_ID d = objID \<and> IsMember (org_Members d) userID) (organizations s) = None")
    case True
    then have no: "\<And>x. x \<in> set (organizations s) \<Longrightarrow> org_ID x = objID \<Longrightarrow>
        \<not> IsMember (org_Members x) userID"
      by (auto simp: find_None_iff)
    have "list_all (\<lambda>d. unique_members (org_Members d))
            (update_first (\<lambda>d. org_ID d = objID)
               (\<lambda>d. d\<lparr>org_Members := org_Members d @
                        [\<lparr>UserID = userID, Role = role, JoinedAt = now, InvitedBy = invitedBy\<rparr>],
                      org_UpdatedAt := now\<rparr>) (organizations s))"
      using assms no
      by (intro list_all_update_first) (auto simp: store_unique_members_def unique_members_append)
    then show ?thesis
      using assms True Inr by (simp add: OrganizationRepository_AddMember_def store_unique_members_def)
  next
    case False
    have "list_all (\<lambda>d. unique_members (org_Members d))
            (update_first (\<lambda>d. org_ID d = objID \<and> IsMember (org_Members d) userID)
               (\<lambda>d. d\<lparr>org_Members :=
                        update_first (\<lambda>m. UserID m = userID) (\<lambda>m. m\<lparr>Role := role\<rparr>) (org_Members d),
                      org_UpdatedAt := now\<rparr>) (organizations s))"
      using assms
      by (intro list_all_update_first) (auto simp: store_unique_members_def unique_members_role)
    then show ?thesis
      using assms False Inr by (simp add: OrganizationRepository_AddMember_def store_unique_members_def)
  qed
qed

lemma TeamRepository_AddMember_unique:
  assumes "store_unique_members s"
  shows "store_unique_members (snd (TeamRepository_AddMember F now teamID userID role invitedBy s))"
proof (cases "ObjectIDFromHex teamID")
  case (Inl e)
  then show ?thesis using assms by (simp add: TeamRepository_AddMember_def)
next
  case (Inr objID)
  show ?thesis
  proof (cases "find (\<lambda>d. team_ID d = objID \<and> IsMember (team_Members d) userID) (teams s) = None")
    case True
    then have no: "\<And>x. x \<in> set (teams s) \<Longrightarrow> team_ID x = objID \<Longrightarrow>
        \<not> IsMember (team_Members x) userID"
      by (auto simp: find_None_iff)
    have "list_all (\<lambda>d. unique_members (team_Members d))
            (update_first (\<lambda>d. team_ID d = objID)
               (\<lambda>d. d\<lparr>team_Members := team_Members d @
                        [\<lparr>UserID = userID, Role = role, JoinedAt = now, InvitedBy = invitedBy\<rparr>],
                      team_UpdatedAt := now\<rparr>) (teams s))"
      using assms no
      by (intro list_all_update_first) (auto simp: store_unique_members_def unique_members_append)
    then show ?thesis
      using assms True Inr by (simp add: TeamRepository_AddMember_def store_unique_members_def)
  next
    case False
    have "list_all (\<lambda>d. unique_members (team_Members d))
            (update_first (\<lambda>d. team_ID d = objID \<and> IsMember (team_Members d) userID)
               (\<lambda>d. d\<lparr>team_Members :=
                        update_first (\<lambda>m. UserID m = userID) (\<lambda>m. m\<lparr>Role := role\<rparr>) (team_Members d),
                      team_UpdatedAt := now\<rparr>) (teams s))"
      using assms
      by (intro list_all_update_first) (auto simp: store_unique_members_def unique_members_role)
    then show ?thesis
      using assms False Inr by (simp add: TeamRepository_AddMember_def store_unique_members_def)
  qed
qed

lemma repo_unique:
  assumes "store_unique_members s"
  shows "store_unique_members (snd (OrganizationRepository_RemoveMember F now a b s))"
    and "store_unique_members (snd (TeamRepository_RemoveMember F now a b s))"
    and "store_unique_members (snd (OrganizationRepository_Delete F a s))"
    and "store_unique_members (snd (TeamRepository_Delete F a s))"
    and "store_unique_members (snd (OrganizationRepository_AddTeam F now a b s))"
    and "store_unique_members (snd (OrganizationRepository_RemoveTeam F now a b s))"
    and "store_unique_members (snd (UserRepository_AddOrganizationToUser F now a b s))"
    and "store_unique_members (snd (UserRepository_RemoveOrganizationFromUser F now a b s))"
    and "store_unique_members (snd (UserRepository_AddTeamToUser F now a b s))"
    and "store_unique_members (snd (UserRepository_RemoveTeamFromUser F now a b s))"
    and "store_unique_members (snd (UserRepository_Create F user s))"
  using assms
  by (auto simp: store_unique_members_def OrganizationRepository_RemoveMember_def
      TeamRepository_RemoveMember_def OrganizationRepository_Delete_def TeamRepository_Delete_def
      OrganizationRepository_AddTeam_def OrganizationRepository_RemoveTeam_def
      UserRepository_AddOrganizationToUser_def UserRepository_RemoveOrganizationFromUser_def
      UserRepository_AddTeamToUser_def UserRepository_RemoveTeamFromUser_def
      UserRepository_Create_def Let_def unique_members_filter
      split: sum.splits intro!: list_all_update_first list_all_delete_first)

lemma repo_unique_write:
  assumes "store_unique_members s"
  shows "unique_members (org_Members org) \<Longrightarrow> store_unique_members (snd (OrganizationRepository_Create F org s))"
    and "unique_members (org_Members org) \<Longrightarrow> store_unique_members (snd (OrganizationRepository_Update F now org s))"
    and "unique_members (team_Members team) \<Longrightarrow> store_unique_members (snd (TeamRepository_Create F team s))"
    and "unique_members (team_Members team) \<Longrightarrow> store_unique_members (snd (TeamRepository_Update F now team s))"
  using assms
  by (auto simp: store_unique_members_def OrganizationRepository_Create_def
      OrganizationRepository_Update_def TeamRepository_Create_def TeamRepository_Update_def
      split: sum.splits intro!: list_all_update_first)

lemma case_prod_unique:
  assumes "store_unique_members (snd p)"
    and "\<And>s1. store_unique_members s1 \<Longrightarrow> store_unique_members (g s1)"
  shows "store_unique_members
           (snd (case p of (Some err, s1) \<Rightarrow> (Some err, s1) | (None, s1) \<Rightarrow> (None, g s1)))"
  using assms by (cases p) (auto split: option.splits)

lemma fold_unique:
  assumes "store_unique_members s"
    and "\<And>x st. store_unique_members st \<Longrightarrow> store_unique_members (f x st)"
  shows "store_unique_members (fold f xs s)"
  using assms by (induction xs arbitrary: s) auto

lemma found_org_unique:
  "store_unique_members s \<Longrightarrow> OrganizationRepository_GetByID F s a = Inr org \<Longrightarrow>
   unique_members (org_Members org)"
  by (auto simp: store_unique_members_def OrganizationRepository_GetByID_def list_all_iff
      split: if_splits option.splits sum.splits dest: find_Some_set)

lemma found_team_unique:
  "store_unique_members s \<Longrightarrow> TeamRepository_GetByID F s a = Inr team \<Longrightarrow>
   unique_members (team_Members team)"
  by (auto simp: store_unique_members_def TeamRepository_GetByID_def list_all_iff
      split: if_splits option.splits sum.splits dest: find_Some_set)

lemma unique_members_new:
  "unique_members (org_Members (NewOrganization now newId creq createdBy))"
  "unique_members (team_Members (NewTeam now newId treq createdBy))"
  "org_Members (Organization_Apply now ureq org) = org_Members org"
  "team_Members (Team_Apply now utreq team) = team_Members team"
  by (simp_all add: unique_members_def NewOrganization_def NewTeam_def Organization_Apply_def
      Team_Apply_def)

lemma OrganizationService_unique:
  assumes "store_unique_members s"
  shows "store_unique_members (snd (OrganizationService_CreateOrganization F now newId creq createdBy s))"
    and "store_unique_members (snd (OrganizationService_UpdateOrganization F now a ureq userID s))"
    and "store_unique_members (snd (OrganizationService_DeleteOrganization F now a userID s))"
    and "store_unique_members (snd (OrganizationService_AddOrganizationMember F now a b r c s))"
    and "store_unique_members (snd (OrganizationService_UpdateOrganizationMember F now a b r c s))"
    and "store_unique_members (snd (OrganizationService_RemoveOrganizationMember F now a b c s))"
proof -
  show "store_unique_members (snd (OrganizationService_CreateOrganization F now newId creq createdBy s))"
    unfolding OrganizationService_CreateOrganization_def Let_def
    by (intro case_prod_unique repo_unique repo_unique_write unique_members_new assms)
  show "store_unique_members (snd (OrganizationService_UpdateOrganization F now a ureq userID s))"
    using assms found_org_unique [OF assms]
    by (auto simp: OrganizationService_UpdateOrganization_def unique_members_new
        split: sum.splits intro!: repo_unique_write)
  show "store_unique_members (snd (OrganizationService_DeleteOrganization F now a userID s))"
    using assms
    by (auto simp: OrganizationService_DeleteOrganization_def Let_def split: sum.splits
        intro!: case_prod_unique fold_unique repo_unique)
  show "store_unique_members (snd (OrganizationService_AddOrganizationMember F now a b r c s))"
    using assms
    by (auto simp: OrganizationService_AddOrganizationMember_def split: sum.splits
        intro!: case_prod_unique repo_unique OrganizationRepository_AddMember_unique)
  show "store_unique_members (snd (OrganizationService_UpdateOrganizationMember F now a b r c s))"
    using assms
    by (auto simp: OrganizationService_UpdateOrganizationMember_def Let_def
        split: sum.splits option.splits intro!: OrganizationRepository_AddMember_unique)
  show "store_unique_members (snd (OrganizationService_RemoveOrganizationMember F now a b c s))"
    using assms
    by (auto simp: OrganizationService_RemoveOrganizationMember_def Let_def
        split: sum.splits option.splits intro!: case_prod_unique repo_unique)
qed

lemma TeamService_unique:
  assumes "store_unique_members s"
  shows "store_unique_members (snd (TeamService_CreateTeam F now newId creq createdBy s))"
    and "store_unique_members (snd (TeamService_UpdateTeam F now a ureq userID s))"
    and "store_unique_members (snd (TeamService_DeleteTeam F now a userID s))"
    and "store_unique_members (snd (TeamService_AddTeamMember F now a b r c s))"
    and "store_unique_members (snd (TeamService_UpdateTeamMember F now a b r c s))"
    and "store_unique_members (snd (TeamService_RemoveTeamMember F now a b c s))"
proof -
  show "store_unique_members (snd (TeamService_CreateTeam F now newId creq createdBy s))"
    using assms
    by (auto simp: TeamService_CreateTeam_def Let_def unique_members_new split: sum.splits
        intro!: case_prod_unique repo_unique repo_unique_write)
  show "store_unique_members (snd (TeamService_UpdateTeam F now a ureq userID s))"
    using assms found_team_unique [OF assms]
    by (auto simp: TeamService_UpdateTeam_def unique_members_new
        split: sum.splits intro!: repo_unique_write)
  show "store_unique_members (snd (TeamService_DeleteTeam F now a userID s))"
    using assms
    by (auto simp: TeamService_DeleteTeam_def split: sum.splits
        intro!: case_prod_unique fold_unique repo_unique)
  show "store_unique_members (snd (TeamService_AddTeamMember F now a b r c s))"
    using assms
    by (auto simp: TeamService_AddTeamMember_def split: sum.splits
        intro!: case_prod_unique repo_unique TeamRepository_AddMember_unique)
  show "store_unique_members (snd (TeamService_UpdateTeamMember F now a b r c s))"
    using assms
    by (auto simp: TeamService_UpdateTeamMember_def Let_def
        split: sum.splits option.splits intro!: TeamRepository_AddMember_unique)
  show "store_unique_members (snd (TeamService_RemoveTeamMember F now a b c s))"
    using assms
    by (auto simp: TeamService_RemoveTeamMember_def Let_def
        split: sum.splits option.splits intro!: case_prod_unique repo_unique)
qed

lemma UserService_unique:
  assumes "store_unique_members s"
  shows "store_unique_members (snd (UserService_ProcessAuthUserCreated F now newId ev s))"
  using assms
  by (auto simp: UserService_ProcessAuthUserCreated_def UserService_CreateUser_def Let_def
      split: event_data.splits sum.splits intro!: repo_unique)

lemma exec_unique: "store_unique_members s \<Longrightarrow> store_unique_members (snd (exec F now op s))"
  by (cases op) (simp_all add: OrganizationService_unique TeamService_unique UserService_unique)

lemma run_unique: "store_unique_members s \<Longrightarrow> store_unique_members (run steps s)"
  by (induction steps arbitrary: s) (auto simp: exec_unique)


lemma AddMember_in_place:
  assumes "IsMember ms userID"
  shows "map UserID (update_first (\<lambda>m. UserID m = userID) (\<lambda>m. m\<lparr>Role := role\<rparr>) ms) = map UserID ms"
    and "HasRole (update_first (\<lambda>m. UserID m = userID) (\<lambda>m. m\<lparr>Role := role\<rparr>) ms) userID [role]"
  using assms
  by (auto simp: update_first_role_map_UserID HasRole_def IsMember_def GetMember_update_first_role)

lemma Team_AddMember_in_place:
  assumes "IsMember (team_Members t) userID"
  shows "map UserID (team_Members (snd (Team_AddMember now userID role invitedBy t))) =
           map UserID (team_Members t) \<and>
         HasRole (team_Members (snd (Team_AddMember now userID role invitedBy t))) userID [role]"
  using assms AddMember_in_place [OF assms, of role]
  by (auto simp: Team_AddMember_def IsMember_def HasRole_def split: option.splits)

lemma Organization_AddMember_in_place:
  assumes "IsMember (org_Members org) userID"
  shows "map UserID (org_Members (snd (Organization_AddMember now userID role invitedBy org))) =
           map UserID (org_Members org) \<and>
         HasRole (org_Members (snd (Organization_AddMember now userID role invitedBy org))) userID [role]"
  using assms AddMember_in_place [OF assms, of role]
  by (auto simp: Organization_AddMember_def IsMember_def HasRole_def split: option.splits)

lemma OrganizationRepository_AddMember_in_place:
  assumes hex: "ObjectIDFromHex orgID = Inr objID"
      and org: "find (\<lambda>d. org_ID d = objID) (organizations s) = Some org"
      and m: "IsMember (org_Members org) userID"
      and nf: "\<not> F (OrgAddMember orgID userID)"
  shows "\<exists>org'. find (\<lambda>d. org_ID d = objID)
                  (organizations (snd (OrganizationRepository_AddMember F now orgID userID role invitedBy s))) =
                Some org' \<and>
           map UserID (org_Members org') = map UserID (org_Members org) \<and>
           HasRole (org_Members org') userID [role]"
proof -
  obtain x where x: "GetMember (org_Members org) userID = Some x"
    using m by (auto simp: IsMember_def)
  have "OrganizationRepository_AddMember F now orgID userID role invitedBy s =
           (None, s\<lparr>organizations := update_first (\<lambda>d. org_ID d = objID)
                (\<lambda>d. d\<lparr>org_Members :=
                         update_first (\<lambda>m. UserID m = userID) (\<lambda>m. m\<lparr>Role := role\<rparr>) (org_Members d),
                       org_UpdatedAt := now\<rparr>) (organizations s)\<rparr>)"
    by (rule OrganizationRepository_AddMember_existing; fact)
  then show ?thesis
    using find_org_after_update [OF org] AddMember_in_place [OF m, of role] by simp
qed

lemma TeamRepository_AddMember_in_place:
  assumes hex: "ObjectIDFromHex teamID = Inr objID"
      and team: "find (\<lambda>d. team_ID d = objID) (teams s) = Some team"
      and m: "IsMember (team_Members team) userID"
      and nf: "\<not> F (TeamAddMember teamID userID)"
  shows "\<exists>team'. find (\<lambda>d. team_ID d = objID)
                  (teams (snd (TeamRepository_AddMember F now teamID userID role invitedBy s))) =
                Some team' \<and>
           map UserID (team_Members team') = map UserID (team_Members team) \<and>
           HasRole (team_Members team') userID [role]"
proof -
  obtain x where x: "GetMember (team_Members team) userID = Some x"
    using m by (auto simp: IsMember_def)
  have "TeamRepository_AddMember F now teamID userID role invitedBy s =
           (None, s\<lparr>teams := update_first (\<lambda>d. team_ID d = objID)
                (\<lambda>d. d\<lparr>team_Members :=
                         update_first (\<lambda>m. UserID m = userID) (\<lambda>m. m\<lparr>Role := role\<rparr>) (team_Members d),
                       team_UpdatedAt := now\<rparr>) (teams s)\<rparr>)"
    by (rule TeamRepository_AddMember_existing; fact)
  then show ?thesis
    using find_team_after_update [OF team] AddMember_in_place [OF m, of role] by simp
qed

text \<open>
  Claim C4: a member list never holds two entries with the same user id.  Every
  history of service calls, whatever fails in it, leaves every organization and team of
  the store with pairwise different member user ids if they were so before (and they are
  in the empty store); so does every history of the in-memory \<^verbatim>\<open>AddMember\<close>,
  \<^verbatim>\<open>UpdateMember\<close> and \<^verbatim>\<open>RemoveMember\<close> on one team or organization.  Adding a user
  who is already a member, through the in-memory \<^verbatim>\<open>AddMember\<close> or the repository's
  (called with an identifier that converts to the group's \<^verbatim>\<open>ObjectID\<close>, the store
  call not failing), leaves the sequence of user ids as it was and gives that member the
  new role.
\<close>

theorem members_never_duplicated:
  fixes F :: faults and now :: time and role :: MemberRole and invitedBy :: string
  shows
  "(store_unique_members s \<longrightarrow> store_unique_members (run steps s)) \<and>
   store_unique_members (run steps empty_store) \<and>
   (unique_members (team_Members t) \<longrightarrow>
      unique_members (team_Members (fold (\<lambda>(now, op). Team_do now op) ops t))) \<and>
   (unique_members (org_Members org) \<longrightarrow>
      unique_members (org_Members (fold (\<lambda>(now, op). Organization_do now op) ops org))) \<and>
   (IsMember (team_Members t) userID \<longrightarrow>
      map UserID (team_Members (snd (Team_AddMember now userID role invitedBy t))) =
        map UserID (team_Members t) \<and>
      HasRole (team_Members (snd (Team_AddMember now userID role invitedBy t))) userID [role]) \<and>
   (IsMember (org_Members org) userID \<longrightarrow>
      map UserID (org_Members (snd (Organization_AddMember now userID role invitedBy org))) =
        map UserID (org_Members org) \<and>
      HasRole (org_Members (snd (Organization_AddMember now userID role invitedBy org))) userID [role]) \<and>
   (ObjectIDFromHex orgID = Inr objID \<and>
    find (\<lambda>d. org_ID d = objID) (organizations s) = Some org \<and> IsMember (org_Members org) userID \<and>
    \<not> F (OrgAddMember orgID userID) \<longrightarrow>
      (\<exists>org'. find (\<lambda>d. org_ID d = objID)
                 (organizations (snd (OrganizationRepository_AddMember F now orgID userID role invitedBy s))) =
               Some org' \<and>
          map UserID (org_Members org') = map UserID (org_Members org) \<and>
          HasRole (org_Members org') userID [role])) \<and>
   (ObjectIDFromHex teamID = Inr objID' \<and>
    find (\<lambda>d. team_ID d = objID') (teams s) = Some t \<and> IsMember (team_Members t) userID \<and>
    \<not> F (TeamAddMember teamID userID) \<longrightarrow>
      (\<exists>team'. find (\<lambda>d. team_ID d = objID')
                  (teams (snd (TeamRepository_AddMember F now teamID userID role invitedBy s))) =
                Some team' \<and>
          map UserID (team_Members team') = map UserID (team_Members t) \<and>
          HasRole (team_Members team') userID [role]))"
proof -
  have e: "store_unique_members empty_store"
    by (simp add: store_unique_members_def empty_store_def)
  show ?thesis
    using run_unique [of s steps] run_unique [OF e, of steps]
      fold_Team_do_unique [of t ops] fold_Organization_do_unique [of org ops]
      Team_AddMember_in_place [of t userID now role invitedBy]
      Organization_AddMember_in_place [of org userID now role invitedBy]
      OrganizationRepository_AddMember_in_place [of orgID objID s org userID F now role invitedBy]
      TeamRepository_AddMember_in_place [of teamID objID' s t userID F now role invitedBy]
    by blast
qed


theorem members_never_duplicated_witness:
  "store_unique_members demo_store \<and>
   store_unique_members
     (run [(no_faults, 7, AddOrganizationMember org1 ''carol'' ''admin'' ''bob''),
           (no_faults, 8, AddOrganizationMember org1 ''carol'' ''member'' ''alice'')] demo_store) \<and>
   map_option (map UserID \<circ> org_Members) (find (\<lambda>d. org_ID d = org1) (organizations
     (run [(no_faults, 7, AddOrganizationMember org1 ''carol'' ''admin'' ''bob''),
           (no_faults, 8, AddOrganizationMember org1 ''carol'' ''member'' ''alice'')] demo_store))) =
     Some [''alice'', ''bob'', ''carol''] \<and>
   unique_members (team_Members demo_team) \<and>
   unique_members (team_Members
     (fold (\<lambda>(now, op). Team_do now op)
        [(7, OpAdd ''carol'' ''viewer'' ''bob''), (8, OpAdd ''dave'' ''member'' ''bob''),
         (9, OpRemove ''bob'')] demo_team)) \<and>
   IsMember (team_Members demo_team) ''carol'' \<and>
   map UserID (team_Members (snd (Team_AddMember 7 ''carol'' ''viewer'' ''bob'' demo_team))) =
     [''alice'', ''bob'', ''carol''] \<and>
   HasRole (team_Members (snd (Team_AddMember 7 ''carol'' ''viewer'' ''bob'' demo_team))) ''carol'' [''viewer'']"
proof -
  have h: "store_unique_members demo_store" "unique_members (team_Members demo_team)"
      "IsMember (team_Members demo_team) ''carol''"
      "map UserID (team_Members demo_team) = [''alice'', ''bob'', ''carol'']"
    by (simp_all add: store_unique_members_def unique_members_def demo_store_def demo_members
        IsMember_def GetMember_def mk_member_def)
  have r: "map_option (map UserID \<circ> org_Members) (find (\<lambda>d. org_ID d = org1) (organizations
     (run [(no_faults, 7, AddOrganizationMember org1 ''carol'' ''admin'' ''bob''),
           (no_faults, 8, AddOrganizationMember org1 ''carol'' ''member'' ''alice'')] demo_store))) =
     Some [''alice'', ''bob'', ''carol'']"
    by (simp add: OrganizationService_AddOrganizationMember_def OrganizationRepository_GetByID_def demo_ids
        OrganizationRepository_AddMember_def UserRepository_GetByUserId_def
        UserRepository_AddOrganizationToUser_def addToSet_def
        HasRole_def GetMember_def IsMember_def demo_store_def demo_org_def NewOrganization_def
        mk_member_def mk_user_def NewUser_def)
  show ?thesis
    using members_never_duplicated [where s = demo_store and t = demo_team and userID = "''carol''"
        and now = 7 and role = "''viewer''" and invitedBy = "''bob''" and org = demo_org
        and steps = "[(no_faults, 7, AddOrganizationMember org1 ''carol'' ''admin'' ''bob''),
           (no_faults, 8, AddOrganizationMember org1 ''carol'' ''member'' ''alice'')]"
        and ops = "[(7, OpAdd ''carol'' ''viewer'' ''bob''), (8, OpAdd ''dave'' ''member'' ''bob''),
         (9, OpRemove ''bob'')]"]
      h r
    by simp
qed

section \<open>The identity-created event\<close>

lemma find_None_filter: "find P xs = None \<Longrightarrow> filter P xs = []"
  by (induction xs) (auto split: if_splits)

lemma ProcessAuthUserCreated_missing:
  "\<not> required_fields data \<Longrightarrow>
   UserService_ProcessAuthUserCreated F now newId (DataMap data) s =
     (Some (ErrNew ''missing required fields''), s)"
  by (auto simp: UserService_ProcessAuthUserCreated_def required_fields_def Let_def)

lemma ProcessAuthUserCreated_existing:
  assumes "required_fields data"
      and "find (\<lambda>u. user_UserID u = str_field data ''id'') (users s) = Some u"
      and "\<not> F (UserGetByUserId (str_field data ''id''))"
  shows "UserService_ProcessAuthUserCreated F now newId (DataMap data) s = (None, s)"
  using assms
  by (simp add: UserService_ProcessAuthUserCreated_def required_fields_def Let_def
      UserRepository_GetByUserId_def)

lemma ProcessAuthUserCreated_noop:
  assumes "find (\<lambda>u. user_UserID u = str_field data ''id'') (users s) = Some u"
  shows "snd (UserService_ProcessAuthUserCreated F now newId (DataMap data) s) = s"
  using assms
  by (simp add: UserService_ProcessAuthUserCreated_def Let_def UserRepository_GetByUserId_def)

lemma ProcessAuthUserCreated_fresh:
  assumes "required_fields data"
      and "find (\<lambda>u. user_UserID u = str_field data ''id'') (users s) = None"
      and "find (\<lambda>u. user_Email u = str_field data ''email'') (users s) = None"
      and "find (\<lambda>u. user_ID u = newId) (users s) = None"
      and "\<not> F (UserGetByUserId (str_field data ''id''))"
      and "\<not> F (UserCreate (str_field data ''id''))"
  shows "UserService_ProcessAuthUserCreated F now newId (DataMap data) s =
           (None, s\<lparr>users := users s @ [event_user now newId data]\<rparr>)"
  using assms
  by (simp add: UserService_ProcessAuthUserCreated_def required_fields_def Let_def
      UserRepository_GetByUserId_def UserService_CreateUser_def UserRepository_Create_def
      event_user_def NewUser_def)

lemma ProcessAuthUserCreated_conflict:
  assumes "required_fields data"
      and "find (\<lambda>u. user_UserID u = str_field data ''id'') (users s) = None"
      and "find (\<lambda>u. user_Email u = str_field data ''email'') (users s) = Some u"
      and "\<not> F (UserGetByUserId (str_field data ''id''))"
      and "\<not> F (UserCreate (str_field data ''id''))"
  shows "UserService_ProcessAuthUserCreated F now newId (DataMap data) s =
           (Some (ErrNew ''user with this email already exists''), s)"
  using assms
  by (simp add: UserService_ProcessAuthUserCreated_def required_fields_def Let_def
      UserRepository_GetByUserId_def UserService_CreateUser_def UserRepository_Create_def
      NewUser_def)

lemma redelivery_noop:
  assumes "find (\<lambda>u. user_UserID u = str_field data ''id'') (users s) = Some u"
  shows "run (deliveries (DataMap data) ds) s = s"
  using assms
  by (induction ds) (auto simp: deliveries_def ProcessAuthUserCreated_noop)

lemma user_UserID_event_user [simp]: "user_UserID (event_user now newId data) = str_field data ''id''"
  by (simp add: event_user_def NewUser_def)

lemma find_append_new:
  "find (\<lambda>u. user_UserID u = k) us = None \<Longrightarrow> user_UserID x = k \<Longrightarrow>
   find (\<lambda>u. user_UserID u = k) (us @ [x]) = Some x"
  by (induction us) (auto split: if_splits)

lemma deliveries_fresh:
  assumes "required_fields data"
      and none: "find (\<lambda>u. user_UserID u = str_field data ''id'') (users s) = None"
      and "find (\<lambda>u. user_Email u = str_field data ''email'') (users s) = None"
      and "find (\<lambda>u. user_ID u = newId) (users s) = None"
      and "\<not> F (UserGetByUserId (str_field data ''id''))"
      and "\<not> F (UserCreate (str_field data ''id''))"
  shows "run (deliveries (DataMap data) ((F, now, newId) # rest)) s =
           s\<lparr>users := users s @ [event_user now newId data]\<rparr> \<and>
         count_users (str_field data ''id'')
           (run (deliveries (DataMap data) ((F, now, newId) # rest)) s) = 1"
proof -
  let ?s1 = "s\<lparr>users := users s @ [event_user now newId data]\<rparr>"
  have first: "UserService_ProcessAuthUserCreated F now newId (DataMap data) s = (None, ?s1)"
    by (rule ProcessAuthUserCreated_fresh; fact)
  have f: "find (\<lambda>u. user_UserID u = str_field data ''id'') (users ?s1) = Some (event_user now newId data)"
    using find_append_new [OF none, of "event_user now newId data"] by simp
  have "run (deliveries (DataMap data) ((F, now, newId) # rest)) s =
        run (deliveries (DataMap data) rest) ?s1"
    using first by (simp add: deliveries_def)
  also have "\<dots> = ?s1" by (rule redelivery_noop [OF f])
  finally have r: "run (deliveries (DataMap data) ((F, now, newId) # rest)) s = ?s1" .
  show ?thesis
    unfolding r using find_None_filter [OF none] by (simp add: count_users_def)
qed


lemma ProcessAuthUserCreated_cases:
  "snd (UserService_ProcessAuthUserCreated F now newId (DataMap data) s) = s \<or>
   (find (\<lambda>u. user_UserID u = str_field data ''id'') (users s) = None \<and>
    snd (UserService_ProcessAuthUserCreated F now newId (DataMap data) s) =
      s\<lparr>users := users s @ [event_user now newId data]\<rparr>)"
  by (auto simp: UserService_ProcessAuthUserCreated_def Let_def UserRepository_GetByUserId_def
      UserService_CreateUser_def UserRepository_Create_def event_user_def NewUser_def
      split: option.splits)

lemma delivery_at_most_one:
  assumes "count_users (str_field data ''id'') s \<le> 1"
  shows "count_users (str_field data ''id'')
           (snd (UserService_ProcessAuthUserCreated F now newId (DataMap data) s)) \<le> 1"
  using ProcessAuthUserCreated_cases [of F now newId data s] assms
  by (auto simp: count_users_def dest: find_None_filter)

lemma deliveries_at_most_one:
  "count_users (str_field data ''id'') s \<le> 1 \<Longrightarrow>
   count_users (str_field data ''id'') (run (deliveries (DataMap data) ds) s) \<le> 1"
proof (induction ds arbitrary: s)
  case Nil
  then show ?case by (simp add: deliveries_def)
next
  case (Cons d ds)
  obtain F now newId where d: "d = (F, now, newId)" by (cases d) auto
  have "run (deliveries (DataMap data) (d # ds)) s =
        run (deliveries (DataMap data) ds) (snd (UserService_ProcessAuthUserCreated F now newId (DataMap data) s))"
    by (simp add: deliveries_def d)
  then show ?case
    using Cons.IH [OF delivery_at_most_one [OF Cons.prems, of F now newId]] by simp
qed

theorem ProcessAuthUserCreated_redelivery_counterexample:
  "required_fields [(''id'', JString ''erin''), (''email'', JString ''alice@x''),
                    (''firstName'', JString ''Erin''), (''lastName'', JString ''R'')] \<and>
   fst (UserService_ProcessAuthUserCreated no_faults 7 ''n1''
          (DataMap [(''id'', JString ''erin''), (''email'', JString ''alice@x''),
                    (''firstName'', JString ''Erin''), (''lastName'', JString ''R'')]) demo_store) =
     Some (ErrNew ''user with this email already exists'') \<and>
   run (deliveries
          (DataMap [(''id'', JString ''erin''), (''email'', JString ''alice@x''),
                    (''firstName'', JString ''Erin''), (''lastName'', JString ''R'')])
          [(no_faults, 7, ''n1''), (no_faults, 8, ''n2'')]) demo_store = demo_store \<and>
   count_users ''erin'' demo_store = 0"
  by (simp add: required_fields_def str_field_def deliveries_def
      UserService_ProcessAuthUserCreated_def UserRepository_GetByUserId_def
      UserService_CreateUser_def UserRepository_Create_def NewUser_def count_users_def
      demo_store_def mk_user_def)

text \<open>
  Claim C6, as amended: \<^verbatim>\<open>ProcessAuthUserCreated\<close> is idempotent.  Delivering a well-formed
  event any number of times results in exactly one user with the event's user id when
  the first delivery meets no store failure and no other user already has the event's
  email (the later deliveries change nothing, whatever fails in them); when another user
  has that email, the handler returns the repository's conflict error and creates
  nothing.  If a user with that user id already exists, the handler returns success and
  changes nothing, and further deliveries leave the store as it is; there is never more
  than one user with that user id if there was at most one.  A payload that lacks one of
  id, email, firstName and lastName, or that is not a map, gets an error and no user is
  created.  (As stated, the claim promises exactly one user for every well-formed event;
  the concrete run above ends with none.)
\<close>

theorem ProcessAuthUserCreated_idempotent:
  "(required_fields data \<and>
    find (\<lambda>u. user_UserID u = str_field data ''id'') (users s) = None \<and>
    find (\<lambda>u. user_Email u = str_field data ''email'') (users s) = None \<and>
    find (\<lambda>u. user_ID u = newId) (users s) = None \<and>
    \<not> F (UserGetByUserId (str_field data ''id'')) \<and> \<not> F (UserCreate (str_field data ''id'')) \<longrightarrow>
      run (deliveries (DataMap data) ((F, now, newId) # rest)) s =
        s\<lparr>users := users s @ [event_user now newId data]\<rparr> \<and>
      count_users (str_field data ''id'')
        (run (deliveries (DataMap data) ((F, now, newId) # rest)) s) = 1) \<and>
   (required_fields data \<and>
    find (\<lambda>u. user_UserID u = str_field data ''id'') (users s) = Some u \<and>
    \<not> F (UserGetByUserId (str_field data ''id'')) \<longrightarrow>
      UserService_ProcessAuthUserCreated F now newId (DataMap data) s = (None, s)) \<and>
   (find (\<lambda>u. user_UserID u = str_field data ''id'') (users s) = Some u \<longrightarrow>
      run (deliveries (DataMap data) ds) s = s) \<and>
   (required_fields data \<and>
    find (\<lambda>u. user_UserID u = str_field data ''id'') (users s) = None \<and>
    find (\<lambda>u. user_Email u = str_field data ''email'') (users s) = Some u' \<and>
    \<not> F (UserGetByUserId (str_field data ''id'')) \<and> \<not> F (UserCreate (str_field data ''id'')) \<longrightarrow>
      UserService_ProcessAuthUserCreated F now newId (DataMap data) s =
        (Some (ErrNew ''user with this email already exists''), s)) \<and>
   (\<not> required_fields data \<longrightarrow>
      UserService_ProcessAuthUserCreated F now newId (DataMap data) s =
        (Some (ErrNew ''missing required fields''), s)) \<and>
   UserService_ProcessAuthUserCreated F now newId DataOther s =
     (Some (ErrNew ''invalid data format''), s) \<and>
   (count_users (str_field data ''id'') s \<le> 1 \<longrightarrow>
      count_users (str_field data ''id'') (run (deliveries (DataMap data) ds) s) \<le> 1)"
proof -
  have other: "UserService_ProcessAuthUserCreated F now newId DataOther s =
     (Some (ErrNew ''invalid data format''), s)"
    by (simp add: UserService_ProcessAuthUserCreated_def)
  show ?thesis
    using deliveries_fresh [of data s newId F now rest]
      ProcessAuthUserCreated_existing [of data s u F now newId]
      redelivery_noop [of data s u ds]
      ProcessAuthUserCreated_conflict [of data s u' F now newId]
      ProcessAuthUserCreated_missing [of data F now newId s]
      deliveries_at_most_one [of data s ds] other
    by blast
qed

theorem ProcessAuthUserCreated_idempotent_witness:
  "required_fields [(''id'', JString ''erin''), (''email'', JString ''erin@x''),
                    (''firstName'', JString ''Erin''), (''lastName'', JString ''R'')] \<and>
   find (\<lambda>u. user_UserID u = ''erin'') (users demo_store) = None \<and>
   find (\<lambda>u. user_Email u = ''erin@x'') (users demo_store) = None \<and>
   find (\<lambda>u. user_ID u = ''n1'') (users demo_store) = None \<and>
   run (deliveries
          (DataMap [(''id'', JString ''erin''), (''email'', JString ''erin@x''),
                    (''firstName'', JString ''Erin''), (''lastName'', JString ''R'')])
          [(no_faults, 7, ''n1''), (no_faults, 8, ''n2''), (no_faults, 9, ''n3'')]) demo_store =
     demo_store\<lparr>users := users demo_store @
       [event_user 7 ''n1'' [(''id'', JString ''erin''), (''email'', JString ''erin@x''),
                             (''firstName'', JString ''Erin''), (''lastName'', JString ''R'')]]\<rparr> \<and>
   count_users ''erin''
     (run (deliveries
          (DataMap [(''id'', JString ''erin''), (''email'', JString ''erin@x''),
                    (''firstName'', JString ''Erin''), (''lastName'', JString ''R'')])
          [(no_faults, 7, ''n1''), (no_faults, 8, ''n2''), (no_faults, 9, ''n3'')]) demo_store) = 1 \<and>
   \<not> required_fields [(''id'', JString ''erin''), (''email'', JOther)] \<and>
   UserService_ProcessAuthUserCreated no_faults 7 ''n1''
     (DataMap [(''id'', JString ''erin''), (''email'', JOther)]) demo_store =
     (Some (ErrNew ''missing required fields''), demo_store)"
proof -
  have h: "required_fields [(''id'', JString ''erin''), (''email'', JString ''erin@x''),
                    (''firstName'', JString ''Erin''), (''lastName'', JString ''R'')]"
      "str_field [(''id'', JString ''erin''), (''email'', JString ''erin@x''),
                    (''firstName'', JString ''Erin''), (''lastName'', JString ''R'')] ''id'' = ''erin''"
      "str_field [(''id'', JString ''erin''), (''email'', JString ''erin@x''),
                    (''firstName'', JString ''Erin''), (''lastName'', JString ''R'')] ''email'' = ''erin@x''"
      "find (\<lambda>u. user_UserID u = ''erin'') (users demo_store) = None"
      "find (\<lambda>u. user_Email u = ''erin@x'') (users demo_store) = None"
      "find (\<lambda>u. user_ID u = ''n1'') (users demo_store) = None"
      "\<not> required_fields [(''id'', JString ''erin''), (''email'', JOther)]"
    by (simp_all add: required_fields_def str_field_def demo_store_def mk_user_def NewUser_def)
  have a: "run (deliveries
          (DataMap [(''id'', JString ''erin''), (''email'', JString ''erin@x''),
                    (''firstName'', JString ''Erin''), (''lastName'', JString ''R'')])
          [(no_faults, 7, ''n1''), (no_faults, 8, ''n2''), (no_faults, 9, ''n3'')]) demo_store =
     demo_store\<lparr>users := users demo_store @
       [event_user 7 ''n1'' [(''id'', JString ''erin''), (''email'', JString ''erin@x''),
                             (''firstName'', JString ''Erin''), (''lastName'', JString ''R'')]]\<rparr> \<and>
   count_users ''erin''
     (run (deliveries
          (DataMap [(''id'', JString ''erin''), (''email'', JString ''erin@x''),
                    (''firstName'', JString ''Erin''), (''lastName'', JString ''R'')])
          [(no_faults, 7, ''n1''), (no_faults, 8, ''n2''), (no_faults, 9, ''n3'')]) demo_store) = 1"
  proof -
    have hyp: "required_fields [(''id'', JString ''erin''), (''email'', JString ''erin@x''),
                    (''firstName'', JString ''Erin''), (''lastName'', JString ''R'')] \<and>
      find (\<lambda>u. user_UserID u = str_field [(''id'', JString ''erin''), (''email'', JString ''erin@x''),
                    (''firstName'', JString ''Erin''), (''lastName'', JString ''R'')] ''id'') (users demo_store) = None \<and>
      find (\<lambda>u. user_Email u = str_field [(''id'', JString ''erin''), (''email'', JString ''erin@x''),
                    (''firstName'', JString ''Erin''), (''lastName'', JString ''R'')] ''email'') (users demo_store) = None \<and>
      find (\<lambda>u. user_ID u = ''n1'') (users demo_store) = None \<and>
      \<not> no_faults (UserGetByUserId (str_field [(''id'', JString ''erin''), (''email'', JString ''erin@x''),
                    (''firstName'', JString ''Erin''), (''lastName'', JString ''R'')] ''id'')) \<and>
      \<not> no_faults (UserCreate (str_field [(''id'', JString ''erin''), (''email'', JString ''erin@x''),
                    (''firstName'', JString ''Erin''), (''lastName'', JString ''R'')] ''id''))"
      using h by simp
    show ?thesis
      using ProcessAuthUserCreated_idempotent [where s = demo_store and F = no_faults and now = 7
        and newId = "''n1''" and rest = "[(no_faults, 8, ''n2''), (no_faults, 9, ''n3'')]"
        and data = "[(''id'', JString ''erin''), (''email'', JString ''erin@x''),
                    (''firstName'', JString ''Erin''), (''lastName'', JString ''R'')]",
        THEN conjunct1, THEN mp, OF hyp]
      unfolding h(2) .
  qed
  have b: "UserService_ProcessAuthUserCreated no_faults 7 ''n1''
     (DataMap [(''id'', JString ''erin''), (''email'', JOther)]) demo_store =
     (Some (ErrNew ''missing required fields''), demo_store)"
    using ProcessAuthUserCreated_idempotent [where s = demo_store and F = no_faults and now = 7
        and newId = "''n1''" and data = "[(''id'', JString ''erin''), (''email'', JOther)]",
        THEN conjunct2, THEN conjunct2, THEN conjunct2, THEN conjunct2, THEN conjunct1] h(7)
    by simp
  show ?thesis
    using a b h(1,4,5,6,7) by blast
qed

section \<open>The owner invariant outside the add methods\<close>

lemma has_owner_iff: "has_owner ms \<longleftrightarrow> (\<exists>m\<in>set ms. Role m = ''owner'')"
  by (auto simp: has_owner_def find_None_iff)

lemma set_update_first_other:
  "x \<in> set xs \<Longrightarrow> \<not> P x \<Longrightarrow> x \<in> set (update_first P f xs)"
  by (induction xs) auto

lemma set_update_first_hit:
  "find P xs = Some d \<Longrightarrow> f d \<in> set (update_first P f xs)"
  by (induction xs) (auto split: if_splits)

lemma unique_members_same:
  "unique_members ms \<Longrightarrow> a \<in> set ms \<Longrightarrow> b \<in> set ms \<Longrightarrow> UserID a = UserID b \<Longrightarrow> a = b"
  by (auto simp: unique_members_def distinct_map inj_on_def)

lemma other_owner_remove:
  assumes "a \<in> set ms" "Role a = ''owner''" "UserID a \<noteq> k"
  shows "has_owner (filter (\<lambda>m. UserID m \<noteq> k) ms)"
    and "has_owner (update_first (\<lambda>m. UserID m = k) f ms)"
  using assms set_update_first_other [of a ms "\<lambda>m. UserID m = k" f]
  by (auto simp: has_owner_iff)

lemma two_owners_other:
  assumes u: "unique_members ms" and c: "\<not> ownerCount ms \<le> 1"
  shows "\<exists>a\<in>set ms. Role a = ''owner'' \<and> UserID a \<noteq> k"
proof -
  let ?os = "filter (\<lambda>m. Role m = ''owner'') ms"
  have d: "distinct (map UserID ?os)"
    using u by (simp add: unique_members_def distinct_map_filter)
  have "2 \<le> length ?os" using c by (simp add: ownerCount_filter)
  then obtain x y zs where xy: "?os = x # y # zs"
    by (cases ?os; cases "tl ?os") auto
  have "UserID x \<noteq> UserID y" using d unfolding xy by simp
  moreover have "x \<in> set ?os" "y \<in> set ?os" unfolding xy by simp_all
  then have "x \<in> set ms" "y \<in> set ms" "Role x = ''owner''" "Role y = ''owner''"
    by simp_all
  ultimately show ?thesis by metis
qed

lemma role_update_keeps_owner:
  assumes u: "unique_members ms" and h: "has_owner ms"
      and t: "GetMember ms k = Some m"
      and ok: "Role m \<noteq> ''owner'' \<or> r = ''owner'' \<or> (\<exists>a\<in>set ms. Role a = ''owner'' \<and> UserID a \<noteq> k)"
  shows "has_owner (update_first (\<lambda>m. UserID m = k) (\<lambda>m. m\<lparr>Role := r\<rparr>) ms)"
proof -
  have mk: "m \<in> set ms" "UserID m = k" using GetMember_Some_UserID [OF t] by simp_all
  consider (a) "Role m \<noteq> ''owner''" | (b) "r = ''owner''"
    | (c) "\<exists>a\<in>set ms. Role a = ''owner'' \<and> UserID a \<noteq> k"
    using ok by blast
  then show ?thesis
  proof cases
    case a
    obtain x where x: "x \<in> set ms" "Role x = ''owner''" using h by (auto simp: has_owner_iff)
    have "UserID x \<noteq> k"
      using unique_members_same [OF u x(1) mk(1)] mk(2) x(2) a by auto
    then show ?thesis using other_owner_remove(2) [OF x] by simp
  next
    case b
    have "m\<lparr>Role := r\<rparr> \<in> set (update_first (\<lambda>m. UserID m = k) (\<lambda>m. m\<lparr>Role := r\<rparr>) ms)"
      using set_update_first_hit [of "\<lambda>m. UserID m = k" ms m "\<lambda>m. m\<lparr>Role := r\<rparr>"] t
      by (simp add: GetMember_def)
    moreover have "Role (m\<lparr>Role := r\<rparr>) = ''owner''" using b by simp
    ultimately show ?thesis unfolding has_owner_iff by blast
  next
    case c
    then show ?thesis using other_owner_remove(2) by blast
  qed
qed

lemma has_owner_append: "has_owner ms \<Longrightarrow> has_owner (ms @ [x])"
  by (auto simp: has_owner_iff)

lemma actor_owner_other:
  assumes "HasRole ms actor [''owner'']" "actor \<noteq> k"
  shows "\<exists>a\<in>set ms. Role a = ''owner'' \<and> UserID a \<noteq> k"
proof -
  obtain x where x: "GetMember ms actor = Some x" "Role x = ''owner''"
    using assms(1) by (auto simp: HasRole_def split: option.splits)
  then show ?thesis using GetMember_Some_UserID [OF x(1)] assms(2) by auto
qed

lemma remove_keeps_owner:
  assumes u: "unique_members ms" and h: "has_owner ms"
      and t: "GetMember ms k = Some m"
      and ok: "Role m \<noteq> ''owner'' \<or> \<not> ownerCount ms \<le> 1"
  shows "has_owner (filter (\<lambda>m. UserID m \<noteq> k) ms)"
proof (cases "Role m = ''owner''")
  case True
  then have "\<not> ownerCount ms \<le> 1" using ok by simp
  then show ?thesis using two_owners_other [OF u, of k] other_owner_remove(1) by blast
next
  case False
  have mk: "m \<in> set ms" "UserID m = k" using GetMember_Some_UserID [OF t] by simp_all
  obtain x where x: "x \<in> set ms" "Role x = ''owner''" using h by (auto simp: has_owner_iff)
  have "UserID x \<noteq> k"
    using unique_members_same [OF u x(1) mk(1)] mk(2) x(2) False by auto
  then show ?thesis using other_owner_remove(1) [OF x] by simp
qed

lemma update_keeps_owner:
  assumes u: "unique_members ms" and h: "has_owner ms"
      and t: "GetMember ms k = Some m"
      and g1: "\<not> (Role m = ''owner'' \<and> \<not> HasRole ms actor [''owner''])"
      and g2: "\<not> (k = actor \<and> Role m = ''owner'' \<and> r \<noteq> ''owner'' \<and> ownerCount ms \<le> 1)"
  shows "has_owner (update_first (\<lambda>m. UserID m = k) (\<lambda>m. m\<lparr>Role := r\<rparr>) ms)"
proof (rule role_update_keeps_owner [OF u h t])
  show "Role m \<noteq> ''owner'' \<or> r = ''owner'' \<or> (\<exists>a\<in>set ms. Role a = ''owner'' \<and> UserID a \<noteq> k)"
  proof (cases "Role m = ''owner'' \<and> r \<noteq> ''owner''")
    case False
    then show ?thesis by blast
  next
    case True
    then have a: "HasRole ms actor [''owner'']" using g1 by simp
    show ?thesis
    proof (cases "k = actor")
      case True
      then have "\<not> ownerCount ms \<le> 1" using g2 \<open>Role m = ''owner'' \<and> r \<noteq> ''owner''\<close> by simp
      then show ?thesis using two_owners_other [OF u, of k] by blast
    next
      case False
      then show ?thesis using actor_owner_other [OF a, of k] by blast
    qed
  qed
qed

lemma list_all_update_first_found:
  "find P xs = Some d \<Longrightarrow> list_all Q xs \<Longrightarrow> Q (f d) \<Longrightarrow> list_all Q (update_first P f xs)"
  by (induction xs) (auto split: if_splits)

lemma found_in_store:
  "OrganizationRepository_GetByID F s a = Inr org \<Longrightarrow>
     \<exists>objID. ObjectIDFromHex a = Inr objID \<and>
       find (\<lambda>d. org_ID d = objID) (organizations s) = Some org"
  "TeamRepository_GetByID F s a = Inr team \<Longrightarrow>
     \<exists>objID. ObjectIDFromHex a = Inr objID \<and>
       find (\<lambda>d. team_ID d = objID) (teams s) = Some team"
  by (auto simp: OrganizationRepository_GetByID_def TeamRepository_GetByID_def
      split: if_splits option.splits sum.splits)

lemma found_has_owner:
  "store_has_owner s \<Longrightarrow> find (\<lambda>d. org_ID d = a) (organizations s) = Some org \<Longrightarrow>
     has_owner (org_Members org)"
  "store_has_owner s \<Longrightarrow> find (\<lambda>d. team_ID d = a) (teams s) = Some team \<Longrightarrow>
     has_owner (team_Members team)"
  by (auto simp: store_has_owner_def list_all_iff dest: find_Some_set)

lemma found_unique:
  "store_unique_members s \<Longrightarrow> find (\<lambda>d. org_ID d = a) (organizations s) = Some org \<Longrightarrow>
     unique_members (org_Members org)"
  "store_unique_members s \<Longrightarrow> find (\<lambda>d. team_ID d = a) (teams s) = Some team \<Longrightarrow>
     unique_members (team_Members team)"
  by (auto simp: store_unique_members_def list_all_iff dest: find_Some_set)

lemma OrganizationRepository_RemoveMember_owner:
  assumes "ObjectIDFromHex a = Inr objID"
      and "store_has_owner s"
      and "find (\<lambda>d. org_ID d = objID) (organizations s) = Some org"
      and "has_owner (filter (\<lambda>m. UserID m \<noteq> b) (org_Members org))"
  shows "store_has_owner (snd (OrganizationRepository_RemoveMember F now a b s))"
  using assms
  by (auto simp: OrganizationRepository_RemoveMember_def Let_def store_has_owner_def
      intro!: list_all_update_first_found)

lemma OrganizationRepository_AddMember_owner:
  assumes hex: "ObjectIDFromHex a = Inr objID"
      and ids: "unique_ids s" and h: "store_has_owner s"
      and org: "find (\<lambda>d. org_ID d = objID) (organizations s) = Some org"
      and ok: "GetMember (org_Members org) b \<noteq> None \<Longrightarrow>
               has_owner (update_first (\<lambda>m. UserID m = b) (\<lambda>m. m\<lparr>Role := r\<rparr>) (org_Members org))"
  shows "store_has_owner (snd (OrganizationRepository_AddMember F now a b r i s))"
proof (cases "F (OrgAddMember a b)")
  case True
  then show ?thesis using h hex by (simp add: OrganizationRepository_AddMember_def)
next
  case nf: False
  have d: "distinct (map org_ID (organizations s))" using ids by (simp add: unique_ids_def)
  have ho: "has_owner (org_Members org)" using found_has_owner(1) [OF h org] .
  show ?thesis
  proof (cases "GetMember (org_Members org) b")
    case None
    have "OrganizationRepository_AddMember F now a b r i s =
           (None, s\<lparr>organizations := update_first (\<lambda>d. org_ID d = objID)
                (\<lambda>d. d\<lparr>org_Members := org_Members d @
                         [\<lparr>UserID = b, Role = r, JoinedAt = now, InvitedBy = i\<rparr>],
                       org_UpdatedAt := now\<rparr>) (organizations s)\<rparr>)"
      by (rule OrganizationRepository_AddMember_fresh; fact)
    then show ?thesis
      using h org ho
      by (auto simp: store_has_owner_def has_owner_append intro!: list_all_update_first_found)
  next
    case (Some m)
    have "OrganizationRepository_AddMember F now a b r i s =
           (None, s\<lparr>organizations := update_first (\<lambda>d. org_ID d = objID)
                (\<lambda>d. d\<lparr>org_Members :=
                         update_first (\<lambda>m. UserID m = b) (\<lambda>m. m\<lparr>Role := r\<rparr>) (org_Members d),
                       org_UpdatedAt := now\<rparr>) (organizations s)\<rparr>)"
      by (rule OrganizationRepository_AddMember_existing; fact)
    then show ?thesis
      using h org ok Some
      by (auto simp: store_has_owner_def intro!: list_all_update_first_found)
  qed
qed

lemma UpdateOrganizationMember_owner:
  assumes ids: "unique_ids s" and u: "store_unique_members s" and h: "store_has_owner s"
  shows "store_has_owner (snd (OrganizationService_UpdateOrganizationMember F now a b r c s))"
proof (cases "OrganizationRepository_GetByID F s a")
  case (Inl e)
  then show ?thesis using h by (simp add: OrganizationService_UpdateOrganizationMember_def)
next
  case (Inr org)
  obtain objID where hex: "ObjectIDFromHex a = Inr objID"
    and org: "find (\<lambda>d. org_ID d = objID) (organizations s) = Some org"
    using found_in_store(1) [OF Inr] by blast
  note uo = found_unique(1) [OF u org] and ho = found_has_owner(1) [OF h org]
  have add: "store_has_owner (snd (OrganizationRepository_AddMember F now a b r c s))"
    if "\<And>m. GetMember (org_Members org) b = Some m \<Longrightarrow>
          \<not> (Role m = ''owner'' \<and> \<not> HasRole (org_Members org) c [''owner'']) \<and>
          \<not> (b = c \<and> Role m = ''owner'' \<and> r \<noteq> ''owner'' \<and> ownerCount (org_Members org) \<le> 1)"
  proof (rule OrganizationRepository_AddMember_owner [OF hex ids h org])
    assume "GetMember (org_Members org) b \<noteq> None"
    then obtain m where m: "GetMember (org_Members org) b = Some m" by auto
    show "has_owner (update_first (\<lambda>m. UserID m = b) (\<lambda>m. m\<lparr>Role := r\<rparr>) (org_Members org))"
      using update_keeps_owner [OF uo ho m, of c r] that [OF m] by blast
  qed
  show ?thesis
    using Inr h add
    by (auto simp: OrganizationService_UpdateOrganizationMember_def Let_def split: option.splits)
qed

lemma RemoveOrganizationMember_owner:
  assumes u: "store_unique_members s" and h: "store_has_owner s"
  shows "store_has_owner (snd (OrganizationService_RemoveOrganizationMember F now a b c s))"
proof (cases "OrganizationRepository_GetByID F s a")
  case (Inl e)
  then show ?thesis using h by (simp add: OrganizationService_RemoveOrganizationMember_def)
next
  case (Inr org)
  obtain objID where hex: "ObjectIDFromHex a = Inr objID"
    and org: "find (\<lambda>d. org_ID d = objID) (organizations s) = Some org"
    using found_in_store(1) [OF Inr] by blast
  note uo = found_unique(1) [OF u org] and ho = found_has_owner(1) [OF h org]
  have rem: "store_has_owner (snd (OrganizationRepository_RemoveMember F now a b s))"
    if "GetMember (org_Members org) b = Some m" "Role m \<noteq> ''owner'' \<or> \<not> ownerCount (org_Members org) \<le> 1"
    for m
    using OrganizationRepository_RemoveMember_owner [OF hex h org remove_keeps_owner [OF uo ho that]] .
  have usr: "store_has_owner (snd (UserRepository_RemoveOrganizationFromUser F now b a st))"
    if "store_has_owner st" for st
    using that by (simp add: UserRepository_RemoveOrganizationFromUser_def store_has_owner_def)
  show ?thesis
  proof (cases "GetMember (org_Members org) b")
    case None
    then show ?thesis using Inr h by (simp add: OrganizationService_RemoveOrganizationMember_def)
  next
    case (Some m)
    show ?thesis
      using Inr Some h rem [OF Some] usr
      by (cases "OrganizationRepository_RemoveMember F now a b s")
         (auto simp: OrganizationService_RemoveOrganizationMember_def Let_def split: option.splits)
  qed
qed

lemma TeamRepository_RemoveMember_owner:
  assumes "ObjectIDFromHex a = Inr objID"
      and "store_has_owner s"
      and "find (\<lambda>d. team_ID d = objID) (teams s) = Some team"
      and "has_owner (filter (\<lambda>m. UserID m \<noteq> b) (team_Members team))"
  shows "store_has_owner (snd (TeamRepository_RemoveMember F now a b s))"
  using assms
  by (auto simp: TeamRepository_RemoveMember_def Let_def store_has_owner_def
      intro!: list_all_update_first_found)

lemma TeamRepository_AddMember_owner:
  assumes hex: "ObjectIDFromHex a = Inr objID"
      and ids: "unique_ids s" and h: "store_has_owner s"
      and team: "find (\<lambda>d. team_ID d = objID) (teams s) = Some team"
      and ok: "GetMember (team_Members team) b \<noteq> None \<Longrightarrow>
               has_owner (update_first (\<lambda>m. UserID m = b) (\<lambda>m. m\<lparr>Role := r\<rparr>) (team_Members team))"
  shows "store_has_owner (snd (TeamRepository_AddMember F now a b r i s))"
proof (cases "F (TeamAddMember a b)")
  case True
  then show ?thesis using h hex by (simp add: TeamRepository_AddMember_def)
next
  case nf: False
  have d: "distinct (map team_ID (teams s))" using ids by (simp add: unique_ids_def)
  have ho: "has_owner (team_Members team)" using found_has_owner(2) [OF h team] .
  show ?thesis
  proof (cases "GetMember (team_Members team) b")
    case None
    have "TeamRepository_AddMember F now a b r i s =
           (None, s\<lparr>teams := update_first (\<lambda>d. team_ID d = objID)
                (\<lambda>d. d\<lparr>team_Members := team_Members d @
                         [\<lparr>UserID = b, Role = r, JoinedAt = now, InvitedBy = i\<rparr>],
                       team_UpdatedAt := now\<rparr>) (teams s)\<rparr>)"
      by (rule TeamRepository_AddMember_fresh; fact)
    then show ?thesis
      using h team ho
      by (auto simp: store_has_owner_def has_owner_append intro!: list_all_update_first_found)
  next
    case (Some m)
    have "TeamRepository_AddMember F now a b r i s =
           (None, s\<lparr>teams := update_first (\<lambda>d. team_ID d = objID)
                (\<lambda>d. d\<lparr>team_Members :=
                         update_first (\<lambda>m. UserID m = b) (\<lambda>m. m\<lparr>Role := r\<rparr>) (team_Members d),
                       team_UpdatedAt := now\<rparr>) (teams s)\<rparr>)"
      by (rule TeamRepository_AddMember_existing; fact)
    then show ?thesis
      using h team ok Some
      by (auto simp: store_has_owner_def intro!: list_all_update_first_found)
  qed
qed

lemma UpdateTeamMember_owner:
  assumes ids: "unique_ids s" and u: "store_unique_members s" and h: "store_has_owner s"
  shows "store_has_owner (snd (TeamService_UpdateTeamMember F now a b r c s))"
proof (cases "TeamRepository_GetByID F s a")
  case (Inl e)
  then show ?thesis using h by (simp add: TeamService_UpdateTeamMember_def)
next
  case (Inr team)
  obtain objID where hex: "ObjectIDFromHex a = Inr objID"
    and team: "find (\<lambda>d. team_ID d = objID) (teams s) = Some team"
    using found_in_store(2) [OF Inr] by blast
  note uo = found_unique(2) [OF u team] and ho = found_has_owner(2) [OF h team]
  have add: "store_has_owner (snd (TeamRepository_AddMember F now a b r c s))"
    if "\<And>m. GetMember (team_Members team) b = Some m \<Longrightarrow>
          \<not> (Role m = ''owner'' \<and> \<not> HasRole (team_Members team) c [''owner'']) \<and>
          \<not> (b = c \<and> Role m = ''owner'' \<and> r \<noteq> ''owner'' \<and> ownerCount (team_Members team) \<le> 1)"
  proof (rule TeamRepository_AddMember_owner [OF hex ids h team])
    assume "GetMember (team_Members team) b \<noteq> None"
    then obtain m where m: "GetMember (team_Members team) b = Some m" by auto
    show "has_owner (update_first (\<lambda>m. UserID m = b) (\<lambda>m. m\<lparr>Role := r\<rparr>) (team_Members team))"
      using update_keeps_owner [OF uo ho m, of c r] that [OF m] by blast
  qed
  show ?thesis
    using Inr h add
    by (auto simp: TeamService_UpdateTeamMember_def Let_def split: option.splits)
qed

lemma RemoveTeamMember_owner:
  assumes u: "store_unique_members s" and h: "store_has_owner s"
  shows "store_has_owner (snd (TeamService_RemoveTeamMember F now a b c s))"
proof (cases "TeamRepository_GetByID F s a")
  case (Inl e)
  then show ?thesis using h by (simp add: TeamService_RemoveTeamMember_def)
next
  case (Inr team)
  obtain objID where hex: "ObjectIDFromHex a = Inr objID"
    and team: "find (\<lambda>d. team_ID d = objID) (teams s) = Some team"
    using found_in_store(2) [OF Inr] by blast
  note uo = found_unique(2) [OF u team] and ho = found_has_owner(2) [OF h team]
  have rem: "store_has_owner (snd (TeamRepository_RemoveMember F now a b s))"
    if "GetMember (team_Members team) b = Some m" "Role m \<noteq> ''owner'' \<or> \<not> ownerCount (team_Members team) \<le> 1"
    for m
    using TeamRepository_RemoveMember_owner [OF hex h team remove_keeps_owner [OF uo ho that]] .
  have usr: "store_has_owner (snd (UserRepository_RemoveTeamFromUser F now b a st))"
    if "store_has_owner st" for st
    using that by (simp add: UserRepository_RemoveTeamFromUser_def store_has_owner_def)
  show ?thesis
  proof (cases "GetMember (team_Members team) b")
    case None
    then show ?thesis using Inr h by (simp add: TeamService_RemoveTeamMember_def)
  next
    case (Some m)
    show ?thesis
      using Inr Some h rem [OF Some] usr
      by (cases "TeamRepository_RemoveMember F now a b s")
         (auto simp: TeamService_RemoveTeamMember_def Let_def split: option.splits)
  qed
qed


lemma map_key_update_first:
  "(\<And>x. key (f x) = key x) \<Longrightarrow> map key (update_first P f xs) = map key xs"
  by (induction xs) auto

lemma distinct_append_new:
  "distinct (map key xs) \<Longrightarrow> find (\<lambda>d. key d = key x) xs = None \<Longrightarrow> distinct (map key (xs @ [x]))"
  by (auto simp: find_None_iff)

lemma find_None_key:
  "find (\<lambda>d. key d = k) xs = None \<Longrightarrow> x \<in> set xs \<Longrightarrow> key x = k \<Longrightarrow> False"
  by (auto simp: find_None_iff)

lemma repo_unique_ids:
  assumes "unique_ids s"
  shows "unique_ids (snd (OrganizationRepository_Create F org s))"
    and "unique_ids (snd (OrganizationRepository_Update F now org s))"
    and "unique_ids (snd (OrganizationRepository_Delete F a s))"
    and "unique_ids (snd (OrganizationRepository_AddMember F now a b r i s))"
    and "unique_ids (snd (OrganizationRepository_RemoveMember F now a b s))"
    and "unique_ids (snd (OrganizationRepository_AddTeam F now a b s))"
    and "unique_ids (snd (OrganizationRepository_RemoveTeam F now a b s))"
    and "unique_ids (snd (TeamRepository_Create F team s))"
    and "unique_ids (snd (TeamRepository_Update F now team s))"
    and "unique_ids (snd (TeamRepository_Delete F a s))"
    and "unique_ids (snd (TeamRepository_AddMember F now a b r i s))"
    and "unique_ids (snd (TeamRepository_RemoveMember F now a b s))"
    and "unique_ids (snd (UserRepository_Create F user s))"
    and "unique_ids (snd (UserRepository_AddOrganizationToUser F now a b s))"
    and "unique_ids (snd (UserRepository_RemoveOrganizationFromUser F now a b s))"
    and "unique_ids (snd (UserRepository_AddTeamToUser F now a b s))"
    and "unique_ids (snd (UserRepository_RemoveTeamFromUser F now a b s))"
  using assms
  by (auto simp: unique_ids_def map_key_update_first distinct_map_delete_first distinct_append_new
      OrganizationRepository_Create_def OrganizationRepository_Update_def
      OrganizationRepository_Delete_def OrganizationRepository_AddMember_def
      OrganizationRepository_RemoveMember_def OrganizationRepository_AddTeam_def
      OrganizationRepository_RemoveTeam_def TeamRepository_Create_def TeamRepository_Update_def
      TeamRepository_Delete_def TeamRepository_AddMember_def TeamRepository_RemoveMember_def
      UserRepository_Create_def UserRepository_AddOrganizationToUser_def
      UserRepository_RemoveOrganizationFromUser_def UserRepository_AddTeamToUser_def
      UserRepository_RemoveTeamFromUser_def Let_def
      split: sum.splits
      dest: find_None_key [where key = org_ID] find_None_key [where key = team_ID])

lemma case_prod_inv:
  assumes "Q (snd p)" and "\<And>s1. Q s1 \<Longrightarrow> Q (g s1)"
  shows "Q (snd (case p of (Some err, s1) \<Rightarrow> (Some err, s1) | (None, s1) \<Rightarrow> (None, g s1)))"
  using assms by (cases p) (auto split: option.splits)

lemma fold_inv:
  assumes "Q s" and "\<And>x st. Q st \<Longrightarrow> Q (f x st)"
  shows "Q (fold f xs s)"
  using assms by (induction xs arbitrary: s) auto

lemma exec_unique_ids: "unique_ids s \<Longrightarrow> unique_ids (snd (exec F now op s))"
  by (cases op)
     (auto simp: OrganizationService_CreateOrganization_def OrganizationService_UpdateOrganization_def
        OrganizationService_DeleteOrganization_def OrganizationService_AddOrganizationMember_def
        OrganizationService_UpdateOrganizationMember_def OrganizationService_RemoveOrganizationMember_def
        TeamService_CreateTeam_def TeamService_UpdateTeam_def TeamService_DeleteTeam_def
        TeamService_AddTeamMember_def TeamService_UpdateTeamMember_def TeamService_RemoveTeamMember_def
        UserService_ProcessAuthUserCreated_def UserService_CreateUser_def Let_def
        split: sum.splits option.splits event_data.splits
        intro!: case_prod_inv [where Q = unique_ids] fold_inv [where Q = unique_ids] repo_unique_ids)

lemma repo_has_owner:
  assumes "store_has_owner s"
  shows "store_has_owner (snd (OrganizationRepository_Delete F a s))"
    and "store_has_owner (snd (TeamRepository_Delete F a s))"
    and "store_has_owner (snd (OrganizationRepository_AddTeam F now a b s))"
    and "store_has_owner (snd (OrganizationRepository_RemoveTeam F now a b s))"
    and "store_has_owner (snd (UserRepository_AddOrganizationToUser F now a b s))"
    and "store_has_owner (snd (UserRepository_RemoveOrganizationFromUser F now a b s))"
    and "store_has_owner (snd (UserRepository_AddTeamToUser F now a b s))"
    and "store_has_owner (snd (UserRepository_RemoveTeamFromUser F now a b s))"
    and "store_has_owner (snd (UserRepository_Create F user s))"
  using assms
  by (auto simp: store_has_owner_def OrganizationRepository_Delete_def TeamRepository_Delete_def
      OrganizationRepository_AddTeam_def OrganizationRepository_RemoveTeam_def
      UserRepository_AddOrganizationToUser_def UserRepository_RemoveOrganizationFromUser_def
      UserRepository_AddTeamToUser_def UserRepository_RemoveTeamFromUser_def
      UserRepository_Create_def Let_def
      split: sum.splits intro!: list_all_update_first list_all_delete_first)

lemma repo_has_owner_write:
  assumes "store_has_owner s"
  shows "has_owner (org_Members org) \<Longrightarrow> store_has_owner (snd (OrganizationRepository_Create F org s))"
    and "has_owner (org_Members org) \<Longrightarrow> store_has_owner (snd (OrganizationRepository_Update F now org s))"
    and "has_owner (team_Members team) \<Longrightarrow> store_has_owner (snd (TeamRepository_Create F team s))"
    and "has_owner (team_Members team) \<Longrightarrow> store_has_owner (snd (TeamRepository_Update F now team s))"
  using assms
  by (auto simp: store_has_owner_def OrganizationRepository_Create_def
      OrganizationRepository_Update_def TeamRepository_Create_def TeamRepository_Update_def
      split: sum.splits intro!: list_all_update_first)

lemma got_has_owner:
  "store_has_owner s \<Longrightarrow> OrganizationRepository_GetByID F s a = Inr org \<Longrightarrow>
     has_owner (org_Members org)"
  "store_has_owner s \<Longrightarrow> TeamRepository_GetByID F s a = Inr team \<Longrightarrow>
     has_owner (team_Members team)"
  using found_in_store found_has_owner by blast+

lemma has_owner_new:
  "has_owner (org_Members (NewOrganization now newId creq createdBy))"
  "has_owner (team_Members (NewTeam now newId treq createdBy))"
  by (simp_all add: has_owner_def NewOrganization_def NewTeam_def)

lemma other_ops_keep_owner:
  assumes h: "store_has_owner s"
  shows "store_has_owner (snd (OrganizationService_CreateOrganization F now newId creq createdBy s))"
    and "store_has_owner (snd (OrganizationService_UpdateOrganization F now a ureq userID s))"
    and "store_has_owner (snd (OrganizationService_DeleteOrganization F now a userID s))"
    and "store_has_owner (snd (TeamService_CreateTeam F now newId treq createdBy s))"
    and "store_has_owner (snd (TeamService_UpdateTeam F now a utreq userID s))"
    and "store_has_owner (snd (TeamService_DeleteTeam F now a userID s))"
    and "store_has_owner (snd (UserService_ProcessAuthUserCreated F now newId ev s))"
proof -
  show "store_has_owner (snd (OrganizationService_CreateOrganization F now newId creq createdBy s))"
    using h
    by (auto simp: OrganizationService_CreateOrganization_def Let_def has_owner_new
        intro!: case_prod_inv [where Q = store_has_owner] repo_has_owner repo_has_owner_write)
  show "store_has_owner (snd (OrganizationService_UpdateOrganization F now a ureq userID s))"
    using h got_has_owner(1) [OF h]
    by (auto simp: OrganizationService_UpdateOrganization_def unique_members_new
        split: sum.splits intro!: repo_has_owner_write)
  show "store_has_owner (snd (OrganizationService_DeleteOrganization F now a userID s))"
    using h
    by (auto simp: OrganizationService_DeleteOrganization_def Let_def split: sum.splits
        intro!: case_prod_inv [where Q = store_has_owner] fold_inv [where Q = store_has_owner]
          repo_has_owner)
  show "store_has_owner (snd (TeamService_CreateTeam F now newId treq createdBy s))"
    using h
    by (auto simp: TeamService_CreateTeam_def Let_def has_owner_new split: sum.splits
        intro!: case_prod_inv [where Q = store_has_owner] repo_has_owner repo_has_owner_write)
  show "store_has_owner (snd (TeamService_UpdateTeam F now a utreq userID s))"
    using h got_has_owner(2) [OF h]
    by (auto simp: TeamService_UpdateTeam_def unique_members_new
        split: sum.splits intro!: repo_has_owner_write)
  show "store_has_owner (snd (TeamService_DeleteTeam F now a userID s))"
    using h
    by (auto simp: TeamService_DeleteTeam_def split: sum.splits
        intro!: case_prod_inv [where Q = store_has_owner] fold_inv [where Q = store_has_owner]
          repo_has_owner)
  show "store_has_owner (snd (UserService_ProcessAuthUserCreated F now newId ev s))"
    using h
    by (auto simp: UserService_ProcessAuthUserCreated_def UserService_CreateUser_def Let_def
        split: event_data.splits sum.splits intro!: repo_has_owner)
qed

lemma exec_keeps_owner:
  assumes "unique_ids s" "store_unique_members s" "store_has_owner s" "\<not> is_add_member op"
  shows "store_has_owner (snd (exec F now op s))"
  using assms
  by (cases op)
     (simp_all add: other_ops_keep_owner UpdateOrganizationMember_owner RemoveOrganizationMember_owner
        UpdateTeamMember_owner RemoveTeamMember_owner)

text \<open>
  Every history that contains no \<^verbatim>\<open>AddOrganizationMember\<close> and no \<^verbatim>\<open>AddTeamMember\<close>
  call keeps an Owner in every organization and team, whatever fails in it: creation
  inserts the creator as Owner, the update and remove methods guard the last Owner, and
  the other methods do not touch the member lists.  The add methods are the only way to
  lose the Owner.
\<close>

lemma run_keeps_owner:
  assumes "list_all (\<lambda>(F, now, op). \<not> is_add_member op) steps"
      and "unique_ids s" "store_unique_members s" "store_has_owner s"
  shows "store_has_owner (run steps s)"
  using assms
proof (induction steps arbitrary: s)
  case Nil
  then show ?case by simp
next
  case (Cons st steps)
  obtain F now op where st: "st = (F, now, op)" by (cases st) auto
  have n: "\<not> is_add_member op" and rest: "list_all (\<lambda>(F, now, op). \<not> is_add_member op) steps"
    using Cons.prems(1) by (simp_all add: st)
  show ?case
    using Cons.IH [OF rest exec_unique_ids [OF Cons.prems(2), of F now op]
        exec_unique [OF Cons.prems(3), of F now op]
        exec_keeps_owner [OF Cons.prems(2,3,4) n, of F now]]
    by (simp add: st)
qed

section \<open>Deleting an organization\<close>





lemma TeamDelete_frame:
  "organizations (fold (\<lambda>teamID st. snd (TeamRepository_Delete F teamID st)) ids s) = organizations s \<and>
   users (fold (\<lambda>teamID st. snd (TeamRepository_Delete F teamID st)) ids s) = users s"
  by (rule fold_inv [where Q = "\<lambda>st. organizations st = organizations s \<and> users st = users s"])
     (auto simp: TeamRepository_Delete_def split: sum.splits)






lemma DeleteOrganization_keeps_teamIds:
  "map user_TeamIDs (users (snd (OrganizationService_DeleteOrganization F now ident userID s))) =
   map user_TeamIDs (users s)"
proof -
  have u: "map user_TeamIDs (users (snd (UserRepository_RemoveOrganizationFromUser F now k ident st))) =
           map user_TeamIDs (users st)" for k st
    by (simp add: UserRepository_RemoveOrganizationFromUser_def map_key_update_first)
  have f: "map user_TeamIDs (users (fold (\<lambda>member st.
             snd (UserRepository_RemoveOrganizationFromUser F now (UserID member) ident st)) ms st)) =
           map user_TeamIDs (users st)" for ms st
    by (induction ms arbitrary: st) (simp_all add: u)
  have d: "users st' = users st" if "OrganizationRepository_Delete F ident st = (r, st')" for r st st'
    using that by (auto simp: OrganizationRepository_Delete_def split: sum.splits if_splits)
  show ?thesis
    using TeamDelete_frame [of F _ s]
    by (auto simp: OrganizationService_DeleteOrganization_def Let_def f
        split: sum.splits prod.splits option.splits dest!: d)
qed




end
